theory Spec2Isabelle
  imports Main "HOL-Library.Sublist" "HOL-Library.Multiset"
begin

section \<open>JavaScript strings\<close>

text \<open>
  A JavaScript string is a sequence of UTF-16 code units; a code unit is modelled by its
  number. \<open>js\<close> turns an ASCII literal into such a sequence; the accented letters of the
  source's literals are written by their code unit (all of them are below 256).
\<close>

type_synonym jsstring = "nat list"

definition js :: "string \<Rightarrow> jsstring" where
  "js s = map of_char s"

text \<open>\<open>startsWith s p\<close>: the string \<open>s\<close> begins with \<open>p\<close>.\<close>

fun startsWith :: "jsstring \<Rightarrow> jsstring \<Rightarrow> bool" where
  "startsWith s [] = True"
| "startsWith [] (p # ps) = False"
| "startsWith (c # s) (p # ps) = (c = p \<and> startsWith s ps)"

text \<open>\<^verbatim>\<open>String.prototype.includes\<close>: the argument occurs in the string as a contiguous
  run of code units.\<close>

fun includesStr :: "jsstring \<Rightarrow> jsstring \<Rightarrow> bool" where
  "includesStr [] sub = (sub = [])"
| "includesStr (c # s) sub = (startsWith (c # s) sub \<or> includesStr s sub)"

section \<open>Image codec: the data-URL parse and its inverse\<close>

text \<open>
  Both \<^verbatim>\<open>remixImage\<close> and \<^verbatim>\<open>generateDecadeImage\<close> begin with
  \<^verbatim>\<open>imageDataUrl.match(/^data:(image\/\w+);base64,(.*)$/)\<close>
  and throw when there is no match. The regular expression has no flags, so \<^verbatim>\<open>\w\<close> is
  \<^verbatim>\<open>[A-Za-z0-9_]\<close>, \<^verbatim>\<open>.\<close> is any code unit but a line terminator, and
  \<^verbatim>\<open>^\<close>, \<^verbatim>\<open>$\<close> are the two ends of the input.
\<close>

definition isWordChar :: "nat \<Rightarrow> bool" where
  "isWordChar c = ((48 \<le> c \<and> c \<le> 57) \<or> (65 \<le> c \<and> c \<le> 90) \<or> c = 95 \<or> (97 \<le> c \<and> c \<le> 122))"

definition isLineTerminator :: "nat \<Rightarrow> bool" where
  "isLineTerminator c = (c = 10 \<or> c = 13 \<or> c = 8232 \<or> c = 8233)"

fun stripPrefix :: "jsstring \<Rightarrow> jsstring \<Rightarrow> jsstring option" where
  "stripPrefix [] s = Some s"
| "stripPrefix (p # ps) [] = None"
| "stripPrefix (p # ps) (c # s) = (if p = c then stripPrefix ps s else None)"

text \<open>
  The match, left to right: the literal \<^verbatim>\<open>data:image/\<close>, the longest run of word
  characters (at least one; a shorter run would leave a word character where \<^verbatim>\<open>;\<close>
  must stand), the literal \<^verbatim>\<open>;base64,\<close>, and the rest of the input, which must hold
  no line terminator. The result is the pair of capture groups.
\<close>

definition dataUrlMatch :: "jsstring \<Rightarrow> (jsstring \<times> jsstring) option" where
  "dataUrlMatch s =
    (case stripPrefix (js ''data:image/'') s of
       None \<Rightarrow> None
     | Some r \<Rightarrow>
        (let w = takeWhile isWordChar r; rest = dropWhile isWordChar r in
         if w = [] then None
         else (case stripPrefix (js '';base64,'') rest of
                 None \<Rightarrow> None
               | Some d \<Rightarrow> if list_ex isLineTerminator d then None
                           else Some (js ''image/'' @ w, d))))"

record ImagePayload =
  mimeType :: jsstring
  data :: jsstring

text \<open>A thrown JavaScript value: an \<^verbatim>\<open>Error\<close> with its message, or any other value,
  given by the texts \<^verbatim>\<open>JSON.stringify\<close> and \<^verbatim>\<open>String\<close> make of it (a value of
  which \<^verbatim>\<open>JSON.stringify\<close> makes no text is left out).\<close>

datatype thrown = JsError jsstring | JsValue jsstring jsstring

definition InvalidImageFormat :: thrown where
  "InvalidImageFormat = JsError (js ''Formato de URL de dados de imagem inv'' @ [225] @
     js ''lido. Esperado '' @ [39] @ js ''data:image/...;base64,...'' @ [39])"

text \<open>\<open>decode\<close> is the shared prologue of \<^verbatim>\<open>remixImage\<close> and
  \<^verbatim>\<open>generateDecadeImage\<close>: the match, the throw, and the destructuring
  \<^verbatim>\<open>const [, mimeType, base64Data] = match\<close>.\<close>

definition decode :: "jsstring \<Rightarrow> thrown + ImagePayload" where
  "decode imageDataUrl =
    (case dataUrlMatch imageDataUrl of
       None \<Rightarrow> Inl InvalidImageFormat
     | Some (mt, base64Data) \<Rightarrow> Inr \<lparr>mimeType = mt, data = base64Data\<rparr>)"

text \<open>\<open>encode\<close> is the template literal of \<^verbatim>\<open>processGeminiResponse\<close>:
  \<^verbatim>\<open>`data:${mimeType};base64,${data}`\<close>.\<close>

definition encode :: "ImagePayload \<Rightarrow> jsstring" where
  "encode p = js ''data:'' @ mimeType p @ js '';base64,'' @ data p"


section \<open>Generation client\<close>

subsection \<open>Requests, responses and the remote service\<close>

text \<open>
  The request of \<^verbatim>\<open>ai.models.generateContent\<close> always names the same model; what
  varies is \<^verbatim>\<open>contents.parts = [imagePart, textPart]\<close>. Of a response the code reads
  \<^verbatim>\<open>candidates?.[0]?.content?.parts\<close> (the empty list stands for an absent link of
  that chain) and the getter \<^verbatim>\<open>text\<close>.
\<close>

record Request =
  imagePart :: ImagePayload
  textPart :: jsstring

record Part =
  inlineData :: "ImagePayload option"

record GenerateContentResponse =
  parts :: "Part list"
  responseText :: "jsstring option"

text \<open>What the program does to the outside world, in order: a transport call, or a
  \<^verbatim>\<open>setTimeout\<close> delay in milliseconds.\<close>

datatype event = Transport Request | Delay nat

text \<open>The remote service is a parameter: it answers a request, knowing everything that
  happened before, with a response or with a thrown value.\<close>

type_synonym transport = "event list \<Rightarrow> Request \<Rightarrow> thrown + GenerateContentResponse"

text \<open>\<^verbatim>\<open>error instanceof Error ? error.message : JSON.stringify(error)\<close>\<close>

definition errorMessageOf :: "thrown \<Rightarrow> jsstring" where
  "errorMessageOf e = (case e of JsError m \<Rightarrow> m | JsValue json str \<Rightarrow> json)"

text \<open>\<^verbatim>\<open>fallbackError instanceof Error ? fallbackError.message : String(fallbackError)\<close>\<close>

definition finalErrorMessageOf :: "thrown \<Rightarrow> jsstring" where
  "finalErrorMessageOf e = (case e of JsError m \<Rightarrow> m | JsValue json str \<Rightarrow> str)"

subsection \<open>Helper functions\<close>

definition getFallbackPrompt :: "jsstring \<Rightarrow> jsstring \<Rightarrow> jsstring" where
  "getFallbackPrompt hairstyle gender =
     js ''Crie uma fotografia da pessoa nesta imagem com um penteado '' @ gender @
     js '' moderno '' @ hairstyle @
     js ''. A fotografia deve mostrar claramente o penteado e ter um aspeto aut'' @ [234] @
     js ''ntico e de alta qualidade.''"

definition noImagePhrase :: jsstring where
  "noImagePhrase = js ''O modelo de IA respondeu com texto em vez de uma imagem''"

text \<open>The error thrown when the response holds no image:
  \<^verbatim>\<open>textResponse || 'Nenhuma resposta de texto recebida.'\<close> between double quotes.\<close>

definition noImageError :: "GenerateContentResponse \<Rightarrow> thrown" where
  "noImageError response =
     JsError (noImagePhrase @ js '': '' @ [34] @
       (case responseText response of
          None \<Rightarrow> js ''Nenhuma resposta de texto recebida.''
        | Some textResponse \<Rightarrow>
            if textResponse = [] then js ''Nenhuma resposta de texto recebida.''
            else textResponse) @ [34])"

definition processGeminiResponse :: "GenerateContentResponse \<Rightarrow> thrown + jsstring" where
  "processGeminiResponse response =
    (case find (\<lambda>part. inlineData part \<noteq> None) (parts response) of
       None \<Rightarrow> Inl (noImageError response)
     | Some imagePartFromResponse \<Rightarrow>
        (case inlineData imagePartFromResponse of
           None \<Rightarrow> Inl (noImageError response)
         | Some blob \<Rightarrow> Inr (encode blob)))"

subsection \<open>Transport with retry\<close>

definition maxRetries :: nat where
  "maxRetries = 3"

definition initialDelay :: nat where
  "initialDelay = 1000"

definition isInternalError :: "thrown \<Rightarrow> bool" where
  "isInternalError e =
     (includesStr (errorMessageOf e) ([34] @ js ''code'' @ [34] @ js '':500'') \<or>
      includesStr (errorMessageOf e) (js ''INTERNAL''))"

text \<open>The \<^verbatim>\<open>for\<close> loop of \<^verbatim>\<open>callGeminiWithRetry\<close>, entered at
  \<open>attempt\<close>. The last line is the throw after the loop.\<close>

function callGeminiWithRetry_from ::
  "transport \<Rightarrow> Request \<Rightarrow> nat \<Rightarrow> event list \<Rightarrow> (thrown + GenerateContentResponse) \<times> event list"
where
  "callGeminiWithRetry_from t req attempt tr =
    (if attempt \<le> maxRetries then
       (case t tr req of
          Inr response \<Rightarrow> (Inr response, tr @ [Transport req])
        | Inl e \<Rightarrow>
            if isInternalError e \<and> attempt < maxRetries then
              callGeminiWithRetry_from t req (attempt + 1)
                (tr @ [Transport req, Delay (initialDelay * 2 ^ (attempt - 1))])
            else (Inl e, tr @ [Transport req]))
     else (Inl (JsError (js ''A chamada '' @ [224] @ js '' API Gemini falhou ap'' @ [243] @
                  js ''s todas as tentativas.'')), tr))"
  by pat_completeness auto
termination
  by (relation "measure (\<lambda>(t, req, attempt, tr). Suc maxRetries - attempt)") auto

declare callGeminiWithRetry_from.simps [simp del]

definition callGeminiWithRetry ::
  "transport \<Rightarrow> ImagePayload \<Rightarrow> jsstring \<Rightarrow> event list \<Rightarrow> (thrown + GenerateContentResponse) \<times> event list"
where
  "callGeminiWithRetry t img txt tr =
     callGeminiWithRetry_from t \<lparr>imagePart = img, textPart = txt\<rparr> 1 tr"

text \<open>The body shared by the three \<^verbatim>\<open>try\<close> blocks: the call, then the extraction
  of the image; a throw of either leaves the block.\<close>

definition callAndProcess ::
  "transport \<Rightarrow> ImagePayload \<Rightarrow> jsstring \<Rightarrow> event list \<Rightarrow> (thrown + jsstring) \<times> event list"
where
  "callAndProcess t img txt tr =
    (case callGeminiWithRetry t img txt tr of
       (Inl e, tr') \<Rightarrow> (Inl e, tr')
     | (Inr response, tr') \<Rightarrow> (processGeminiResponse response, tr'))"

subsection \<open>The two clients\<close>

text \<open>The errors the clients throw, by the message each embeds.\<close>

definition remixFailedError :: "jsstring \<Rightarrow> thrown" where
  "remixFailedError errorMessage =
     JsError (js ''O modelo de IA falhou ao modificar a imagem. Detalhes: '' @ errorMessage)"

definition fallbackFailedError :: "jsstring \<Rightarrow> thrown" where
  "fallbackFailedError finalErrorMessage =
     JsError (js ''O modelo de IA falhou com os prompts original e de recurso. '' @ [218] @
              js ''ltimo erro: '' @ finalErrorMessage)"

definition unrecoverableError :: "jsstring \<Rightarrow> thrown" where
  "unrecoverableError errorMessage =
     JsError (js ''O modelo de IA n'' @ [227] @ js ''o conseguiu gerar uma imagem. Detalhes: '' @
              errorMessage)"

definition isNoImageError :: "thrown \<Rightarrow> bool" where
  "isNoImageError e = includesStr (errorMessageOf e) noImagePhrase"

definition remixImage ::
  "transport \<Rightarrow> jsstring \<Rightarrow> jsstring \<Rightarrow> event list \<Rightarrow> (thrown + jsstring) \<times> event list"
where
  "remixImage t imageDataUrl prompt tr =
    (case decode imageDataUrl of
       Inl e \<Rightarrow> (Inl e, tr)
     | Inr img \<Rightarrow>
        (case callAndProcess t img prompt tr of
           (Inr resultUrl, tr') \<Rightarrow> (Inr resultUrl, tr')
         | (Inl e, tr') \<Rightarrow> (Inl (remixFailedError (errorMessageOf e)), tr')))"

definition generateDecadeImage ::
  "transport \<Rightarrow> jsstring \<Rightarrow> jsstring \<Rightarrow> jsstring \<Rightarrow> jsstring \<Rightarrow> event list \<Rightarrow>
     (thrown + jsstring) \<times> event list"
where
  "generateDecadeImage t imageDataUrl prompt hairstyle gender tr =
    (case decode imageDataUrl of
       Inl e \<Rightarrow> (Inl e, tr)
     | Inr img \<Rightarrow>
        (case callAndProcess t img prompt tr of
           (Inr resultUrl, tr1) \<Rightarrow> (Inr resultUrl, tr1)
         | (Inl e, tr1) \<Rightarrow>
             if isNoImageError e then
               if hairstyle = [] \<or> gender = [] then (Inl e, tr1)
               else
                 (case callAndProcess t img (getFallbackPrompt hairstyle gender) tr1 of
                    (Inr resultUrl, tr2) \<Rightarrow> (Inr resultUrl, tr2)
                  | (Inl fallbackError, tr2) \<Rightarrow>
                      (Inl (fallbackFailedError (finalErrorMessageOf fallbackError)), tr2))
             else (Inl (unrecoverableError (errorMessageOf e)), tr1)))"

section \<open>Orchestrator\<close>

subsection \<open>State\<close>

datatype ImageStatus = Pending | Done | Error

record GeneratedImage =
  status :: ImageStatus
  url :: "jsstring option"
  error :: "jsstring option"

datatype Gender = Masculino | Feminino

datatype AppPhase = Idle | ImageUploaded | Generating | ResultsShown

text \<open>The component's state, as \<^verbatim>\<open>useState\<close> holds it (without
  \<^verbatim>\<open>isDownloading\<close>, which none of the handlers below reads or writes). A handler
  reads the state of the latest render; an update \<^verbatim>\<open>setGeneratedImages(prev => ...)\<close> is
  applied to the state current at that moment, in one step.\<close>

record App =
  uploadedImage :: "jsstring option"
  generatedImages :: "jsstring \<rightharpoonup> GeneratedImage"
  isLoading :: bool
  appState :: AppPhase
  selectedGender :: "Gender option"

definition MALE_HAIRSTYLES :: "jsstring list" where
  "MALE_HAIRSTYLES =
    [js ''Corte Buzz (com Degrad'' @ [234] @ js '')'',
     js ''Undercut Desconectado'',
     js ''Coque Samurai'',
     js ''Cabelo M'' @ [233] @ js ''dio Despenteado'',
     js ''Tran'' @ [231] @ js ''as Nag'' @ [244],
     js ''Cabelo Longo Ondulado'']"

definition FEMALE_HAIRSTYLES :: "jsstring list" where
  "FEMALE_HAIRSTYLES =
    [js ''Pixie Assim'' @ [233] @ js ''trico'',
     js ''Bob Franc'' @ [234] @ js ''s (com Franja)'',
     js ''Ondas de Sereia (Longo)'',
     js ''Coque Alto (Despenteado)'',
     js ''Tran'' @ [231] @ js ''as Boxeadora'',
     js ''Afro Volumoso'']"

definition hairstylesOf :: "Gender \<Rightarrow> jsstring list" where
  "hairstylesOf gender = (if gender = Masculino then MALE_HAIRSTYLES else FEMALE_HAIRSTYLES)"

definition genderStr :: "Gender \<Rightarrow> jsstring" where
  "genderStr gender = (case gender of Masculino \<Rightarrow> js ''masculino'' | Feminino \<Rightarrow> js ''feminino'')"

text \<open>The prompt built, with the same text, by \<^verbatim>\<open>processHairstyle\<close> and
  \<^verbatim>\<open>handleRegenerateDecade\<close>.\<close>

definition stylePrompt :: "Gender \<Rightarrow> jsstring \<Rightarrow> jsstring" where
  "stylePrompt gender hairstyle =
     js ''D'' @ [234] @ js '' '' @ [224] @ js '' pessoa nesta foto um penteado '' @
     (if gender = Masculino then js ''masculino'' else js ''feminino'') @
     js '' moderno '' @ [39] @ hairstyle @ [39] @
     js ''. O resultado deve ser uma imagem fotorrealista, perfeita para uma consulta de barbearia, focando na mudan'' @
     [231] @ js ''a do penteado e preservando ao m'' @ [225] @ js ''ximo as fei'' @
     [231, 245] @ js ''es da pessoa.''"

text \<open>\<^verbatim>\<open>!v\<close> for a value of type \<^verbatim>\<open>string | null | undefined\<close> is the negation of
  this.\<close>

definition truthy :: "jsstring option \<Rightarrow> bool" where
  "truthy v = (case v of None \<Rightarrow> False | Some s \<Rightarrow> s \<noteq> [])"

text \<open>\<^verbatim>\<open>err instanceof Error ? err.message : "An unknown error occurred."\<close>\<close>

definition caughtMessage :: "thrown \<Rightarrow> jsstring" where
  "caughtMessage err =
     (case err of JsError m \<Rightarrow> m | JsValue json str \<Rightarrow> js ''An unknown error occurred.'')"

text \<open>The items the handlers write.\<close>

definition pendingItem :: GeneratedImage where
  "pendingItem = \<lparr>status = Pending, url = None, error = None\<rparr>"

definition doneItem :: "jsstring \<Rightarrow> GeneratedImage" where
  "doneItem resultUrl = \<lparr>status = Done, url = Some resultUrl, error = None\<rparr>"

definition errorItem :: "jsstring \<Rightarrow> GeneratedImage" where
  "errorItem errorMessage = \<lparr>status = Error, url = None, error = Some errorMessage\<rparr>"

text \<open>A generation call in flight, by its four arguments.\<close>

record GenCall =
  callImage :: jsstring
  callPrompt :: jsstring
  callHairstyle :: jsstring
  callGender :: jsstring

text \<open>A remix call in flight: the label, and the two arguments of \<^verbatim>\<open>remixImage\<close>.\<close>

record RemixCall =
  remixHairstyle :: jsstring
  remixSource :: jsstring
  remixPrompt :: jsstring

subsection \<open>\<^verbatim>\<open>handleGenerate\<close>: the worker pool\<close>

definition concurrencyLimit :: nat where
  "concurrencyLimit = 2"

text \<open>A worker is at the head of its \<^verbatim>\<open>while\<close> loop, suspended at
  \<^verbatim>\<open>await processHairstyle(hairstyle)\<close>, or has left the loop.\<close>

datatype Worker = LoopHead | Awaiting jsstring | Finished

text \<open>One invocation of \<^verbatim>\<open>handleGenerate\<close>: the component state, the queue and the
  workers, the values its closures captured, and whether it still waits at
  \<^verbatim>\<open>await Promise.all(workers)\<close>.\<close>

record Run =
  app :: App
  hairstyleQueue :: "jsstring list"
  workers :: "Worker list"
  runImage :: jsstring
  runGender :: Gender
  awaitingAll :: bool

definition initialImages :: "jsstring list \<Rightarrow> (jsstring \<rightharpoonup> GeneratedImage)" where
  "initialImages hairstyles = fold (\<lambda>hairstyle m. m(hairstyle \<mapsto> pendingItem)) hairstyles Map.empty"

text \<open>\<^verbatim>\<open>handleGenerate\<close> up to the creation of the workers. \<open>None\<close> is the early
  return.\<close>

definition handleGenerate_start :: "Gender \<Rightarrow> App \<Rightarrow> Run option" where
  "handleGenerate_start gender a =
    (case uploadedImage a of
       None \<Rightarrow> None
     | Some img \<Rightarrow>
        if img = [] then None
        else Some
          \<lparr>app = a\<lparr>selectedGender := Some gender, isLoading := True, appState := Generating,
                    generatedImages := initialImages (hairstylesOf gender)\<rparr>,
           hairstyleQueue = hairstylesOf gender,
           workers = replicate concurrencyLimit LoopHead,
           runImage = img,
           runGender = gender,
           awaitingAll = True\<rparr>)"

text \<open>\<^verbatim>\<open>processHairstyle\<close> after its \<^verbatim>\<open>await\<close>: both arms of the
  \<^verbatim>\<open>try\<close>/\<^verbatim>\<open>catch\<close> end in an update of the item, and neither throws.\<close>

definition processHairstyle_settle :: "jsstring \<Rightarrow> thrown + jsstring \<Rightarrow> App \<Rightarrow> App" where
  "processHairstyle_settle hairstyle r a =
    (case r of
       Inr resultUrl \<Rightarrow> a\<lparr>generatedImages := (generatedImages a)(hairstyle \<mapsto> doneItem resultUrl)\<rparr>
     | Inl err \<Rightarrow> a\<lparr>generatedImages := (generatedImages a)(hairstyle \<mapsto> errorItem (caughtMessage err))\<rparr>)"

datatype Action =
    Dequeue nat jsstring
  | Skip nat
  | Exit nat
  | Settle nat jsstring "thrown + jsstring"
  | Complete

text \<open>
  The steps of the pool. JavaScript runs each of them without interruption and may
  interleave them in any order; between \<open>Dequeue\<close> and \<open>Settle\<close> the worker's call of
  \<^verbatim>\<open>generateDecadeImage\<close> is in flight, and its result is what that function returns
  for some behaviour of the remote service.
\<close>

inductive pool_step :: "'a Run_scheme \<Rightarrow> Action \<Rightarrow> 'a Run_scheme \<Rightarrow> bool" where
  dequeue:
    "i < length (workers c) \<Longrightarrow> workers c ! i = LoopHead \<Longrightarrow>
     hairstyleQueue c = hairstyle # q \<Longrightarrow> hairstyle \<noteq> [] \<Longrightarrow>
     pool_step c (Dequeue i hairstyle)
       (c\<lparr>hairstyleQueue := q, workers := (workers c)[i := Awaiting hairstyle]\<rparr>)"
| skip:
    "i < length (workers c) \<Longrightarrow> workers c ! i = LoopHead \<Longrightarrow>
     hairstyleQueue c = [] # q \<Longrightarrow>
     pool_step c (Skip i) (c\<lparr>hairstyleQueue := q\<rparr>)"
| exit:
    "i < length (workers c) \<Longrightarrow> workers c ! i = LoopHead \<Longrightarrow>
     hairstyleQueue c = [] \<Longrightarrow>
     pool_step c (Exit i) (c\<lparr>workers := (workers c)[i := Finished]\<rparr>)"
| settle:
    "i < length (workers c) \<Longrightarrow> workers c ! i = Awaiting hairstyle \<Longrightarrow>
     r = fst (generateDecadeImage t (runImage c) (stylePrompt (runGender c) hairstyle)
                hairstyle (genderStr (runGender c)) tr) \<Longrightarrow>
     pool_step c (Settle i hairstyle r)
       (c\<lparr>app := processHairstyle_settle hairstyle r (app c),
          workers := (workers c)[i := LoopHead]\<rparr>)"
| complete:
    "awaitingAll c \<Longrightarrow> list_all (\<lambda>w. w = Finished) (workers c) \<Longrightarrow>
     pool_step c Complete
       (c\<lparr>app := (app c)\<lparr>isLoading := False, appState := ResultsShown\<rparr>, awaitingAll := False\<rparr>)"

text \<open>The calls of the pool in flight; the labels a list of actions dequeued and
  settled, in order; and the labels the workers are waiting for.\<close>

fun isAwaiting :: "Worker \<Rightarrow> bool" where
  "isAwaiting (Awaiting h) = True"
| "isAwaiting w = False"

definition poolInFlight :: "'a Run_scheme \<Rightarrow> nat" where
  "poolInFlight c = length (filter isAwaiting (workers c))"

definition dequeued :: "Action list \<Rightarrow> jsstring list" where
  "dequeued acts = concat (map (\<lambda>a. case a of Dequeue i h \<Rightarrow> [h] | _ \<Rightarrow> []) acts)"

definition settledLabels :: "Action list \<Rightarrow> jsstring list" where
  "settledLabels acts = concat (map (\<lambda>a. case a of Settle i h r \<Rightarrow> [h] | _ \<Rightarrow> []) acts)"

definition awaitingLabels :: "Worker list \<Rightarrow> jsstring list" where
  "awaitingLabels ws = concat (map (\<lambda>w. case w of Awaiting h \<Rightarrow> [h] | _ \<Rightarrow> []) ws)"

text \<open>A measure that every step of the pool lowers.\<close>

fun workerWeight :: "Worker \<Rightarrow> nat" where
  "workerWeight LoopHead = 1"
| "workerWeight (Awaiting h) = 2"
| "workerWeight Finished = 0"

definition poolWeight :: "'a Run_scheme \<Rightarrow> nat" where
  "poolWeight c = 3 * length (hairstyleQueue c) + sum_list (map workerWeight (workers c)) +
                  (if awaitingAll c then 1 else 0)"


text \<open>
  What holds of the pool after its actions \<open>acts\<close> in a run over the labels \<open>hs\<close>, where
  \<open>busy\<close> are the labels for which a call of another handler is in flight: the labels
  dequeued and the queue make up \<open>hs\<close>; a dequeued label is settled or awaited, once; there
  are \<open>concurrencyLimit\<close> workers; a worker has left its loop only when the queue is empty;
  the run has stopped waiting only when every worker has left its loop; and every label
  has an item, which is \<open>Done\<close> or \<open>Error\<close> unless the label is still queued, awaited, or
  in \<open>busy\<close>.
\<close>

definition poolInvariant ::
  "jsstring list \<Rightarrow> Action list \<Rightarrow> jsstring set \<Rightarrow> 'a Run_scheme \<Rightarrow> bool"
where
  "poolInvariant hs acts busy c =
    (dequeued acts @ hairstyleQueue c = hs \<and>
     mset (settledLabels acts) + mset (awaitingLabels (workers c)) = mset (dequeued acts) \<and>
     length (workers c) = concurrencyLimit \<and>
     (Finished \<in> set (workers c) \<longrightarrow> hairstyleQueue c = []) \<and>
     (\<not> awaitingAll c \<longrightarrow> list_all (\<lambda>w. w = Finished) (workers c)) \<and>
     (\<forall>h \<in> set hs. \<exists>item. generatedImages (app c) h = Some item \<and>
        (h \<in> set (hairstyleQueue c) \<or> h \<in> set (awaitingLabels (workers c)) \<or> h \<in> busy \<or>
         status item = Done \<or> status item = Error)))"

subsection \<open>\<^verbatim>\<open>handleRegenerateDecade\<close> and \<^verbatim>\<open>handleRemixDecade\<close>\<close>

text \<open>\<^verbatim>\<open>generatedImages[hairstyle]?.status === 'pending'\<close>\<close>

definition isPending :: "App \<Rightarrow> jsstring \<Rightarrow> bool" where
  "isPending a hairstyle =
     (case generatedImages a hairstyle of None \<Rightarrow> False | Some item \<Rightarrow> status item = Pending)"

text \<open>Each handler runs up to its \<^verbatim>\<open>await\<close> in one step (\<open>_start\<close>, which returns
  the call it issued, or \<open>None\<close> after an early return) and, when the call has settled,
  runs its \<^verbatim>\<open>try\<close> or \<^verbatim>\<open>catch\<close> arm in another (\<open>_settle\<close>).\<close>

definition handleRegenerateDecade_start :: "jsstring \<Rightarrow> App \<Rightarrow> App \<times> GenCall option" where
  "handleRegenerateDecade_start hairstyle a =
    (case (uploadedImage a, selectedGender a) of
       (Some img, Some gender) \<Rightarrow>
         if img = [] then (a, None)
         else if isPending a hairstyle then (a, None)
         else (a\<lparr>generatedImages := (generatedImages a)(hairstyle \<mapsto> pendingItem)\<rparr>,
               Some \<lparr>callImage = img, callPrompt = stylePrompt gender hairstyle,
                     callHairstyle = hairstyle, callGender = genderStr gender\<rparr>)
     | _ \<Rightarrow> (a, None))"

definition handleRegenerateDecade_settle :: "jsstring \<Rightarrow> thrown + jsstring \<Rightarrow> App \<Rightarrow> App" where
  "handleRegenerateDecade_settle hairstyle r a =
    (case r of
       Inr resultUrl \<Rightarrow> a\<lparr>generatedImages := (generatedImages a)(hairstyle \<mapsto> doneItem resultUrl)\<rparr>
     | Inl err \<Rightarrow> a\<lparr>generatedImages := (generatedImages a)(hairstyle \<mapsto> errorItem (caughtMessage err))\<rparr>)"

text \<open>\<^verbatim>\<open>{ ...prev[hairstyle], status: 'pending' }\<close>: the spread of an absent item adds
  no field.\<close>

definition markPending :: "(jsstring \<rightharpoonup> GeneratedImage) \<Rightarrow> jsstring \<Rightarrow> GeneratedImage" where
  "markPending prev hairstyle =
     (case prev hairstyle of None \<Rightarrow> pendingItem | Some item \<Rightarrow> item\<lparr>status := Pending\<rparr>)"

text \<open>\<^verbatim>\<open>generatedImages[hairstyle]?.url\<close>\<close>

definition sourceImageOf :: "App \<Rightarrow> jsstring \<Rightarrow> jsstring option" where
  "sourceImageOf a hairstyle =
     (case generatedImages a hairstyle of None \<Rightarrow> None | Some item \<Rightarrow> url item)"

definition handleRemixDecade_start :: "jsstring \<Rightarrow> jsstring \<Rightarrow> App \<Rightarrow> App \<times> RemixCall option" where
  "handleRemixDecade_start hairstyle prompt a =
    (case sourceImageOf a hairstyle of
       None \<Rightarrow> (a, None)
     | Some sourceImage \<Rightarrow>
         if sourceImage = [] \<or> prompt = [] then (a, None)
         else if isPending a hairstyle then (a, None)
         else (a\<lparr>generatedImages :=
                   (generatedImages a)(hairstyle \<mapsto> markPending (generatedImages a) hairstyle)\<rparr>,
               Some \<lparr>remixHairstyle = hairstyle, remixSource = sourceImage,
                     remixPrompt = prompt\<rparr>))"

definition handleRemixDecade_settle ::
  "jsstring \<Rightarrow> jsstring \<Rightarrow> thrown + jsstring \<Rightarrow> App \<Rightarrow> App"
where
  "handleRemixDecade_settle hairstyle sourceImage r a =
    (case r of
       Inr resultUrl \<Rightarrow> a\<lparr>generatedImages := (generatedImages a)(hairstyle \<mapsto> doneItem resultUrl)\<rparr>
     | Inl err \<Rightarrow>
         a\<lparr>generatedImages := (generatedImages a)(hairstyle \<mapsto>
              \<lparr>status = Error, url = Some sourceImage, error = Some (caughtMessage err)\<rparr>)\<rparr>)"

subsection \<open>The pool together with the user's requests\<close>

text \<open>A run, and the calls that \<^verbatim>\<open>handleRegenerateDecade\<close> and
  \<^verbatim>\<open>handleRemixDecade\<close> have in flight.\<close>

record Sys = Run +
  retries :: "GenCall list"
  remixes :: "RemixCall list"

datatype SysAction =
    Pool Action
  | RetryStart jsstring
  | RetrySettle GenCall "thrown + jsstring"
  | RemixStart jsstring jsstring
  | RemixSettle RemixCall "thrown + jsstring"

inductive sys_step :: "Sys \<Rightarrow> SysAction \<Rightarrow> Sys \<Rightarrow> bool" where
  pool:
    "pool_step s a s' \<Longrightarrow> sys_step s (Pool a) s'"
| retry_start:
    "handleRegenerateDecade_start hairstyle (app s) = (a', issued) \<Longrightarrow>
     sys_step s (RetryStart hairstyle)
       (s\<lparr>app := a',
          retries := (case issued of None \<Rightarrow> retries s | Some call \<Rightarrow> retries s @ [call])\<rparr>)"
| retry_settle:
    "call \<in> set (retries s) \<Longrightarrow>
     r = fst (generateDecadeImage t (callImage call) (callPrompt call) (callHairstyle call)
                (callGender call) tr) \<Longrightarrow>
     sys_step s (RetrySettle call r)
       (s\<lparr>app := handleRegenerateDecade_settle (callHairstyle call) r (app s),
          retries := remove1 call (retries s)\<rparr>)"
| remix_start:
    "handleRemixDecade_start hairstyle prompt (app s) = (a', issued) \<Longrightarrow>
     sys_step s (RemixStart hairstyle prompt)
       (s\<lparr>app := a',
          remixes := (case issued of None \<Rightarrow> remixes s | Some call \<Rightarrow> remixes s @ [call])\<rparr>)"
| remix_settle:
    "call \<in> set (remixes s) \<Longrightarrow>
     r = fst (remixImage t (remixSource call) (remixPrompt call) tr) \<Longrightarrow>
     sys_step s (RemixSettle call r)
       (s\<lparr>app := handleRemixDecade_settle (remixHairstyle call) (remixSource call) r (app s),
          remixes := remove1 call (remixes s)\<rparr>)"

inductive sys_exec :: "Sys \<Rightarrow> SysAction list \<Rightarrow> Sys \<Rightarrow> bool" where
  sys_nil: "sys_exec s [] s"
| sys_snoc: "sys_exec s acts s' \<Longrightarrow> sys_step s' a s'' \<Longrightarrow> sys_exec s (acts @ [a]) s''"

text \<open>The system a call of \<^verbatim>\<open>handleGenerate\<close> starts, no other call in flight.\<close>

definition startSys :: "Gender \<Rightarrow> App \<Rightarrow> Sys option" where
  "startSys gender a =
     (case handleGenerate_start gender a of
        None \<Rightarrow> None
      | Some c \<Rightarrow> Some (Run.extend c \<lparr>retries = [], remixes = []\<rparr>))"

text \<open>The actions of the pool among the actions of the system, in order; and the labels
  for which a call of \<^verbatim>\<open>handleRegenerateDecade\<close> or \<^verbatim>\<open>handleRemixDecade\<close> is in
  flight.\<close>

definition poolActs :: "SysAction list \<Rightarrow> Action list" where
  "poolActs acts = concat (map (\<lambda>a. case a of Pool p \<Rightarrow> [p] | _ \<Rightarrow> []) acts)"

definition userLabels :: "Sys \<Rightarrow> jsstring set" where
  "userLabels s = callHairstyle ` set (retries s) \<union> remixHairstyle ` set (remixes s)"

section \<open>Properties named by the specification\<close>

text \<open>An attempt whose failure the retry loop classifies as an internal server error.\<close>

definition retriable :: "thrown + GenerateContentResponse \<Rightarrow> bool" where
  "retriable outcome = (case outcome of Inl e \<Rightarrow> isInternalError e | Inr response \<Rightarrow> False)"

text \<open>The events of attempts \<open>1\<close> to \<open>k - 1\<close> of one call, each followed by the delay
  \<open>1000ms * 2^(j-1)\<close>; and the events of a whole call that made \<open>k\<close> attempts (one
  attempt-group).\<close>

definition earlierAttempts :: "Request \<Rightarrow> nat \<Rightarrow> event list" where
  "earlierAttempts req k =
     concat (map (\<lambda>j. [Transport req, Delay (initialDelay * 2 ^ (j - 1))]) [1..<k])"

definition attemptGroup :: "Request \<Rightarrow> nat \<Rightarrow> event list" where
  "attemptGroup req k = earlierAttempts req k @ [Transport req]"

text \<open>The shape \<^verbatim>\<open>data:<mediaType>;base64,<encodedData>\<close> with an image media type, in
  the specification's words.\<close>

definition dataUrlShape :: "jsstring \<Rightarrow> bool" where
  "dataUrlShape s =
     (\<exists>mediaType encodedData.
        s = js ''data:'' @ mediaType @ js '';base64,'' @ encodedData \<and>
        startsWith mediaType (js ''image/''))"

text \<open>The specification's invariant of an \<open>ImagePayload\<close>: the media type matches
  \<^verbatim>\<open>image/*\<close> and the encoded data is not empty.\<close>

definition payloadInvariant :: "ImagePayload \<Rightarrow> bool" where
  "payloadInvariant p = (startsWith (mimeType p) (js ''image/'') \<and> data p \<noteq> [])"

text \<open>The specification's invariant of a work item, as far as one state shows it: the url
  is present when the status is \<open>Done\<close> and only when it is \<open>Done\<close> or \<open>Error\<close>; the
  error message is present exactly when the status is \<open>Error\<close>.\<close>

definition specItemInvariant :: "GeneratedImage \<Rightarrow> bool" where
  "specItemInvariant item =
     ((status item = Done \<longrightarrow> url item \<noteq> None) \<and>
      (url item \<noteq> None \<longrightarrow> status item = Done \<or> status item = Error) \<and>
      (error item \<noteq> None \<longleftrightarrow> status item = Error))"

text \<open>What the handlers keep: a \<open>Done\<close> item has a url and no error message, an
  \<open>Error\<close> item has an error message.\<close>

definition itemInvariant :: "GeneratedImage \<Rightarrow> bool" where
  "itemInvariant item =
     ((status item = Done \<longrightarrow> url item \<noteq> None \<and> error item = None) \<and>
      (status item = Error \<longrightarrow> error item \<noteq> None))"

definition allItems :: "(GeneratedImage \<Rightarrow> bool) \<Rightarrow> App \<Rightarrow> bool" where
  "allItems P a = (\<forall>hairstyle item. generatedImages a hairstyle = Some item \<longrightarrow> P item)"


section \<open>Facts about strings and the codec\<close>

lemma stripPrefix_Some_iff: "stripPrefix p s = Some r \<longleftrightarrow> s = p @ r"
  by (induction p s rule: stripPrefix.induct) auto

lemma startsWith_iff: "startsWith s p \<longleftrightarrow> (\<exists>r. s = p @ r)"
  by (induction s p rule: startsWith.induct) auto

lemma startsWith_append: "startsWith (p @ r) p"
  by (simp add: startsWith_iff)

lemma includesStr_iff: "includesStr s sub \<longleftrightarrow> (\<exists>a b. s = a @ sub @ b)"
proof (induction s)
  case Nil
  then show ?case by auto
next
  case (Cons c s)
  show ?case
  proof
    assume "includesStr (c # s) sub"
    then consider "startsWith (c # s) sub" | "includesStr s sub" by auto
    then show "\<exists>a b. c # s = a @ sub @ b"
    proof cases
      case 1
      then obtain r where "c # s = sub @ r" by (auto simp: startsWith_iff)
      then have "c # s = [] @ sub @ r" by simp
      then show ?thesis by blast
    next
      case 2
      then obtain a b where "s = a @ sub @ b" using Cons.IH by blast
      then have "c # s = (c # a) @ sub @ b" by simp
      then show ?thesis by blast
    qed
  next
    assume "\<exists>a b. c # s = a @ sub @ b"
    then obtain a b where ab: "c # s = a @ sub @ b" by blast
    show "includesStr (c # s) sub"
    proof (cases a)
      case Nil
      with ab have "startsWith (c # s) sub" by (simp add: startsWith_iff)
      then show ?thesis by simp
    next
      case (Cons x a')
      with ab have "s = a' @ sub @ b" by simp
      then have "includesStr s sub" using Cons.IH by blast
      then show ?thesis by simp
    qed
  qed
qed

lemma dataUrlMatch_Some_iff:
  "dataUrlMatch s = Some (mt, d) \<longleftrightarrow>
     (\<exists>w. w \<noteq> [] \<and> list_all isWordChar w \<and> mt = js ''image/'' @ w \<and>
          \<not> list_ex isLineTerminator d \<and>
          s = js ''data:image/'' @ w @ js '';base64,'' @ d)"
proof
  assume "dataUrlMatch s = Some (mt, d)"
  then obtain r where r: "stripPrefix (js ''data:image/'') s = Some r"
    and w: "takeWhile isWordChar r \<noteq> []"
    and d: "stripPrefix (js '';base64,'') (dropWhile isWordChar r) = Some d"
    and lt: "\<not> list_ex isLineTerminator d"
    and mt: "mt = js ''image/'' @ takeWhile isWordChar r"
    by (auto simp: dataUrlMatch_def Let_def split: option.splits if_splits)
  from d have "dropWhile isWordChar r = js '';base64,'' @ d"
    by (simp add: stripPrefix_Some_iff)
  then have "r = takeWhile isWordChar r @ js '';base64,'' @ d"
    by (metis takeWhile_dropWhile_id)
  with r have "s = js ''data:image/'' @ takeWhile isWordChar r @ js '';base64,'' @ d"
    by (simp add: stripPrefix_Some_iff)
  moreover have "list_all isWordChar (takeWhile isWordChar r)"
    by (simp add: list_all_iff) (meson set_takeWhileD)
  ultimately show "\<exists>w. w \<noteq> [] \<and> list_all isWordChar w \<and> mt = js ''image/'' @ w \<and>
          \<not> list_ex isLineTerminator d \<and> s = js ''data:image/'' @ w @ js '';base64,'' @ d"
    using w lt mt by blast
next
  assume "\<exists>w. w \<noteq> [] \<and> list_all isWordChar w \<and> mt = js ''image/'' @ w \<and>
          \<not> list_ex isLineTerminator d \<and> s = js ''data:image/'' @ w @ js '';base64,'' @ d"
  then obtain w where w: "w \<noteq> []" "list_all isWordChar w" and mt: "mt = js ''image/'' @ w"
    and lt: "\<not> list_ex isLineTerminator d"
    and s: "s = js ''data:image/'' @ w @ js '';base64,'' @ d" by blast
  have semi: "\<not> isWordChar 59" by (simp add: isWordChar_def)
  have b: "js '';base64,'' @ d = 59 # (js ''base64,'' @ d)" by (simp add: js_def)
  have tw: "takeWhile isWordChar (w @ js '';base64,'' @ d) = w"
    using w(2) semi unfolding b by (simp add: list_all_iff takeWhile_append2)
  have dw: "dropWhile isWordChar (w @ js '';base64,'' @ d) = js '';base64,'' @ d"
    using w(2) semi unfolding b by (simp add: list_all_iff dropWhile_append2)
  have sp: "stripPrefix (js ''data:image/'') s = Some (w @ js '';base64,'' @ d)"
    by (simp add: stripPrefix_Some_iff s)
  have sd: "stripPrefix (js '';base64,'') (js '';base64,'' @ d) = Some d"
    by (simp add: stripPrefix_Some_iff)
  show "dataUrlMatch s = Some (mt, d)"
    unfolding dataUrlMatch_def sp by (simp add: Let_def tw dw sd w(1) lt mt)
qed

lemma decode_cases: "decode s = Inl InvalidImageFormat \<or> (\<exists>mt d. dataUrlMatch s = Some (mt, d) \<and> decode s = Inr \<lparr>mimeType = mt, data = d\<rparr>)"
  by (auto simp: decode_def split: option.splits)


text \<open>
  C7: a string that \<open>decode\<close> accepts is reproduced exactly by encoding the decoded
  payload back as \<^verbatim>\<open>data:<mediaType>;base64,<encodedData>\<close>; a string that has not
  that shape (no \<^verbatim>\<open>data:\<close> prefix, no \<^verbatim>\<open>;base64,\<close> separator, a media type that
  is not an image type) makes \<open>decode\<close> fail with the invalid-format error.
\<close>

theorem decode_encode_roundtrip:
  "(decode s = Inr p \<longrightarrow> encode p = s) \<and>
   (\<not> dataUrlShape s \<longrightarrow> decode s = Inl InvalidImageFormat)"
proof (intro conjI impI)
  assume "decode s = Inr p"
  then obtain mt d where m: "dataUrlMatch s = Some (mt, d)" and p: "p = \<lparr>mimeType = mt, data = d\<rparr>"
    by (auto simp: decode_def split: option.splits)
  from m obtain w where "mt = js ''image/'' @ w" "s = js ''data:image/'' @ w @ js '';base64,'' @ d"
    by (auto simp: dataUrlMatch_Some_iff)
  then show "encode p = s" by (simp add: encode_def p js_def)
next
  assume ns: "\<not> dataUrlShape s"
  show "decode s = Inl InvalidImageFormat"
  proof (rule ccontr)
    assume "decode s \<noteq> Inl InvalidImageFormat"
    then obtain mt d where m: "dataUrlMatch s = Some (mt, d)"
      using decode_cases by blast
    then obtain w where "mt = js ''image/'' @ w" "s = js ''data:image/'' @ w @ js '';base64,'' @ d"
      by (auto simp: dataUrlMatch_Some_iff)
    then have "s = js ''data:'' @ mt @ js '';base64,'' @ d \<and> startsWith mt (js ''image/'')"
      by (simp add: js_def startsWith_append)
    then have "dataUrlShape s" unfolding dataUrlShape_def by blast
    with ns show False by contradiction
  qed
qed

theorem decode_encode_roundtrip_witness:
  "decode (js ''data:image/png;base64,iVBORw0KGgo='') = Inr \<lparr>mimeType = js ''image/png'', data = js ''iVBORw0KGgo=''\<rparr> \<and>
   encode \<lparr>mimeType = js ''image/png'', data = js ''iVBORw0KGgo=''\<rparr> = js ''data:image/png;base64,iVBORw0KGgo='' \<and>
   \<not> dataUrlShape (js ''image/png;base64,iVBORw0KGgo='') \<and>
   decode (js ''image/png;base64,iVBORw0KGgo='') = Inl InvalidImageFormat"
proof -
  have d: "decode (js ''data:image/png;base64,iVBORw0KGgo='') = Inr \<lparr>mimeType = js ''image/png'', data = js ''iVBORw0KGgo=''\<rparr>"
    by (simp add: decode_def dataUrlMatch_def js_def isWordChar_def isLineTerminator_def)
  have n: "\<not> dataUrlShape (js ''image/png;base64,iVBORw0KGgo='')"
    by (simp add: dataUrlShape_def js_def)
  from d n decode_encode_roundtrip [of "js ''data:image/png;base64,iVBORw0KGgo=''" "\<lparr>mimeType = js ''image/png'', data = js ''iVBORw0KGgo=''\<rparr>"]
    decode_encode_roundtrip [of "js ''image/png;base64,iVBORw0KGgo=''"]
  show ?thesis by blast
qed


text \<open>
  C8, as stated, asks that every payload \<open>decode\<close> produces has a media type matching
  \<^verbatim>\<open>image/*\<close> and non-empty encoded data. The second half fails: the group
  \<^verbatim>\<open>(.*)\<close> also matches nothing.
\<close>

theorem decode_payload_counterexample:
  "decode (js ''data:image/png;base64,'') = Inr \<lparr>mimeType = js ''image/png'', data = []\<rparr> \<and>
   \<not> payloadInvariant \<lparr>mimeType = js ''image/png'', data = []\<rparr>"
  by (simp add: decode_def dataUrlMatch_def js_def isWordChar_def isLineTerminator_def payloadInvariant_def)


text \<open>
  C8, amended: every payload \<open>decode\<close> produces has a media type \<^verbatim>\<open>image/\<close> followed
  by one or more word characters, and encoded data without a line terminator (which may be
  empty).
\<close>

theorem decode_payload_mediaType:
  "decode s = Inr p \<Longrightarrow>
     startsWith (mimeType p) (js ''image/'') \<and>
     list_all isWordChar (drop 6 (mimeType p)) \<and> 6 < length (mimeType p) \<and>
     \<not> list_ex isLineTerminator (data p)"
proof -
  assume "decode s = Inr p"
  then obtain mt d where m: "dataUrlMatch s = Some (mt, d)" and p: "p = \<lparr>mimeType = mt, data = d\<rparr>"
    by (auto simp: decode_def split: option.splits)
  from m obtain w where "w \<noteq> []" "list_all isWordChar w" "mt = js ''image/'' @ w" "\<not> list_ex isLineTerminator d"
    by (auto simp: dataUrlMatch_Some_iff)
  then show ?thesis by (simp add: p startsWith_append) (simp add: js_def)
qed


theorem decode_payload_mediaType_witness:
  "decode (js ''data:image/png;base64,'') = Inr \<lparr>mimeType = js ''image/png'', data = []\<rparr> \<and>
   startsWith (js ''image/png'') (js ''image/'') \<and>
   list_all isWordChar (drop 6 (js ''image/png'')) \<and> 6 < length (js ''image/png'')"
proof -
  have d: "decode (js ''data:image/png;base64,'') = Inr \<lparr>mimeType = js ''image/png'', data = []\<rparr>"
    by (simp add: decode_def dataUrlMatch_def js_def isWordChar_def isLineTerminator_def)
  from d decode_payload_mediaType [OF d] show ?thesis by simp
qed

section \<open>The retry loop\<close>

lemma earlierAttempts_1: "earlierAttempts req (Suc 0) = []"
  by (simp add: earlierAttempts_def)

lemma earlierAttempts_2: "earlierAttempts req 2 = [Transport req, Delay 1000]"
proof -
  have "[1..<2] = [1::nat]" by (simp add: upt_rec)
  then show ?thesis by (simp add: earlierAttempts_def initialDelay_def)
qed

lemma earlierAttempts_3:
  "earlierAttempts req 3 = [Transport req, Delay 1000, Transport req, Delay 2000]"
proof -
  have "[1..<3] = [1::nat, 2]" by (simp add: upt_rec)
  then show ?thesis by (simp add: earlierAttempts_def initialDelay_def)
qed

lemma retry_from_3:
  "callGeminiWithRetry_from t req 3 tr = (t tr req, tr @ [Transport req])"
  by (subst callGeminiWithRetry_from.simps) (simp add: maxRetries_def split: sum.splits)

lemma retry_from_2:
  "callGeminiWithRetry_from t req 2 tr =
     (if retriable (t tr req)
      then callGeminiWithRetry_from t req 3 (tr @ [Transport req, Delay 2000])
      else (t tr req, tr @ [Transport req]))"
  by (subst callGeminiWithRetry_from.simps)
     (simp add: retriable_def maxRetries_def initialDelay_def numeral_3_eq_3 split: sum.splits)

lemma retry_from_1:
  "callGeminiWithRetry_from t req (Suc 0) tr =
     (if retriable (t tr req)
      then callGeminiWithRetry_from t req 2 (tr @ [Transport req, Delay 1000])
      else (t tr req, tr @ [Transport req]))"
  by (subst callGeminiWithRetry_from.simps)
     (simp add: retriable_def maxRetries_def initialDelay_def numeral_2_eq_2 split: sum.splits)

lemma retry_shape:
  "\<exists>k. 1 \<le> k \<and> k \<le> 3 \<and>
       (\<forall>j. 1 \<le> j \<and> j < k \<longrightarrow> retriable (t (tr @ earlierAttempts req j) req)) \<and>
       (k < 3 \<longrightarrow> \<not> retriable (t (tr @ earlierAttempts req k) req)) \<and>
       callGeminiWithRetry_from t req 1 tr =
         (t (tr @ earlierAttempts req k) req, tr @ earlierAttempts req k @ [Transport req])"
proof -
  let ?o = "\<lambda>k. t (tr @ earlierAttempts req k) req"
  let ?res = "\<lambda>k. (?o k, tr @ earlierAttempts req k @ [Transport req])"
  show ?thesis
  proof (cases "retriable (?o 1)")
    case False
    then have "callGeminiWithRetry_from t req 1 tr = ?res 1"
      by (simp add: retry_from_1 earlierAttempts_1)
    with False show ?thesis by (intro exI [of _ 1]) simp
  next
    case r1: True
    show ?thesis
    proof (cases "retriable (?o 2)")
      case False
      then have "callGeminiWithRetry_from t req 1 tr = ?res 2"
        using r1 by (simp add: retry_from_1 retry_from_2 earlierAttempts_1 earlierAttempts_2)
      moreover have "\<forall>j. 1 \<le> j \<and> j < (2::nat) \<longrightarrow> retriable (?o j)"
      proof (intro allI impI)
        fix j :: nat assume "1 \<le> j \<and> j < 2"
        then have "j = 1" by arith
        with r1 show "retriable (?o j)" by simp
      qed
      ultimately show ?thesis using False by (intro exI [of _ 2]) simp
    next
      case r2: True
      have "callGeminiWithRetry_from t req 1 tr = ?res 3"
        using r1 r2
        by (simp add: retry_from_1 retry_from_2 retry_from_3
                      earlierAttempts_1 earlierAttempts_2 earlierAttempts_3)
      moreover have "\<forall>j. 1 \<le> j \<and> j < (3::nat) \<longrightarrow> retriable (?o j)"
      proof (intro allI impI)
        fix j :: nat assume "1 \<le> j \<and> j < 3"
        then have "j = 1 \<or> j = 2" by arith
        with r1 r2 show "retriable (?o j)" by auto
      qed
      ultimately show ?thesis by (intro exI [of _ 3]) simp
    qed
  qed
qed

text \<open>
  C1: \<open>callGeminiWithRetry\<close> makes \<open>k\<close> transport attempts, \<open>1 \<le> k \<le> 3\<close>. Every
  attempt before the \<open>k\<close>-th failed with a failure classified as an internal server
  error and was followed by a wait of \<open>1000ms * 2^(j-1)\<close> (1000 after the first, 2000
  after the second) and a retry. The outcome of the \<open>k\<close>-th attempt, a response or a
  failure, is returned as it is with no delay after it; and an attempt before the third
  ends the call unless its failure is classified as an internal server error.
\<close>

theorem callGeminiWithRetry_attempts:
  "\<exists>k. 1 \<le> k \<and> k \<le> 3 \<and>
       (\<forall>j. 1 \<le> j \<and> j < k \<longrightarrow>
          retriable (t (tr @ earlierAttempts \<lparr>imagePart = img, textPart = txt\<rparr> j)
                       \<lparr>imagePart = img, textPart = txt\<rparr>)) \<and>
       (k < 3 \<longrightarrow>
          \<not> retriable (t (tr @ earlierAttempts \<lparr>imagePart = img, textPart = txt\<rparr> k)
                         \<lparr>imagePart = img, textPart = txt\<rparr>)) \<and>
       callGeminiWithRetry t img txt tr =
         (t (tr @ earlierAttempts \<lparr>imagePart = img, textPart = txt\<rparr> k)
            \<lparr>imagePart = img, textPart = txt\<rparr>,
          tr @ earlierAttempts \<lparr>imagePart = img, textPart = txt\<rparr> k @
            [Transport \<lparr>imagePart = img, textPart = txt\<rparr>]) \<and>
       earlierAttempts \<lparr>imagePart = img, textPart = txt\<rparr> 1 = [] \<and>
       earlierAttempts \<lparr>imagePart = img, textPart = txt\<rparr> 2 =
         [Transport \<lparr>imagePart = img, textPart = txt\<rparr>, Delay 1000] \<and>
       earlierAttempts \<lparr>imagePart = img, textPart = txt\<rparr> 3 =
         [Transport \<lparr>imagePart = img, textPart = txt\<rparr>, Delay 1000,
          Transport \<lparr>imagePart = img, textPart = txt\<rparr>, Delay 2000]"
  using retry_shape [of t tr "\<lparr>imagePart = img, textPart = txt\<rparr>"]
  unfolding callGeminiWithRetry_def
  by (simp add: earlierAttempts_1 earlierAttempts_2 earlierAttempts_3)

text \<open>Two internal server errors, then a response: three attempts, 1000ms and 2000ms
  between them.\<close>

theorem callGeminiWithRetry_attempts_witness:
  "callGeminiWithRetry
     (\<lambda>tr req. if length tr < 4 then Inl (JsError (js ''got status: INTERNAL''))
                else Inr \<lparr>parts = [], responseText = None\<rparr>)
     \<lparr>mimeType = js ''image/png'', data = js ''AA''\<rparr> (js ''p'') [] =
   (Inr \<lparr>parts = [], responseText = None\<rparr>,
    [Transport \<lparr>imagePart = \<lparr>mimeType = js ''image/png'', data = js ''AA''\<rparr>, textPart = js ''p''\<rparr>,
     Delay 1000,
     Transport \<lparr>imagePart = \<lparr>mimeType = js ''image/png'', data = js ''AA''\<rparr>, textPart = js ''p''\<rparr>,
     Delay 2000,
     Transport \<lparr>imagePart = \<lparr>mimeType = js ''image/png'', data = js ''AA''\<rparr>, textPart = js ''p''\<rparr>])"
proof -
  let ?t = "\<lambda>(tr::event list) (req::Request). if length tr < 4 then Inl (JsError (js ''got status: INTERNAL''))
                else Inr \<lparr>parts = [], responseText = None\<rparr>"
  let ?img = "\<lparr>mimeType = js ''image/png'', data = js ''AA''\<rparr>"
  let ?req = "\<lparr>imagePart = ?img, textPart = js ''p''\<rparr>"
  have int: "isInternalError (JsError (js ''got status: INTERNAL''))"
    by (simp add: isInternalError_def errorMessageOf_def js_def)
  from callGeminiWithRetry_attempts [of ?t "[]" ?img "js ''p''"]
  obtain k where k: "1 \<le> k" "k \<le> 3"
    and stop: "k < 3 \<longrightarrow> \<not> retriable (?t ([] @ earlierAttempts ?req k) ?req)"
    and res: "callGeminiWithRetry ?t ?img (js ''p'') [] =
               (?t ([] @ earlierAttempts ?req k) ?req, [] @ earlierAttempts ?req k @ [Transport ?req])"
    by blast
  from k have "k = 1 \<or> k = 2 \<or> k = 3" by arith
  then have "k = 3"
  proof (elim disjE)
    assume "k = 1"
    with stop int show ?thesis by (simp add: earlierAttempts_1 retriable_def)
  next
    assume "k = 2"
    with stop int show ?thesis by (simp add: earlierAttempts_2 retriable_def)
  qed simp
  with res show ?thesis by (simp add: earlierAttempts_3)
qed

section \<open>The generation client\<close>

lemma callGeminiWithRetry_trace:
  "\<exists>k. 1 \<le> k \<and> k \<le> 3 \<and>
       snd (callGeminiWithRetry t img txt tr) = tr @ attemptGroup \<lparr>imagePart = img, textPart = txt\<rparr> k"
  using retry_shape [of t tr "\<lparr>imagePart = img, textPart = txt\<rparr>"]
  unfolding callGeminiWithRetry_def attemptGroup_def by auto

lemma callAndProcess_trace:
  "snd (callAndProcess t img txt tr) = snd (callGeminiWithRetry t img txt tr)"
  by (simp add: callAndProcess_def split: prod.splits sum.splits)

lemma includesStr_prefix: "includesStr (p @ r) p"
proof -
  have "p @ r = [] @ p @ r" by simp
  then show ?thesis unfolding includesStr_iff by blast
qed

lemma noImageError_classified: "isNoImageError (noImageError response)"
  by (simp add: isNoImageError_def noImageError_def errorMessageOf_def includesStr_prefix)

lemma processGeminiResponse_Inl:
  "processGeminiResponse response = Inl e \<Longrightarrow> e = noImageError response"
  by (auto simp: processGeminiResponse_def split: option.splits)

text \<open>
  C2: let the image decode, and let the primary attempt (one attempt-group and the
  extraction of the image) fail with \<open>e\<close>.
  If \<open>e\<close> is classified as a no-image failure (its message includes the phrase of the
  no-image error) and both the hairstyle and the gender are non-empty, one fallback
  attempt-group is issued whose instruction is the template
  \<^verbatim>\<open>Crie uma fotografia da pessoa nesta imagem com um penteado <gender> moderno <hairstyle>. ...\<close>:
  the events are those of exactly two attempt-groups, the primary one and the fallback one;
  the fallback's image is returned when it succeeds; and when it fails the error thrown
  has the message \<^verbatim>\<open>O modelo de IA falhou com os prompts original e de recurso.\<close> followed
  by the message of the fallback's failure.
  If \<open>e\<close> is so classified and the hairstyle or the gender is empty, \<open>e\<close> itself is
  thrown again, after the one attempt-group.
  If \<open>e\<close> is not so classified, it is thrown wrapped in an error whose message ends with the
  message of \<open>e\<close>, after the one attempt-group.
  Every failure of the extraction of the image is classified as a no-image failure.
\<close>

theorem generateDecadeImage_fallback:
  assumes dec: "decode imageDataUrl = Inr img"
    and primary: "callAndProcess t img prompt tr = (Inl e, tr1)"
  shows "(isNoImageError e \<and> hairstyle \<noteq> [] \<and> gender \<noteq> [] \<longrightarrow>
          (\<exists>k1 k2. 1 \<le> k1 \<and> k1 \<le> 3 \<and> 1 \<le> k2 \<and> k2 \<le> 3 \<and>
             snd (generateDecadeImage t imageDataUrl prompt hairstyle gender tr) =
               tr @ attemptGroup \<lparr>imagePart = img, textPart = prompt\<rparr> k1
                  @ attemptGroup \<lparr>imagePart = img, textPart =
             (js ''Crie uma fotografia da pessoa nesta imagem com um penteado '' @ gender @
              js '' moderno '' @ hairstyle @
              js ''. A fotografia deve mostrar claramente o penteado e ter um aspeto aut'' @ [234] @
              js ''ntico e de alta qualidade.'')\<rparr> k2) \<and>
          (\<forall>resultUrl tr2.
             callAndProcess t img
             (js ''Crie uma fotografia da pessoa nesta imagem com um penteado '' @ gender @
              js '' moderno '' @ hairstyle @
              js ''. A fotografia deve mostrar claramente o penteado e ter um aspeto aut'' @ [234] @
              js ''ntico e de alta qualidade.'') tr1 = (Inr resultUrl, tr2) \<longrightarrow>
             generateDecadeImage t imageDataUrl prompt hairstyle gender tr = (Inr resultUrl, tr2)) \<and>
          (\<forall>m tr2.
             callAndProcess t img
             (js ''Crie uma fotografia da pessoa nesta imagem com um penteado '' @ gender @
              js '' moderno '' @ hairstyle @
              js ''. A fotografia deve mostrar claramente o penteado e ter um aspeto aut'' @ [234] @
              js ''ntico e de alta qualidade.'') tr1 = (Inl (JsError m), tr2) \<longrightarrow>
             generateDecadeImage t imageDataUrl prompt hairstyle gender tr =
               (Inl (JsError (js ''O modelo de IA falhou com os prompts original e de recurso. '' @ [218] @
                 js ''ltimo erro: '' @ m)), tr2)) \<and>
          (\<forall>json str tr2.
             callAndProcess t img
             (js ''Crie uma fotografia da pessoa nesta imagem com um penteado '' @ gender @
              js '' moderno '' @ hairstyle @
              js ''. A fotografia deve mostrar claramente o penteado e ter um aspeto aut'' @ [234] @
              js ''ntico e de alta qualidade.'') tr1 = (Inl (JsValue json str), tr2) \<longrightarrow>
             generateDecadeImage t imageDataUrl prompt hairstyle gender tr =
               (Inl (JsError (js ''O modelo de IA falhou com os prompts original e de recurso. '' @ [218] @
                 js ''ltimo erro: '' @ str)), tr2))) \<and>
         (isNoImageError e \<and> (hairstyle = [] \<or> gender = []) \<longrightarrow>
          generateDecadeImage t imageDataUrl prompt hairstyle gender tr = (Inl e, tr1) \<and>
          (\<exists>k1. 1 \<le> k1 \<and> k1 \<le> 3 \<and>
             tr1 = tr @ attemptGroup \<lparr>imagePart = img, textPart = prompt\<rparr> k1)) \<and>
         (\<not> isNoImageError e \<longrightarrow>
          (\<forall>m. e = JsError m \<longrightarrow> generateDecadeImage t imageDataUrl prompt hairstyle gender tr =
               (Inl (JsError (js ''O modelo de IA n'' @ [227] @
                 js ''o conseguiu gerar uma imagem. Detalhes: '' @ m)), tr1)) \<and>
          (\<forall>json str. e = JsValue json str \<longrightarrow> generateDecadeImage t imageDataUrl prompt hairstyle gender tr =
               (Inl (JsError (js ''O modelo de IA n'' @ [227] @
                 js ''o conseguiu gerar uma imagem. Detalhes: '' @ json)), tr1)) \<and>
          (\<exists>k1. 1 \<le> k1 \<and> k1 \<le> 3 \<and>
             tr1 = tr @ attemptGroup \<lparr>imagePart = img, textPart = prompt\<rparr> k1)) \<and>
         (\<forall>m. isNoImageError (JsError m) =
             includesStr m (js ''O modelo de IA respondeu com texto em vez de uma imagem'')) \<and>
         (\<forall>response. processGeminiResponse response = Inl e \<longrightarrow> isNoImageError e)"
proof -
  have fb: "getFallbackPrompt hairstyle gender =
             (js ''Crie uma fotografia da pessoa nesta imagem com um penteado '' @ gender @
              js '' moderno '' @ hairstyle @
              js ''. A fotografia deve mostrar claramente o penteado e ter um aspeto aut'' @ [234] @
              js ''ntico e de alta qualidade.'')"
    by (simp add: getFallbackPrompt_def)
  from primary have "tr1 = snd (callGeminiWithRetry t img prompt tr)"
    using callAndProcess_trace [of t img prompt tr] by simp
  then obtain k1 where k1: "1 \<le> k1" "k1 \<le> 3"
      "tr1 = tr @ attemptGroup \<lparr>imagePart = img, textPart = prompt\<rparr> k1"
    using callGeminiWithRetry_trace [of t img prompt tr] by auto
  have A: "isNoImageError e \<and> hairstyle \<noteq> [] \<and> gender \<noteq> [] \<longrightarrow>
          (\<exists>k1 k2. 1 \<le> k1 \<and> k1 \<le> 3 \<and> 1 \<le> k2 \<and> k2 \<le> 3 \<and>
             snd (generateDecadeImage t imageDataUrl prompt hairstyle gender tr) =
               tr @ attemptGroup \<lparr>imagePart = img, textPart = prompt\<rparr> k1
                  @ attemptGroup \<lparr>imagePart = img, textPart =
             (js ''Crie uma fotografia da pessoa nesta imagem com um penteado '' @ gender @
              js '' moderno '' @ hairstyle @
              js ''. A fotografia deve mostrar claramente o penteado e ter um aspeto aut'' @ [234] @
              js ''ntico e de alta qualidade.'')\<rparr> k2) \<and>
          (\<forall>resultUrl tr2.
             callAndProcess t img
             (js ''Crie uma fotografia da pessoa nesta imagem com um penteado '' @ gender @
              js '' moderno '' @ hairstyle @
              js ''. A fotografia deve mostrar claramente o penteado e ter um aspeto aut'' @ [234] @
              js ''ntico e de alta qualidade.'') tr1 = (Inr resultUrl, tr2) \<longrightarrow>
             generateDecadeImage t imageDataUrl prompt hairstyle gender tr = (Inr resultUrl, tr2)) \<and>
          (\<forall>m tr2.
             callAndProcess t img
             (js ''Crie uma fotografia da pessoa nesta imagem com um penteado '' @ gender @
              js '' moderno '' @ hairstyle @
              js ''. A fotografia deve mostrar claramente o penteado e ter um aspeto aut'' @ [234] @
              js ''ntico e de alta qualidade.'') tr1 = (Inl (JsError m), tr2) \<longrightarrow>
             generateDecadeImage t imageDataUrl prompt hairstyle gender tr =
               (Inl (JsError (js ''O modelo de IA falhou com os prompts original e de recurso. '' @ [218] @
                 js ''ltimo erro: '' @ m)), tr2)) \<and>
          (\<forall>json str tr2.
             callAndProcess t img
             (js ''Crie uma fotografia da pessoa nesta imagem com um penteado '' @ gender @
              js '' moderno '' @ hairstyle @
              js ''. A fotografia deve mostrar claramente o penteado e ter um aspeto aut'' @ [234] @
              js ''ntico e de alta qualidade.'') tr1 = (Inl (JsValue json str), tr2) \<longrightarrow>
             generateDecadeImage t imageDataUrl prompt hairstyle gender tr =
               (Inl (JsError (js ''O modelo de IA falhou com os prompts original e de recurso. '' @ [218] @
                 js ''ltimo erro: '' @ str)), tr2))"
  proof (intro impI conjI)
    assume a: "isNoImageError e \<and> hairstyle \<noteq> [] \<and> gender \<noteq> []"
    let ?fb = "callAndProcess t img (getFallbackPrompt hairstyle gender) tr1"
    have "snd (generateDecadeImage t imageDataUrl prompt hairstyle gender tr) = snd ?fb"
      using a by (simp add: generateDecadeImage_def dec primary split: prod.splits sum.splits)
    also have "\<dots> = snd (callGeminiWithRetry t img (getFallbackPrompt hairstyle gender) tr1)"
      by (rule callAndProcess_trace)
    finally obtain k2 where "1 \<le> k2" "k2 \<le> 3"
      "snd (generateDecadeImage t imageDataUrl prompt hairstyle gender tr) =
         tr1 @ attemptGroup \<lparr>imagePart = img, textPart = getFallbackPrompt hairstyle gender\<rparr> k2"
      using callGeminiWithRetry_trace [of t img "getFallbackPrompt hairstyle gender" tr1] by auto
    with k1 show "\<exists>k1 k2. 1 \<le> k1 \<and> k1 \<le> 3 \<and> 1 \<le> k2 \<and> k2 \<le> 3 \<and>
             snd (generateDecadeImage t imageDataUrl prompt hairstyle gender tr) =
               tr @ attemptGroup \<lparr>imagePart = img, textPart = prompt\<rparr> k1
                  @ attemptGroup \<lparr>imagePart = img, textPart =
             (js ''Crie uma fotografia da pessoa nesta imagem com um penteado '' @ gender @
              js '' moderno '' @ hairstyle @
              js ''. A fotografia deve mostrar claramente o penteado e ter um aspeto aut'' @ [234] @
              js ''ntico e de alta qualidade.'')\<rparr> k2"
      unfolding fb by auto
    show "\<forall>resultUrl tr2.
             callAndProcess t img
             (js ''Crie uma fotografia da pessoa nesta imagem com um penteado '' @ gender @
              js '' moderno '' @ hairstyle @
              js ''. A fotografia deve mostrar claramente o penteado e ter um aspeto aut'' @ [234] @
              js ''ntico e de alta qualidade.'') tr1 = (Inr resultUrl, tr2) \<longrightarrow>
             generateDecadeImage t imageDataUrl prompt hairstyle gender tr = (Inr resultUrl, tr2)"
      using a unfolding fb [symmetric] by (simp add: generateDecadeImage_def dec primary)
    show "\<forall>m tr2.
             callAndProcess t img
             (js ''Crie uma fotografia da pessoa nesta imagem com um penteado '' @ gender @
              js '' moderno '' @ hairstyle @
              js ''. A fotografia deve mostrar claramente o penteado e ter um aspeto aut'' @ [234] @
              js ''ntico e de alta qualidade.'') tr1 = (Inl (JsError m), tr2) \<longrightarrow>
             generateDecadeImage t imageDataUrl prompt hairstyle gender tr =
               (Inl (JsError (js ''O modelo de IA falhou com os prompts original e de recurso. '' @ [218] @
                 js ''ltimo erro: '' @ m)), tr2)"
      using a unfolding fb [symmetric]
      by (simp add: generateDecadeImage_def dec primary fallbackFailedError_def finalErrorMessageOf_def)
    show "\<forall>json str tr2.
             callAndProcess t img
             (js ''Crie uma fotografia da pessoa nesta imagem com um penteado '' @ gender @
              js '' moderno '' @ hairstyle @
              js ''. A fotografia deve mostrar claramente o penteado e ter um aspeto aut'' @ [234] @
              js ''ntico e de alta qualidade.'') tr1 = (Inl (JsValue json str), tr2) \<longrightarrow>
             generateDecadeImage t imageDataUrl prompt hairstyle gender tr =
               (Inl (JsError (js ''O modelo de IA falhou com os prompts original e de recurso. '' @ [218] @
                 js ''ltimo erro: '' @ str)), tr2)"
      using a unfolding fb [symmetric]
      by (simp add: generateDecadeImage_def dec primary fallbackFailedError_def finalErrorMessageOf_def)
  qed
  have B: "isNoImageError e \<and> (hairstyle = [] \<or> gender = []) \<longrightarrow>
          generateDecadeImage t imageDataUrl prompt hairstyle gender tr = (Inl e, tr1) \<and>
          (\<exists>k1. 1 \<le> k1 \<and> k1 \<le> 3 \<and>
             tr1 = tr @ attemptGroup \<lparr>imagePart = img, textPart = prompt\<rparr> k1)"
    using k1 by (auto simp add: generateDecadeImage_def dec primary)
  have C: "\<not> isNoImageError e \<longrightarrow>
          (\<forall>m. e = JsError m \<longrightarrow> generateDecadeImage t imageDataUrl prompt hairstyle gender tr =
               (Inl (JsError (js ''O modelo de IA n'' @ [227] @
                 js ''o conseguiu gerar uma imagem. Detalhes: '' @ m)), tr1)) \<and>
          (\<forall>json str. e = JsValue json str \<longrightarrow> generateDecadeImage t imageDataUrl prompt hairstyle gender tr =
               (Inl (JsError (js ''O modelo de IA n'' @ [227] @
                 js ''o conseguiu gerar uma imagem. Detalhes: '' @ json)), tr1)) \<and>
          (\<exists>k1. 1 \<le> k1 \<and> k1 \<le> 3 \<and>
             tr1 = tr @ attemptGroup \<lparr>imagePart = img, textPart = prompt\<rparr> k1)"
    using k1
    by (auto simp add: generateDecadeImage_def dec primary unrecoverableError_def errorMessageOf_def)
  have D: "\<forall>m. isNoImageError (JsError m) =
             includesStr m (js ''O modelo de IA respondeu com texto em vez de uma imagem'')"
    by (simp add: isNoImageError_def errorMessageOf_def noImagePhrase_def)
  have E: "\<forall>response. processGeminiResponse response = Inl e \<longrightarrow> isNoImageError e"
    using noImageError_classified processGeminiResponse_Inl by blast
  from A B C D E show ?thesis by blast
qed

text \<open>A text-only answer to the primary instruction and an image for the fallback
  instruction: the fallback's image is returned after two transport calls, the second
  with the templated instruction. The same with a fallback that fails: the error names the
  fallback's failure.\<close>

theorem generateDecadeImage_fallback_witness:
  "decode (js ''data:image/png;base64,AA'') = Inr \<lparr>mimeType = js ''image/png'', data = js ''AA''\<rparr> \<and>
   callAndProcess
     (\<lambda>tr req. if textPart req = js ''p'' then Inr \<lparr>parts = [], responseText = Some (js ''no'')\<rparr>
                else Inr \<lparr>parts = [\<lparr>inlineData = Some \<lparr>mimeType = js ''image/png'', data = js ''BB''\<rparr>\<rparr>],
                          responseText = None\<rparr>)
     \<lparr>mimeType = js ''image/png'', data = js ''AA''\<rparr> (js ''p'') [] =
     (Inl (JsError (js ''O modelo de IA respondeu com texto em vez de uma imagem: '' @ [34] @ js ''no'' @ [34])),
      [Transport \<lparr>imagePart = \<lparr>mimeType = js ''image/png'', data = js ''AA''\<rparr>, textPart = js ''p''\<rparr>]) \<and>
   isNoImageError (JsError (js ''O modelo de IA respondeu com texto em vez de uma imagem: '' @ [34] @ js ''no'' @ [34])) \<and>
   generateDecadeImage
     (\<lambda>tr req. if textPart req = js ''p'' then Inr \<lparr>parts = [], responseText = Some (js ''no'')\<rparr>
                else Inr \<lparr>parts = [\<lparr>inlineData = Some \<lparr>mimeType = js ''image/png'', data = js ''BB''\<rparr>\<rparr>],
                          responseText = None\<rparr>)
     (js ''data:image/png;base64,AA'') (js ''p'') (js ''Coque Samurai'') (js ''masculino'') [] =
     (Inr (js ''data:image/png;base64,BB''),
      [Transport \<lparr>imagePart = \<lparr>mimeType = js ''image/png'', data = js ''AA''\<rparr>, textPart = js ''p''\<rparr>,
       Transport \<lparr>imagePart = \<lparr>mimeType = js ''image/png'', data = js ''AA''\<rparr>,
                  textPart = js ''Crie uma fotografia da pessoa nesta imagem com um penteado masculino moderno Coque Samurai. A fotografia deve mostrar claramente o penteado e ter um aspeto aut'' @ [234] @
                  js ''ntico e de alta qualidade.''\<rparr>]) \<and>
   callAndProcess
     (\<lambda>tr req. if textPart req = js ''p'' then Inr \<lparr>parts = [], responseText = Some (js ''no'')\<rparr>
                else Inl (JsError (js ''quota'')))
     \<lparr>mimeType = js ''image/png'', data = js ''AA''\<rparr> (js ''p'') [] =
     (Inl (JsError (js ''O modelo de IA respondeu com texto em vez de uma imagem: '' @ [34] @ js ''no'' @ [34])),
      [Transport \<lparr>imagePart = \<lparr>mimeType = js ''image/png'', data = js ''AA''\<rparr>, textPart = js ''p''\<rparr>]) \<and>
   generateDecadeImage
     (\<lambda>tr req. if textPart req = js ''p'' then Inr \<lparr>parts = [], responseText = Some (js ''no'')\<rparr>
                else Inl (JsError (js ''quota'')))
     (js ''data:image/png;base64,AA'') (js ''p'') (js ''Coque Samurai'') (js ''masculino'') [] =
     (Inl (JsError (js ''O modelo de IA falhou com os prompts original e de recurso. '' @ [218] @
                 js ''ltimo erro: quota'')),
      [Transport \<lparr>imagePart = \<lparr>mimeType = js ''image/png'', data = js ''AA''\<rparr>, textPart = js ''p''\<rparr>,
       Transport \<lparr>imagePart = \<lparr>mimeType = js ''image/png'', data = js ''AA''\<rparr>,
                  textPart = js ''Crie uma fotografia da pessoa nesta imagem com um penteado masculino moderno Coque Samurai. A fotografia deve mostrar claramente o penteado e ter um aspeto aut'' @ [234] @
                  js ''ntico e de alta qualidade.''\<rparr>])"
proof -
  let ?t1 = "(\<lambda>tr req. if textPart req = js ''p'' then Inr \<lparr>parts = [], responseText = Some (js ''no'')\<rparr>
                else Inr \<lparr>parts = [\<lparr>inlineData = Some \<lparr>mimeType = js ''image/png'', data = js ''BB''\<rparr>\<rparr>],
                          responseText = None\<rparr>)"
  let ?t2 = "(\<lambda>tr req. if textPart req = js ''p'' then Inr \<lparr>parts = [], responseText = Some (js ''no'')\<rparr>
                else Inl (JsError (js ''quota'')))"
  let ?img = "\<lparr>mimeType = js ''image/png'', data = js ''AA''\<rparr>"
  let ?e = "(JsError (js ''O modelo de IA respondeu com texto em vez de uma imagem: '' @ [34] @ js ''no'' @ [34]))"
  let ?tr1 = "[Transport \<lparr>imagePart = \<lparr>mimeType = js ''image/png'', data = js ''AA''\<rparr>, textPart = js ''p''\<rparr>]"
  let ?h = "js ''Coque Samurai''"
  let ?g = "js ''masculino''"
  let ?fbtext = "js ''Crie uma fotografia da pessoa nesta imagem com um penteado '' @ ?g @
              js '' moderno '' @ ?h @
              js ''. A fotografia deve mostrar claramente o penteado e ter um aspeto aut'' @ [234] @
              js ''ntico e de alta qualidade.''"
  have lit: "?fbtext = js ''Crie uma fotografia da pessoa nesta imagem com um penteado masculino moderno Coque Samurai. A fotografia deve mostrar claramente o penteado e ter um aspeto aut'' @ [234] @
                  js ''ntico e de alta qualidade.''"
    by (simp add: js_def)
  have dec: "decode (js ''data:image/png;base64,AA'') = Inr ?img"
    by (simp add: decode_def dataUrlMatch_def js_def isWordChar_def isLineTerminator_def)
  have primary1: "callAndProcess ?t1 ?img (js ''p'') [] = (Inl ?e, ?tr1)"
    by (simp add: callAndProcess_def callGeminiWithRetry_def retry_from_1 retriable_def
                  processGeminiResponse_def noImageError_def noImagePhrase_def) (simp add: js_def)
  have primary2: "callAndProcess ?t2 ?img (js ''p'') [] = (Inl ?e, ?tr1)"
    by (simp add: callAndProcess_def callGeminiWithRetry_def retry_from_1 retriable_def
                  processGeminiResponse_def noImageError_def noImagePhrase_def) (simp add: js_def)
  have cls: "isNoImageError ?e"
    by (simp add: isNoImageError_def errorMessageOf_def noImagePhrase_def js_def)
  have ne: "?fbtext \<noteq> js ''p''"
    by (simp add: js_def)
  have nonempty: "?h \<noteq> [] \<and> ?g \<noteq> []"
    by (simp add: js_def)
  have nint: "\<not> isInternalError (JsError (js ''quota''))"
    by (simp add: isInternalError_def errorMessageOf_def js_def)
  have fb1: "callAndProcess ?t1 ?img ?fbtext ?tr1 =
      (Inr (js ''data:image/png;base64,BB''),
       ?tr1 @ [Transport \<lparr>imagePart = ?img, textPart = ?fbtext\<rparr>])"
    using ne
    by (simp add: callAndProcess_def callGeminiWithRetry_def retry_from_1 retriable_def
                  processGeminiResponse_def encode_def) (simp add: js_def)
  have fb2: "callAndProcess ?t2 ?img ?fbtext ?tr1 =
      (Inl (JsError (js ''quota'')),
       ?tr1 @ [Transport \<lparr>imagePart = ?img, textPart = ?fbtext\<rparr>])"
    using ne nint
    by (simp add: callAndProcess_def callGeminiWithRetry_def retry_from_1 retriable_def)
  have r1: "generateDecadeImage ?t1 (js ''data:image/png;base64,AA'') (js ''p'') ?h ?g [] =
      (Inr (js ''data:image/png;base64,BB''),
       ?tr1 @ [Transport \<lparr>imagePart = ?img, textPart = ?fbtext\<rparr>])"
    using generateDecadeImage_fallback [OF dec primary1, of ?h ?g] cls nonempty fb1 by blast
  have r2: "generateDecadeImage ?t2 (js ''data:image/png;base64,AA'') (js ''p'') ?h ?g [] =
      (Inl (JsError (js ''O modelo de IA falhou com os prompts original e de recurso. '' @ [218] @
                 js ''ltimo erro: '' @ js ''quota'')),
       ?tr1 @ [Transport \<lparr>imagePart = ?img, textPart = ?fbtext\<rparr>])"
    using generateDecadeImage_fallback [OF dec primary2, of ?h ?g] cls nonempty fb2 by blast
  have lit2: "js ''ltimo erro: '' @ js ''quota'' = js ''ltimo erro: quota''"
    by (simp add: js_def)
  from dec primary1 primary2 cls r1 r2 show ?thesis
    unfolding lit lit2 by simp
qed

section \<open>The handlers of a single item\<close>

text \<open>
  C6, as stated, has \<^verbatim>\<open>handleRemixDecade\<close> reset the item and call the remix client
  whenever the item has a result image and is not \<open>Pending\<close>. With an empty instruction
  the handler returns at once: the item is \<open>Done\<close> with an image, and nothing changes.
\<close>

theorem handleRemixDecade_counterexample:
  "generatedImages
     \<lparr>uploadedImage = Some (js ''data:image/png;base64,AA''),
      generatedImages = [js ''Afro Volumoso'' \<mapsto> doneItem (js ''data:image/png;base64,BB'')],
      isLoading = False, appState = ResultsShown, selectedGender = Some Feminino\<rparr>
     (js ''Afro Volumoso'') = Some (doneItem (js ''data:image/png;base64,BB'')) \<and>
   url (doneItem (js ''data:image/png;base64,BB'')) = Some (js ''data:image/png;base64,BB'') \<and>
   js ''data:image/png;base64,BB'' \<noteq> [] \<and>
   \<not> isPending
     \<lparr>uploadedImage = Some (js ''data:image/png;base64,AA''),
      generatedImages = [js ''Afro Volumoso'' \<mapsto> doneItem (js ''data:image/png;base64,BB'')],
      isLoading = False, appState = ResultsShown, selectedGender = Some Feminino\<rparr>
     (js ''Afro Volumoso'') \<and>
   handleRemixDecade_start (js ''Afro Volumoso'') []
     \<lparr>uploadedImage = Some (js ''data:image/png;base64,AA''),
      generatedImages = [js ''Afro Volumoso'' \<mapsto> doneItem (js ''data:image/png;base64,BB'')],
      isLoading = False, appState = ResultsShown, selectedGender = Some Feminino\<rparr> =
     (\<lparr>uploadedImage = Some (js ''data:image/png;base64,AA''),
       generatedImages = [js ''Afro Volumoso'' \<mapsto> doneItem (js ''data:image/png;base64,BB'')],
       isLoading = False, appState = ResultsShown, selectedGender = Some Feminino\<rparr>, None)"
  by (simp add: handleRemixDecade_start_def sourceImageOf_def isPending_def doneItem_def js_def)

text \<open>
  C6, amended: \<^verbatim>\<open>handleRemixDecade\<close> is a no-op when the item has no result image,
  when the instruction is empty, or when the item is \<open>Pending\<close>. Otherwise it sets the
  item's status to \<open>Pending\<close> and keeps its image, and calls the remix client with that
  image and the instruction. When the call fails, the item becomes \<open>Error\<close> with the
  message of the failure and still holds the previous image; when it succeeds, the item
  becomes \<open>Done\<close> with the new image. No other label's entry changes.
\<close>

theorem handleRemixDecade_behaviour:
  "(\<not> truthy (sourceImageOf a hairstyle) \<or> prompt = [] \<or> isPending a hairstyle \<longrightarrow>
      handleRemixDecade_start hairstyle prompt a = (a, None)) \<and>
   (generatedImages a hairstyle = Some item \<and> url item = Some sourceImage \<and>
    sourceImage \<noteq> [] \<and> prompt \<noteq> [] \<and> status item \<noteq> Pending \<longrightarrow>
      handleRemixDecade_start hairstyle prompt a =
        (a\<lparr>generatedImages := (generatedImages a)(hairstyle \<mapsto> item\<lparr>status := Pending\<rparr>)\<rparr>,
         Some \<lparr>remixHairstyle = hairstyle, remixSource = sourceImage, remixPrompt = prompt\<rparr>) \<and>
      url (item\<lparr>status := Pending\<rparr>) = Some sourceImage) \<and>
   generatedImages (handleRemixDecade_settle hairstyle sourceImage (Inl err) b) hairstyle =
     Some \<lparr>status = Error, url = Some sourceImage, error = Some (caughtMessage err)\<rparr> \<and>
   generatedImages (handleRemixDecade_settle hairstyle sourceImage (Inr resultUrl) b) hairstyle =
     Some \<lparr>status = Done, url = Some resultUrl, error = None\<rparr> \<and>
   (\<forall>other r. other \<noteq> hairstyle \<longrightarrow>
      generatedImages (handleRemixDecade_settle hairstyle sourceImage r b) other =
        generatedImages b other)"
  by (auto simp add: handleRemixDecade_start_def handleRemixDecade_settle_def sourceImageOf_def
        isPending_def markPending_def truthy_def doneItem_def split: option.splits sum.splits)

theorem handleRemixDecade_behaviour_witness:
  "generatedImages
     \<lparr>uploadedImage = Some (js ''data:image/png;base64,AA''),
      generatedImages = [js ''Afro Volumoso'' \<mapsto> doneItem (js ''data:image/png;base64,BB'')],
      isLoading = False, appState = ResultsShown, selectedGender = Some Feminino\<rparr>
     (js ''Afro Volumoso'') = Some (doneItem (js ''data:image/png;base64,BB'')) \<and>
   url (doneItem (js ''data:image/png;base64,BB'')) = Some (js ''data:image/png;base64,BB'') \<and>
   js ''data:image/png;base64,BB'' \<noteq> [] \<and> js ''franja'' \<noteq> [] \<and>
   status (doneItem (js ''data:image/png;base64,BB'')) \<noteq> Pending \<and>
   handleRemixDecade_start (js ''Afro Volumoso'') (js ''franja'')
     \<lparr>uploadedImage = Some (js ''data:image/png;base64,AA''),
      generatedImages = [js ''Afro Volumoso'' \<mapsto> doneItem (js ''data:image/png;base64,BB'')],
      isLoading = False, appState = ResultsShown, selectedGender = Some Feminino\<rparr> =
     (\<lparr>uploadedImage = Some (js ''data:image/png;base64,AA''),
       generatedImages = [js ''Afro Volumoso'' \<mapsto>
          \<lparr>status = Pending, url = Some (js ''data:image/png;base64,BB''), error = None\<rparr>],
       isLoading = False, appState = ResultsShown, selectedGender = Some Feminino\<rparr>,
      Some \<lparr>remixHairstyle = js ''Afro Volumoso'', remixSource = js ''data:image/png;base64,BB'',
            remixPrompt = js ''franja''\<rparr>) \<and>
   \<not> truthy (sourceImageOf
     \<lparr>uploadedImage = Some (js ''data:image/png;base64,AA''),
      generatedImages = [js ''Afro Volumoso'' \<mapsto> doneItem (js ''data:image/png;base64,BB'')],
      isLoading = False, appState = ResultsShown, selectedGender = Some Feminino\<rparr>
     (js ''Pixie'')) \<and>
   handleRemixDecade_start (js ''Pixie'') (js ''franja'')
     \<lparr>uploadedImage = Some (js ''data:image/png;base64,AA''),
      generatedImages = [js ''Afro Volumoso'' \<mapsto> doneItem (js ''data:image/png;base64,BB'')],
      isLoading = False, appState = ResultsShown, selectedGender = Some Feminino\<rparr> =
     (\<lparr>uploadedImage = Some (js ''data:image/png;base64,AA''),
       generatedImages = [js ''Afro Volumoso'' \<mapsto> doneItem (js ''data:image/png;base64,BB'')],
       isLoading = False, appState = ResultsShown, selectedGender = Some Feminino\<rparr>, None)"
proof -
  let ?a = "\<lparr>uploadedImage = Some (js ''data:image/png;base64,AA''),
      generatedImages = [js ''Afro Volumoso'' \<mapsto> doneItem (js ''data:image/png;base64,BB'')],
      isLoading = False, appState = ResultsShown, selectedGender = Some Feminino\<rparr>"
  have ne: "js ''Pixie'' \<noteq> js ''Afro Volumoso''" by (simp add: js_def)
  have h1: "generatedImages ?a (js ''Afro Volumoso'') = Some (doneItem (js ''data:image/png;base64,BB''))"
    by simp
  have h2: "url (doneItem (js ''data:image/png;base64,BB'')) = Some (js ''data:image/png;base64,BB'')"
    by (simp add: doneItem_def)
  have h3: "js ''data:image/png;base64,BB'' \<noteq> [] \<and> js ''franja'' \<noteq> []" by (simp add: js_def)
  have h4: "status (doneItem (js ''data:image/png;base64,BB'')) \<noteq> Pending" by (simp add: doneItem_def)
  have h5: "\<not> truthy (sourceImageOf ?a (js ''Pixie''))"
    using ne by (simp add: sourceImageOf_def truthy_def)
  have upd: "(doneItem (js ''data:image/png;base64,BB''))\<lparr>status := Pending\<rparr> =
      \<lparr>status = Pending, url = Some (js ''data:image/png;base64,BB''), error = None\<rparr>"
    by (simp add: doneItem_def)
  from handleRemixDecade_behaviour [of ?a "js ''Afro Volumoso''" "js ''franja''"
         "doneItem (js ''data:image/png;base64,BB'')" "js ''data:image/png;base64,BB''"]
       handleRemixDecade_behaviour [of ?a "js ''Pixie''" "js ''franja''"]
       h1 h2 h3 h4 h5 upd
  show ?thesis by simp
qed


text \<open>
  C10: when the item of a label is \<open>Done\<close> with a result image,
  \<^verbatim>\<open>handleRemixDecade\<close> with the empty instruction issues no call and leaves the
  state, the items among it, as it was.
\<close>

theorem handleRemixDecade_empty_instruction:
  assumes "generatedImages (app s) hairstyle = Some item"
    and "status item = Done" and "url item = Some resultImage"
  shows "handleRemixDecade_start hairstyle [] (app s) = (app s, None) \<and>
         (\<forall>s'. sys_step s (RemixStart hairstyle []) s' \<longrightarrow> s' = s)"
proof -
  have st: "handleRemixDecade_start hairstyle [] (app s) = (app s, None)"
    by (simp add: handleRemixDecade_start_def split: option.splits)
  have "s' = s" if "sys_step s (RemixStart hairstyle []) s'" for s'
    using that st by (cases rule: sys_step.cases) auto
  with st show ?thesis by blast
qed

theorem handleRemixDecade_empty_instruction_witness:
  "generatedImages (app
     \<lparr>app = \<lparr>uploadedImage = Some (js ''data:image/png;base64,AA''),
             generatedImages = [js ''Coque Samurai'' \<mapsto> doneItem (js ''data:image/png;base64,CC'')],
             isLoading = False, appState = ResultsShown, selectedGender = Some Masculino\<rparr>,
      hairstyleQueue = [], workers = [Finished, Finished],
      runImage = js ''data:image/png;base64,AA'', runGender = Masculino, awaitingAll = False,
      retries = [], remixes = []\<rparr>) (js ''Coque Samurai'') =
     Some (doneItem (js ''data:image/png;base64,CC'')) \<and>
   status (doneItem (js ''data:image/png;base64,CC'')) = Done \<and>
   url (doneItem (js ''data:image/png;base64,CC'')) = Some (js ''data:image/png;base64,CC'') \<and>
   handleRemixDecade_start (js ''Coque Samurai'') []
     \<lparr>uploadedImage = Some (js ''data:image/png;base64,AA''),
      generatedImages = [js ''Coque Samurai'' \<mapsto> doneItem (js ''data:image/png;base64,CC'')],
      isLoading = False, appState = ResultsShown, selectedGender = Some Masculino\<rparr> =
     (\<lparr>uploadedImage = Some (js ''data:image/png;base64,AA''),
       generatedImages = [js ''Coque Samurai'' \<mapsto> doneItem (js ''data:image/png;base64,CC'')],
       isLoading = False, appState = ResultsShown, selectedGender = Some Masculino\<rparr>, None)"
proof -
  let ?s = "\<lparr>app = \<lparr>uploadedImage = Some (js ''data:image/png;base64,AA''),
             generatedImages = [js ''Coque Samurai'' \<mapsto> doneItem (js ''data:image/png;base64,CC'')],
             isLoading = False, appState = ResultsShown, selectedGender = Some Masculino\<rparr>,
      hairstyleQueue = [], workers = [Finished, Finished],
      runImage = js ''data:image/png;base64,AA'', runGender = Masculino, awaitingAll = False,
      retries = [], remixes = []\<rparr>"
  have h1: "generatedImages (app ?s) (js ''Coque Samurai'') =
              Some (doneItem (js ''data:image/png;base64,CC''))" by simp
  have h2: "status (doneItem (js ''data:image/png;base64,CC'')) = Done" by (simp add: doneItem_def)
  have h3: "url (doneItem (js ''data:image/png;base64,CC'')) = Some (js ''data:image/png;base64,CC'')"
    by (simp add: doneItem_def)
  from handleRemixDecade_empty_instruction [OF h1 h2 h3] h1 h2 h3
  show ?thesis by simp
qed

section \<open>The items under every operation\<close>

lemma initialImages_fold:
  "fold (\<lambda>hairstyle m. m(hairstyle \<mapsto> pendingItem)) hs m h =
     (if h \<in> set hs then Some pendingItem else m h)"
  by (induction hs arbitrary: m) auto

lemma initialImages_apply:
  "initialImages hs h = (if h \<in> set hs then Some pendingItem else None)"
  by (simp add: initialImages_def initialImages_fold)

lemma allItems_update:
  "allItems P a \<Longrightarrow> P item \<Longrightarrow>
   allItems P (a\<lparr>generatedImages := (generatedImages a)(h \<mapsto> item)\<rparr>)"
  by (simp add: allItems_def)

lemma itemInvariant_written:
  "itemInvariant pendingItem" "itemInvariant (doneItem u)" "itemInvariant (errorItem m)"
  "itemInvariant \<lparr>status = Error, url = Some src, error = Some m\<rparr>"
  "itemInvariant (markPending prev h)"
  by (simp_all add: itemInvariant_def pendingItem_def doneItem_def errorItem_def markPending_def
        split: option.splits)

lemma processHairstyle_settle_items:
  "allItems itemInvariant a \<Longrightarrow> allItems itemInvariant (processHairstyle_settle h r a)"
  by (cases r) (simp_all add: processHairstyle_settle_def allItems_update itemInvariant_written)

lemma pool_step_items:
  "pool_step c act c' \<Longrightarrow> allItems itemInvariant (app c) \<Longrightarrow> allItems itemInvariant (app c')"
  by (induction rule: pool_step.induct)
     (simp_all add: processHairstyle_settle_items, simp add: allItems_def)

lemma handleRegenerateDecade_start_items:
  "handleRegenerateDecade_start h a = (a', issued) \<Longrightarrow> allItems itemInvariant a \<Longrightarrow>
   allItems itemInvariant a'"
  by (auto simp add: handleRegenerateDecade_start_def allItems_update itemInvariant_written
        split: option.splits if_splits)

lemma handleRegenerateDecade_settle_items:
  "allItems itemInvariant a \<Longrightarrow> allItems itemInvariant (handleRegenerateDecade_settle h r a)"
  by (cases r) (simp_all add: handleRegenerateDecade_settle_def allItems_update itemInvariant_written)

lemma handleRemixDecade_start_items:
  "handleRemixDecade_start h prompt a = (a', issued) \<Longrightarrow> allItems itemInvariant a \<Longrightarrow>
   allItems itemInvariant a'"
  by (auto simp add: handleRemixDecade_start_def allItems_update itemInvariant_written
        split: option.splits if_splits)

lemma handleRemixDecade_settle_items:
  "allItems itemInvariant a \<Longrightarrow> allItems itemInvariant (handleRemixDecade_settle h src r a)"
  by (cases r) (simp_all add: handleRemixDecade_settle_def allItems_update itemInvariant_written)

lemma sys_step_items:
  "sys_step s act s' \<Longrightarrow> allItems itemInvariant (app s) \<Longrightarrow> allItems itemInvariant (app s')"
  by (induction rule: sys_step.induct)
     (simp_all add: pool_step_items handleRegenerateDecade_start_items
        handleRegenerateDecade_settle_items handleRemixDecade_start_items
        handleRemixDecade_settle_items)

lemma handleGenerate_start_items:
  "handleGenerate_start gender a = Some c \<Longrightarrow> allItems itemInvariant (app c)"
  by (auto simp add: handleGenerate_start_def allItems_def initialImages_apply itemInvariant_written
        split: option.splits if_splits)

lemma startSys_app:
  "startSys gender a = Some s \<Longrightarrow> \<exists>c. handleGenerate_start gender a = Some c \<and> app s = app c"
  by (auto simp add: startSys_def Run.extend_def split: option.splits)

lemma sys_exec_items:
  "sys_exec s acts s' \<Longrightarrow> allItems itemInvariant (app s) \<Longrightarrow> allItems itemInvariant (app s')"
  by (induction rule: sys_exec.induct) (auto dest: sys_step_items)

text \<open>
  C9, as stated, has every operation keep each item in one of the shapes: a url when and
  only when the status is \<open>Done\<close> (or \<open>Error\<close> after an earlier success), an error
  message exactly when the status is \<open>Error\<close>. \<^verbatim>\<open>handleRemixDecade\<close> breaks it: it
  turns a \<open>Done\<close> item into a \<open>Pending\<close> item that still holds its url.
\<close>

theorem remix_pending_counterexample:
  "specItemInvariant (doneItem (js ''data:image/png;base64,BB'')) \<and>
   fst (handleRemixDecade_start (js ''Afro Volumoso'') (js ''franja'')
     \<lparr>uploadedImage = Some (js ''data:image/png;base64,AA''),
      generatedImages = [js ''Afro Volumoso'' \<mapsto> doneItem (js ''data:image/png;base64,BB'')],
      isLoading = False, appState = ResultsShown, selectedGender = Some Feminino\<rparr>) =
     \<lparr>uploadedImage = Some (js ''data:image/png;base64,AA''),
      generatedImages = [js ''Afro Volumoso'' \<mapsto>
         \<lparr>status = Pending, url = Some (js ''data:image/png;base64,BB''), error = None\<rparr>],
      isLoading = False, appState = ResultsShown, selectedGender = Some Feminino\<rparr> \<and>
   \<not> specItemInvariant
     \<lparr>status = Pending, url = Some (js ''data:image/png;base64,BB''), error = None\<rparr>"
  by (simp add: specItemInvariant_def handleRemixDecade_start_def sourceImageOf_def isPending_def
        markPending_def doneItem_def js_def)

text \<open>
  C9, amended: every operation of the orchestrator (the start of a run, every step of its
  workers, every step of \<^verbatim>\<open>handleRegenerateDecade\<close> and \<^verbatim>\<open>handleRemixDecade\<close>) keeps
  this of every item: when the status is \<open>Done\<close> the url is present and the error
  message absent, and when the status is \<open>Error\<close> the error message is present. The start
  of a run establishes it, every step preserves it, and so it holds in every state a run
  and the user's requests can reach.
\<close>

theorem items_invariant:
  "(handleGenerate_start gender a = Some c \<longrightarrow> allItems itemInvariant (app c)) \<and>
   (allItems itemInvariant (app s) \<and> sys_step s act s' \<longrightarrow> allItems itemInvariant (app s')) \<and>
   (startSys gender a = Some s0 \<and> sys_exec s0 acts s1 \<longrightarrow> allItems itemInvariant (app s1))"
proof (intro conjI impI)
  assume "handleGenerate_start gender a = Some c"
  then show "allItems itemInvariant (app c)" by (rule handleGenerate_start_items)
next
  assume "allItems itemInvariant (app s) \<and> sys_step s act s'"
  then show "allItems itemInvariant (app s')" using sys_step_items by blast
next
  assume "startSys gender a = Some s0 \<and> sys_exec s0 acts s1"
  then show "allItems itemInvariant (app s1)"
    using startSys_app handleGenerate_start_items sys_exec_items by metis
qed

theorem items_invariant_witness:
  "handleGenerate_start Feminino
     \<lparr>uploadedImage = Some (js ''data:image/png;base64,AA''), generatedImages = Map.empty,
      isLoading = False, appState = ImageUploaded, selectedGender = None\<rparr> =
     Some \<lparr>app = \<lparr>uploadedImage = Some (js ''data:image/png;base64,AA''),
                  generatedImages = initialImages FEMALE_HAIRSTYLES,
                  isLoading = True, appState = Generating, selectedGender = Some Feminino\<rparr>,
           hairstyleQueue = FEMALE_HAIRSTYLES, workers = [LoopHead, LoopHead],
           runImage = js ''data:image/png;base64,AA'', runGender = Feminino,
           awaitingAll = True\<rparr> \<and>
   allItems itemInvariant
     \<lparr>uploadedImage = Some (js ''data:image/png;base64,AA''),
      generatedImages = initialImages FEMALE_HAIRSTYLES,
      isLoading = True, appState = Generating, selectedGender = Some Feminino\<rparr> \<and>
   allItems itemInvariant
     \<lparr>uploadedImage = Some (js ''data:image/png;base64,AA''),
      generatedImages = [js ''Afro Volumoso'' \<mapsto> doneItem (js ''data:image/png;base64,BB'')],
      isLoading = False, appState = ResultsShown, selectedGender = Some Feminino\<rparr> \<and>
   sys_step
     \<lparr>app = \<lparr>uploadedImage = Some (js ''data:image/png;base64,AA''),
             generatedImages = [js ''Afro Volumoso'' \<mapsto> doneItem (js ''data:image/png;base64,BB'')],
             isLoading = False, appState = ResultsShown, selectedGender = Some Feminino\<rparr>,
      hairstyleQueue = [], workers = [Finished, Finished],
      runImage = js ''data:image/png;base64,AA'', runGender = Feminino, awaitingAll = False,
      retries = [], remixes = []\<rparr>
     (RemixStart (js ''Afro Volumoso'') (js ''franja''))
     \<lparr>app = \<lparr>uploadedImage = Some (js ''data:image/png;base64,AA''),
             generatedImages = [js ''Afro Volumoso'' \<mapsto>
               \<lparr>status = Pending, url = Some (js ''data:image/png;base64,BB''), error = None\<rparr>],
             isLoading = False, appState = ResultsShown, selectedGender = Some Feminino\<rparr>,
      hairstyleQueue = [], workers = [Finished, Finished],
      runImage = js ''data:image/png;base64,AA'', runGender = Feminino, awaitingAll = False,
      retries = [],
      remixes = [\<lparr>remixHairstyle = js ''Afro Volumoso'',
                  remixSource = js ''data:image/png;base64,BB'', remixPrompt = js ''franja''\<rparr>]\<rparr> \<and>
   allItems itemInvariant
     \<lparr>uploadedImage = Some (js ''data:image/png;base64,AA''),
      generatedImages = [js ''Afro Volumoso'' \<mapsto>
         \<lparr>status = Pending, url = Some (js ''data:image/png;base64,BB''), error = None\<rparr>],
      isLoading = False, appState = ResultsShown, selectedGender = Some Feminino\<rparr> \<and>
   startSys Feminino
     \<lparr>uploadedImage = Some (js ''data:image/png;base64,AA''), generatedImages = Map.empty,
      isLoading = False, appState = ImageUploaded, selectedGender = None\<rparr> =
     Some \<lparr>app = \<lparr>uploadedImage = Some (js ''data:image/png;base64,AA''),
                  generatedImages = initialImages FEMALE_HAIRSTYLES,
                  isLoading = True, appState = Generating, selectedGender = Some Feminino\<rparr>,
           hairstyleQueue = FEMALE_HAIRSTYLES, workers = [LoopHead, LoopHead],
           runImage = js ''data:image/png;base64,AA'', runGender = Feminino,
           awaitingAll = True, retries = [], remixes = []\<rparr> \<and>
   sys_exec
     \<lparr>app = \<lparr>uploadedImage = Some (js ''data:image/png;base64,AA''),
             generatedImages = initialImages FEMALE_HAIRSTYLES,
             isLoading = True, appState = Generating, selectedGender = Some Feminino\<rparr>,
      hairstyleQueue = FEMALE_HAIRSTYLES, workers = [LoopHead, LoopHead],
      runImage = js ''data:image/png;base64,AA'', runGender = Feminino,
      awaitingAll = True, retries = [], remixes = []\<rparr>
     [Pool (Dequeue 0 (js ''Pixie Assim'' @ [233] @ js ''trico''))]
     \<lparr>app = \<lparr>uploadedImage = Some (js ''data:image/png;base64,AA''),
             generatedImages = initialImages FEMALE_HAIRSTYLES,
             isLoading = True, appState = Generating, selectedGender = Some Feminino\<rparr>,
      hairstyleQueue = drop 1 FEMALE_HAIRSTYLES,
      workers = [Awaiting (js ''Pixie Assim'' @ [233] @ js ''trico''), LoopHead],
      runImage = js ''data:image/png;base64,AA'', runGender = Feminino,
      awaitingAll = True, retries = [], remixes = []\<rparr>"
proof -
  let ?a0 = "\<lparr>uploadedImage = Some (js ''data:image/png;base64,AA''), generatedImages = Map.empty,
      isLoading = False, appState = ImageUploaded, selectedGender = None\<rparr>"
  let ?c0 = "\<lparr>app = \<lparr>uploadedImage = Some (js ''data:image/png;base64,AA''),
                  generatedImages = initialImages FEMALE_HAIRSTYLES,
                  isLoading = True, appState = Generating, selectedGender = Some Feminino\<rparr>,
           hairstyleQueue = FEMALE_HAIRSTYLES, workers = [LoopHead, LoopHead],
           runImage = js ''data:image/png;base64,AA'', runGender = Feminino,
           awaitingAll = True\<rparr>"
  let ?aD = "\<lparr>uploadedImage = Some (js ''data:image/png;base64,AA''),
      generatedImages = [js ''Afro Volumoso'' \<mapsto> doneItem (js ''data:image/png;base64,BB'')],
      isLoading = False, appState = ResultsShown, selectedGender = Some Feminino\<rparr>"
  let ?sD = "\<lparr>app = ?aD, hairstyleQueue = [], workers = [Finished, Finished],
      runImage = js ''data:image/png;base64,AA'', runGender = Feminino, awaitingAll = False,
      retries = [], remixes = []\<rparr>"
  let ?call = "\<lparr>remixHairstyle = js ''Afro Volumoso'',
                  remixSource = js ''data:image/png;base64,BB'', remixPrompt = js ''franja''\<rparr>"
  let ?aP = "\<lparr>uploadedImage = Some (js ''data:image/png;base64,AA''),
      generatedImages = [js ''Afro Volumoso'' \<mapsto>
         \<lparr>status = Pending, url = Some (js ''data:image/png;base64,BB''), error = None\<rparr>],
      isLoading = False, appState = ResultsShown, selectedGender = Some Feminino\<rparr>"
  let ?sP = "\<lparr>app = ?aP, hairstyleQueue = [], workers = [Finished, Finished],
      runImage = js ''data:image/png;base64,AA'', runGender = Feminino, awaitingAll = False,
      retries = [], remixes = [?call]\<rparr>"
  have start: "handleGenerate_start Feminino ?a0 = Some ?c0"
    by (simp add: handleGenerate_start_def hairstylesOf_def concurrencyLimit_def numeral_2_eq_2)
       (simp add: js_def)
  have invD: "allItems itemInvariant ?aD"
    by (simp add: allItems_def itemInvariant_def doneItem_def)
  have st: "handleRemixDecade_start (js ''Afro Volumoso'') (js ''franja'') (app ?sD) = (?aP, Some ?call)"
    by (simp add: handleRemixDecade_start_def sourceImageOf_def isPending_def markPending_def
          doneItem_def) (simp add: js_def)
  have step: "sys_step ?sD (RemixStart (js ''Afro Volumoso'') (js ''franja'')) ?sP"
    using sys_step.remix_start [OF st] by simp
  let ?h1 = "js ''Pixie Assim'' @ [233] @ js ''trico''"
  let ?app0 = "\<lparr>uploadedImage = Some (js ''data:image/png;base64,AA''),
             generatedImages = initialImages FEMALE_HAIRSTYLES,
             isLoading = True, appState = Generating, selectedGender = Some Feminino\<rparr>"
  let ?s0 = "\<lparr>app = ?app0, hairstyleQueue = FEMALE_HAIRSTYLES, workers = [LoopHead, LoopHead],
      runImage = js ''data:image/png;base64,AA'', runGender = Feminino,
      awaitingAll = True, retries = [], remixes = []\<rparr>"
  let ?s1 = "\<lparr>app = ?app0, hairstyleQueue = drop 1 FEMALE_HAIRSTYLES,
      workers = [Awaiting ?h1, LoopHead],
      runImage = js ''data:image/png;base64,AA'', runGender = Feminino,
      awaitingAll = True, retries = [], remixes = []\<rparr>"
  have sys: "startSys Feminino ?a0 = Some ?s0"
    by (simp add: startSys_def start Run.extend_def)
  have q0: "FEMALE_HAIRSTYLES = ?h1 # drop 1 FEMALE_HAIRSTYLES"
    by (simp add: FEMALE_HAIRSTYLES_def)
  have ne: "?h1 \<noteq> []" by (simp add: js_def)
  have p1: "pool_step ?s0 (Dequeue 0 ?h1) ?s1"
    using pool_step.dequeue [of 0 ?s0 ?h1 "drop 1 FEMALE_HAIRSTYLES"] q0 ne by simp
  have e1: "sys_exec ?s0 [Pool (Dequeue 0 ?h1)] ?s1"
    using sys_exec.sys_snoc [OF sys_exec.sys_nil sys_step.pool [OF p1]] by simp
  from items_invariant [of Feminino ?a0 ?c0 ?sD "RemixStart (js ''Afro Volumoso'') (js ''franja'')" ?sP
         ?s0 "[Pool (Dequeue 0 ?h1)]" ?s1]
    start invD step sys e1
  show ?thesis by simp
qed

section \<open>The worker pool\<close>

text \<open>The labels dequeued, settled and awaited, and what a step of the pool does to
  them.\<close>

lemma dequeued_snoc:
  "dequeued (acts @ [a]) = dequeued acts @ (case a of Dequeue i h \<Rightarrow> [h] | _ \<Rightarrow> [])"
  by (simp add: dequeued_def)

lemma settledLabels_snoc:
  "settledLabels (acts @ [a]) = settledLabels acts @ (case a of Settle i h r \<Rightarrow> [h] | _ \<Rightarrow> [])"
  by (simp add: settledLabels_def)

lemma awaitingLabels_Cons:
  "awaitingLabels (w # ws) = (case w of Awaiting h \<Rightarrow> [h] | _ \<Rightarrow> []) @ awaitingLabels ws"
  by (simp add: awaitingLabels_def)

lemma awaitingLabels_Nil: "awaitingLabels [] = []"
  by (simp add: awaitingLabels_def)

lemma awaiting_dequeue:
  "i < length ws \<Longrightarrow> ws ! i = LoopHead \<Longrightarrow>
   mset (awaitingLabels (ws[i := Awaiting h])) = add_mset h (mset (awaitingLabels ws))"
proof (induction ws arbitrary: i)
  case Nil
  then show ?case by simp
next
  case (Cons w ws)
  then show ?case by (cases i) (simp_all add: awaitingLabels_Cons)
qed

lemma awaiting_settle:
  "i < length ws \<Longrightarrow> ws ! i = Awaiting h \<Longrightarrow>
   add_mset h (mset (awaitingLabels (ws[i := LoopHead]))) = mset (awaitingLabels ws)"
proof (induction ws arbitrary: i)
  case Nil
  then show ?case by simp
next
  case (Cons w ws)
  then show ?case by (cases i) (simp_all add: awaitingLabels_Cons)
qed

lemma awaiting_exit:
  "i < length ws \<Longrightarrow> ws ! i = LoopHead \<Longrightarrow>
   awaitingLabels (ws[i := Finished]) = awaitingLabels ws"
proof (induction ws arbitrary: i)
  case Nil
  then show ?case by simp
next
  case (Cons w ws)
  then show ?case by (cases i) (simp_all add: awaitingLabels_Cons)
qed

lemma awaiting_none:
  "list_all (\<lambda>w. w = Finished) ws \<Longrightarrow> awaitingLabels ws = []"
  by (induction ws) (simp_all add: awaitingLabels_Nil awaitingLabels_Cons)

lemma awaiting_count: "length (awaitingLabels ws) = length (filter isAwaiting ws)"
proof (induction ws)
  case Nil
  then show ?case by (simp add: awaitingLabels_Nil)
next
  case (Cons w ws)
  then show ?case by (cases w) (simp_all add: awaitingLabels_Cons)
qed

lemma in_awaiting_dequeue:
  "i < length ws \<Longrightarrow> ws ! i = LoopHead \<Longrightarrow>
   k \<in> set (awaitingLabels (ws[i := Awaiting h])) \<longleftrightarrow> k = h \<or> k \<in> set (awaitingLabels ws)"
  using awaiting_dequeue [of i ws h] by (metis set_mset_add_mset_insert set_mset_mset insert_iff)

lemma in_awaiting_settle:
  "i < length ws \<Longrightarrow> ws ! i = Awaiting h \<Longrightarrow> k \<noteq> h \<Longrightarrow>
   k \<in> set (awaitingLabels ws) \<Longrightarrow> k \<in> set (awaitingLabels (ws[i := LoopHead]))"
  using awaiting_settle [of i ws h] by (metis set_mset_add_mset_insert set_mset_mset insert_iff)

lemma Finished_after_update:
  "Finished \<in> set (ws[i := w]) \<Longrightarrow> w \<noteq> Finished \<Longrightarrow> Finished \<in> set ws"
  using set_update_subset_insert [of ws i w] by auto

lemma processHairstyle_settle_apply:
  "generatedImages (processHairstyle_settle h r a) k =
     (if k = h then Some (case r of Inr resultUrl \<Rightarrow> doneItem resultUrl
                                  | Inl err \<Rightarrow> errorItem (caughtMessage err))
      else generatedImages a k)"
  by (cases r) (simp_all add: processHairstyle_settle_def)

lemma settled_item_status:
  "status (case r of Inr resultUrl \<Rightarrow> doneItem resultUrl | Inl err \<Rightarrow> errorItem (caughtMessage err)) = Done \<or>
   status (case r of Inr resultUrl \<Rightarrow> doneItem resultUrl | Inl err \<Rightarrow> errorItem (caughtMessage err)) = Error"
  by (cases r) (simp_all add: doneItem_def errorItem_def)

lemma poolInvariant_step:
  assumes inv: "poolInvariant hs acts busy c" and step: "pool_step c a c'" and ne: "[] \<notin> set hs"
  shows "poolInvariant hs (acts @ [a]) busy c'"
  using step
proof (cases rule: pool_step.cases)
  case (dequeue i h q)
  from inv have items: "\<forall>k \<in> set hs. \<exists>item. generatedImages (app c) k = Some item \<and>
        (k \<in> set (hairstyleQueue c) \<or> k \<in> set (awaitingLabels (workers c)) \<or> k \<in> busy \<or>
         status item = Done \<or> status item = Error)"
    by (simp add: poolInvariant_def)
  have fin: "Finished \<notin> set (workers c)"
    using inv dequeue by (auto simp: poolInvariant_def)
  have "Finished \<notin> set ((workers c)[i := Awaiting h])"
    using fin Finished_after_update by blast
  moreover have "\<forall>k \<in> set hs. \<exists>item. generatedImages (app c) k = Some item \<and>
        (k \<in> set q \<or> k \<in> set (awaitingLabels ((workers c)[i := Awaiting h])) \<or> k \<in> busy \<or>
         status item = Done \<or> status item = Error)"
    using items dequeue by (auto simp: in_awaiting_dequeue)
  moreover have "awaitingAll c"
    using inv fin dequeue unfolding poolInvariant_def list_all_iff
    by (metis nth_mem Worker.distinct(3))
  ultimately show ?thesis
    using inv dequeue
    by (simp add: poolInvariant_def dequeued_snoc settledLabels_snoc awaiting_dequeue)
next
  case (skip i q)
  from inv have "dequeued acts @ hairstyleQueue c = hs" by (simp add: poolInvariant_def)
  with skip have "[] \<in> set hs" by auto
  with ne show ?thesis by contradiction
next
  case (exit i)
  have "awaitingAll c"
    using inv exit unfolding poolInvariant_def list_all_iff
    by (metis nth_mem Worker.distinct(3))
  then show ?thesis
    using inv exit
    by (simp add: poolInvariant_def dequeued_snoc settledLabels_snoc awaiting_exit)
next
  case (settle i h r t tr)
  from inv have items: "\<forall>k \<in> set hs. \<exists>item. generatedImages (app c) k = Some item \<and>
        (k \<in> set (hairstyleQueue c) \<or> k \<in> set (awaitingLabels (workers c)) \<or> k \<in> busy \<or>
         status item = Done \<or> status item = Error)"
    by (simp add: poolInvariant_def)
  have m: "mset (settledLabels acts) + add_mset h (mset (awaitingLabels ((workers c)[i := LoopHead]))) =
           mset (dequeued acts)"
    using inv settle by (simp add: poolInvariant_def awaiting_settle)
  have fin: "Finished \<in> set ((workers c)[i := LoopHead]) \<longrightarrow> hairstyleQueue c = []"
    using inv Finished_after_update by (fastforce simp: poolInvariant_def)
  have aw: "awaitingAll c"
    using inv settle unfolding poolInvariant_def list_all_iff
    by (metis nth_mem Worker.distinct(5))
  have "\<forall>k \<in> set hs. \<exists>item. generatedImages (processHairstyle_settle h r (app c)) k = Some item \<and>
        (k \<in> set (hairstyleQueue c) \<or> k \<in> set (awaitingLabels ((workers c)[i := LoopHead])) \<or>
         k \<in> busy \<or> status item = Done \<or> status item = Error)"
  proof
    fix k assume k: "k \<in> set hs"
    show "\<exists>item. generatedImages (processHairstyle_settle h r (app c)) k = Some item \<and>
        (k \<in> set (hairstyleQueue c) \<or> k \<in> set (awaitingLabels ((workers c)[i := LoopHead])) \<or>
         k \<in> busy \<or> status item = Done \<or> status item = Error)"
    proof (cases "k = h")
      case True
      then show ?thesis
        using settled_item_status [of r] by (simp add: processHairstyle_settle_apply)
    next
      case False
      then show ?thesis
        using items k settle in_awaiting_settle [of i "workers c" h k]
        by (auto simp add: processHairstyle_settle_apply)
    qed
  qed
  then show ?thesis
    using inv settle m fin aw
    by (simp add: poolInvariant_def dequeued_snoc settledLabels_snoc)
next
  case complete
  then show ?thesis
    using inv
    by (simp add: poolInvariant_def dequeued_snoc settledLabels_snoc list_all_iff)
qed

lemma poolInvariant_change_items:
  assumes inv: "poolInvariant hs acts busy c"
    and same: "hairstyleQueue c' = hairstyleQueue c" "workers c' = workers c"
      "awaitingAll c' = awaitingAll c"
    and items: "\<And>k item. k \<in> set hs \<Longrightarrow> generatedImages (app c) k = Some item \<Longrightarrow>
        k \<in> set (hairstyleQueue c) \<or> k \<in> set (awaitingLabels (workers c)) \<or> k \<in> busy \<or>
          status item = Done \<or> status item = Error \<Longrightarrow>
        \<exists>item'. generatedImages (app c') k = Some item' \<and>
          (k \<in> set (hairstyleQueue c) \<or> k \<in> set (awaitingLabels (workers c)) \<or> k \<in> busy' \<or>
           status item' = Done \<or> status item' = Error)"
  shows "poolInvariant hs acts busy' c'"
proof -
  have "\<forall>k \<in> set hs. \<exists>item'. generatedImages (app c') k = Some item' \<and>
          (k \<in> set (hairstyleQueue c) \<or> k \<in> set (awaitingLabels (workers c)) \<or> k \<in> busy' \<or>
           status item' = Done \<or> status item' = Error)"
  proof
    fix k assume k: "k \<in> set hs"
    with inv obtain item where "generatedImages (app c) k = Some item"
      "k \<in> set (hairstyleQueue c) \<or> k \<in> set (awaitingLabels (workers c)) \<or> k \<in> busy \<or>
          status item = Done \<or> status item = Error"
      unfolding poolInvariant_def by blast
    then show "\<exists>item'. generatedImages (app c') k = Some item' \<and>
          (k \<in> set (hairstyleQueue c) \<or> k \<in> set (awaitingLabels (workers c)) \<or> k \<in> busy' \<or>
           status item' = Done \<or> status item' = Error)"
      using items [OF k] by blast
  qed
  with inv same show ?thesis by (simp add: poolInvariant_def)
qed

lemma hairstyles_facts:
  "[] \<notin> set (hairstylesOf gender)" "distinct (hairstylesOf gender)"
  by (cases gender; simp add: hairstylesOf_def MALE_HAIRSTYLES_def FEMALE_HAIRSTYLES_def js_def)+

lemma weight_update:
  "i < length ws \<Longrightarrow>
   sum_list (map workerWeight (ws[i := w])) + workerWeight (ws ! i) =
   sum_list (map workerWeight ws) + workerWeight w"
proof (induction ws arbitrary: i)
  case Nil
  then show ?case by simp
next
  case (Cons x ws)
  then show ?case by (cases i) auto
qed

lemma pool_step_weight: "pool_step c a c' \<Longrightarrow> poolWeight c' < poolWeight c"
proof (induction rule: pool_step.induct)
  case (dequeue i c hairstyle q)
  then show ?case
    using weight_update [of i "workers c" "Awaiting hairstyle"] by (simp add: poolWeight_def)
next
  case (skip i c q)
  then show ?case by (simp add: poolWeight_def)
next
  case (exit i c)
  then show ?case
    using weight_update [of i "workers c" Finished] by (simp add: poolWeight_def)
next
  case (settle i c hairstyle r t tr)
  then show ?case
    using weight_update [of i "workers c" LoopHead] by (simp add: poolWeight_def)
next
  case (complete c)
  then show ?case by (simp add: poolWeight_def)
qed

lemma pool_progress:
  assumes inv: "poolInvariant hs acts busy c" and ne: "[] \<notin> set hs" and aw: "awaitingAll c"
  shows "\<exists>a c'. pool_step c a c'"
proof (cases "list_all (\<lambda>w. w = Finished) (workers c)")
  case True
  with aw show ?thesis using pool_step.complete by blast
next
  case False
  then obtain i where i: "i < length (workers c)" "workers c ! i \<noteq> Finished"
    unfolding list_all_iff by (metis in_set_conv_nth)
  show ?thesis
  proof (cases "workers c ! i")
    case LoopHead
    show ?thesis
    proof (cases "hairstyleQueue c")
      case Nil
      with i LoopHead show ?thesis using pool_step.exit by blast
    next
      case (Cons h q)
      from inv have "dequeued acts @ hairstyleQueue c = hs" by (simp add: poolInvariant_def)
      with Cons ne have "h \<noteq> []" by auto
      with i LoopHead Cons show ?thesis using pool_step.dequeue by blast
    qed
  next
    case (Awaiting h)
    with i show ?thesis using pool_step.settle [of i c h _ "\<lambda>tr req. Inl (JsError [])" "[]"] by blast
  next
    case Finished
    with i show ?thesis by simp
  qed
qed

lemma pool_step_Settle:
  "pool_step c a c' \<Longrightarrow> a = Settle i h r \<Longrightarrow>
   app c' = processHairstyle_settle h r (app c) \<and>
   workers c' = (workers c)[i := LoopHead] \<and> hairstyleQueue c' = hairstyleQueue c"
  by (induction rule: pool_step.induct) auto

lemma poolInvariant_settled:
  assumes inv: "poolInvariant hs acts busy c" and st: "\<not> awaitingAll c"
  shows "dequeued acts = hs \<and> mset (settledLabels acts) = mset hs \<and>
         (\<forall>h \<in> set hs. \<exists>item. generatedImages (app c) h = Some item \<and>
              (status item = Done \<or> status item = Error \<or> h \<in> busy))"
proof -
  from inv st have fin: "list_all (\<lambda>w. w = Finished) (workers c)"
    by (simp add: poolInvariant_def)
  from inv have "length (workers c) = concurrencyLimit" by (simp add: poolInvariant_def)
  then have "workers c \<noteq> []" by (auto simp: concurrencyLimit_def)
  with fin have "Finished \<in> set (workers c)"
    by (cases "workers c") auto
  with inv have q: "hairstyleQueue c = []" by (simp add: poolInvariant_def)
  have aw: "awaitingLabels (workers c) = []" using fin by (rule awaiting_none)
  from inv q aw show ?thesis by (auto simp add: poolInvariant_def)
qed

lemma poolInvariant_in_flight:
  assumes inv: "poolInvariant hs acts busy c"
  shows "length (dequeued acts) = length (settledLabels acts) + poolInFlight c \<and>
         poolInFlight c \<le> concurrencyLimit"
proof -
  from inv have "mset (settledLabels acts) + mset (awaitingLabels (workers c)) = mset (dequeued acts)"
    by (simp add: poolInvariant_def)
  then have "size (mset (settledLabels acts) + mset (awaitingLabels (workers c))) =
             size (mset (dequeued acts))" by simp
  then have "length (dequeued acts) = length (settledLabels acts) + length (awaitingLabels (workers c))"
    by simp
  moreover have "length (awaitingLabels (workers c)) = poolInFlight c"
    by (simp add: awaiting_count poolInFlight_def)
  moreover have "poolInFlight c \<le> length (workers c)" by (simp add: poolInFlight_def)
  moreover from inv have "length (workers c) = concurrencyLimit" by (simp add: poolInvariant_def)
  ultimately show ?thesis by simp
qed

lemma callAndProcess_Inr:
  "t tr \<lparr>imagePart = img, textPart = txt\<rparr> = Inr response \<Longrightarrow>
   callAndProcess t img txt tr =
     (processGeminiResponse response, tr @ [Transport \<lparr>imagePart = img, textPart = txt\<rparr>])"
  by (simp add: callAndProcess_def callGeminiWithRetry_def retry_from_1 retriable_def)

lemma callAndProcess_Inl:
  "t tr \<lparr>imagePart = img, textPart = txt\<rparr> = Inl e \<Longrightarrow> \<not> isInternalError e \<Longrightarrow>
   callAndProcess t img txt tr = (Inl e, tr @ [Transport \<lparr>imagePart = img, textPart = txt\<rparr>])"
  by (simp add: callAndProcess_def callGeminiWithRetry_def retry_from_1 retriable_def)

lemma generate_ok:
  "decode imageDataUrl = Inr img \<Longrightarrow>
   fst (generateDecadeImage
          (\<lambda>tr req. Inr \<lparr>parts = [\<lparr>inlineData = Some blob\<rparr>], responseText = None\<rparr>)
          imageDataUrl prompt hairstyle gender tr) = Inr (encode blob)"
  by (simp add: generateDecadeImage_def callAndProcess_Inr processGeminiResponse_def)

lemma generate_fail:
  "decode imageDataUrl = Inr img \<Longrightarrow> \<not> isInternalError (JsError m) \<Longrightarrow>
   \<not> isNoImageError (JsError m) \<Longrightarrow>
   fst (generateDecadeImage (\<lambda>tr req. Inl (JsError m)) imageDataUrl prompt hairstyle gender tr) =
     Inl (unrecoverableError m)"
  by (simp add: generateDecadeImage_def callAndProcess_Inl errorMessageOf_def)

section \<open>The pool and the user's requests\<close>

text \<open>The invariant of the pool holds in every state that a started run reaches, whatever
  calls of \<^verbatim>\<open>handleRegenerateDecade\<close> and \<^verbatim>\<open>handleRemixDecade\<close> come in between; the steps
  of the pool lower its measure and the other steps leave it as it is.\<close>

lemma poolActs_snoc:
  "poolActs (acts @ [a]) = poolActs acts @ (case a of Pool p \<Rightarrow> [p] | _ \<Rightarrow> [])"
  by (simp add: poolActs_def)

lemma poolActs_Nil: "poolActs [] = []"
  by (simp add: poolActs_def)

lemma pool_step_user_calls:
  fixes s s' :: Sys
  shows "pool_step s a s' \<Longrightarrow> retries s' = retries s \<and> remixes s' = remixes s"
  by (induction rule: pool_step.induct) simp_all

lemma pool_step_fixed:
  "pool_step c a c' \<Longrightarrow>
   uploadedImage (app c') = uploadedImage (app c) \<and>
   selectedGender (app c') = selectedGender (app c) \<and>
   runImage c' = runImage c \<and> runGender c' = runGender c"
  by (induction rule: pool_step.induct) (simp_all add: processHairstyle_settle_def split: sum.splits)

lemma handleRegenerateDecade_start_cases:
  "handleRegenerateDecade_start h a = (a', issued) \<Longrightarrow>
   (issued = None \<and> a' = a) \<or>
   (\<exists>call. issued = Some call \<and> callHairstyle call = h \<and>
      a' = a\<lparr>generatedImages := (generatedImages a)(h \<mapsto> pendingItem)\<rparr>)"
  by (auto simp add: handleRegenerateDecade_start_def split: option.splits if_splits)

lemma handleRemixDecade_start_cases:
  "handleRemixDecade_start h prompt a = (a', issued) \<Longrightarrow>
   (issued = None \<and> a' = a) \<or>
   (\<exists>call. issued = Some call \<and> remixHairstyle call = h \<and>
      a' = a\<lparr>generatedImages := (generatedImages a)(h \<mapsto> markPending (generatedImages a) h)\<rparr>)"
  by (auto simp add: handleRemixDecade_start_def split: option.splits if_splits)

lemma handleRegenerateDecade_settle_apply:
  "generatedImages (handleRegenerateDecade_settle h r a) k =
     (if k = h then Some (case r of Inr resultUrl \<Rightarrow> doneItem resultUrl
                                  | Inl err \<Rightarrow> errorItem (caughtMessage err))
      else generatedImages a k)"
  by (cases r) (simp_all add: handleRegenerateDecade_settle_def)

lemma handleRemixDecade_settle_apply:
  "generatedImages (handleRemixDecade_settle h src r a) k =
     (if k = h then Some (case r of Inr resultUrl \<Rightarrow> doneItem resultUrl
                                  | Inl err \<Rightarrow> \<lparr>status = Error, url = Some src,
                                                error = Some (caughtMessage err)\<rparr>)
      else generatedImages a k)"
  by (cases r) (simp_all add: handleRemixDecade_settle_def)

lemma remix_settled_status:
  "status (case r of Inr resultUrl \<Rightarrow> doneItem resultUrl
                   | Inl err \<Rightarrow> \<lparr>status = Error, url = Some src, error = Some (caughtMessage err)\<rparr>) = Done \<or>
   status (case r of Inr resultUrl \<Rightarrow> doneItem resultUrl
                   | Inl err \<Rightarrow> \<lparr>status = Error, url = Some src, error = Some (caughtMessage err)\<rparr>) = Error"
  by (cases r) (simp_all add: doneItem_def)

lemma userLabels_remove_retry:
  "k \<in> userLabels s \<Longrightarrow> k \<noteq> callHairstyle call \<Longrightarrow>
   k \<in> callHairstyle ` set (remove1 call (retries s)) \<union> remixHairstyle ` set (remixes s)"
  unfolding userLabels_def by (metis (no_types, lifting) Un_iff imageE image_eqI in_set_remove1)

lemma userLabels_remove_remix:
  "k \<in> userLabels s \<Longrightarrow> k \<noteq> remixHairstyle call \<Longrightarrow>
   k \<in> callHairstyle ` set (retries s) \<union> remixHairstyle ` set (remove1 call (remixes s))"
  unfolding userLabels_def by (metis (no_types, lifting) Un_iff imageE image_eqI in_set_remove1)

lemma sysInvariant_step:
  assumes inv: "poolInvariant hs (poolActs acts) (userLabels s) s"
    and step: "sys_step s a s'" and ne: "[] \<notin> set hs"
  shows "poolInvariant hs (poolActs (acts @ [a])) (userLabels s') s'"
  using step
proof (cases rule: sys_step.cases)
  case (pool p)
  have "userLabels s' = userLabels s"
    using pool_step_user_calls [OF pool(2)] by (simp add: userLabels_def)
  then show ?thesis
    using poolInvariant_step [OF inv pool(2) ne] pool(1) by (simp add: poolActs_snoc)
next
  case (retry_start h a' issued)
  have acts: "poolActs (acts @ [a]) = poolActs acts"
    using retry_start(1) by (simp add: poolActs_snoc)
  from handleRegenerateDecade_start_cases [OF retry_start(3)]
  show ?thesis
  proof (elim disjE conjE exE)
    assume "issued = None" "a' = app s"
    with retry_start(2) have "s' = s" by simp
    with inv acts show ?thesis by simp
  next
    fix call
    assume c: "issued = Some call" "callHairstyle call = h"
      "a' = (app s)\<lparr>generatedImages := (generatedImages (app s))(h \<mapsto> pendingItem)\<rparr>"
    have ul: "userLabels s' = insert h (userLabels s)"
      using retry_start(2) c by (auto simp add: userLabels_def)
    show ?thesis
      unfolding acts
    proof (rule poolInvariant_change_items [OF inv])
      show "hairstyleQueue s' = hairstyleQueue s" "workers s' = workers s"
        "awaitingAll s' = awaitingAll s" using retry_start(2) by simp_all
    next
      fix k item
      assume "k \<in> set hs" "generatedImages (app s) k = Some item"
        "k \<in> set (hairstyleQueue s) \<or> k \<in> set (awaitingLabels (workers s)) \<or> k \<in> userLabels s \<or>
          status item = Done \<or> status item = Error"
      then show "\<exists>item'. generatedImages (app s') k = Some item' \<and>
          (k \<in> set (hairstyleQueue s) \<or> k \<in> set (awaitingLabels (workers s)) \<or> k \<in> userLabels s' \<or>
           status item' = Done \<or> status item' = Error)"
        using retry_start(2) c(3) ul by (cases "k = h") auto
    qed
  qed
next
  case (retry_settle call r t tr)
  have acts: "poolActs (acts @ [a]) = poolActs acts"
    using retry_settle(1) by (simp add: poolActs_snoc)
  have ul: "userLabels s' =
      callHairstyle ` set (remove1 call (retries s)) \<union> remixHairstyle ` set (remixes s)"
    using retry_settle(2) by (simp add: userLabels_def)
  show ?thesis
    unfolding acts
  proof (rule poolInvariant_change_items [OF inv])
    show "hairstyleQueue s' = hairstyleQueue s" "workers s' = workers s"
      "awaitingAll s' = awaitingAll s" using retry_settle(2) by simp_all
  next
    fix k item
    assume k: "k \<in> set hs" "generatedImages (app s) k = Some item"
      "k \<in> set (hairstyleQueue s) \<or> k \<in> set (awaitingLabels (workers s)) \<or> k \<in> userLabels s \<or>
        status item = Done \<or> status item = Error"
    show "\<exists>item'. generatedImages (app s') k = Some item' \<and>
        (k \<in> set (hairstyleQueue s) \<or> k \<in> set (awaitingLabels (workers s)) \<or> k \<in> userLabels s' \<or>
         status item' = Done \<or> status item' = Error)"
    proof (cases "k = callHairstyle call")
      case True
      then show ?thesis
        using retry_settle(2) settled_item_status [of r]
        by (simp add: handleRegenerateDecade_settle_apply)
    next
      case False
      then show ?thesis
        using retry_settle(2) k userLabels_remove_retry [of k s call] ul
        by (auto simp add: handleRegenerateDecade_settle_apply)
    qed
  qed
next
  case (remix_start h prompt a' issued)
  have acts: "poolActs (acts @ [a]) = poolActs acts"
    using remix_start(1) by (simp add: poolActs_snoc)
  from handleRemixDecade_start_cases [OF remix_start(3)]
  show ?thesis
  proof (elim disjE conjE exE)
    assume "issued = None" "a' = app s"
    with remix_start(2) have "s' = s" by simp
    with inv acts show ?thesis by simp
  next
    fix call
    assume c: "issued = Some call" "remixHairstyle call = h"
      "a' = (app s)\<lparr>generatedImages :=
              (generatedImages (app s))(h \<mapsto> markPending (generatedImages (app s)) h)\<rparr>"
    have ul: "userLabels s' = insert h (userLabels s)"
      using remix_start(2) c by (auto simp add: userLabels_def)
    show ?thesis
      unfolding acts
    proof (rule poolInvariant_change_items [OF inv])
      show "hairstyleQueue s' = hairstyleQueue s" "workers s' = workers s"
        "awaitingAll s' = awaitingAll s" using remix_start(2) by simp_all
    next
      fix k item
      assume "k \<in> set hs" "generatedImages (app s) k = Some item"
        "k \<in> set (hairstyleQueue s) \<or> k \<in> set (awaitingLabels (workers s)) \<or> k \<in> userLabels s \<or>
          status item = Done \<or> status item = Error"
      then show "\<exists>item'. generatedImages (app s') k = Some item' \<and>
          (k \<in> set (hairstyleQueue s) \<or> k \<in> set (awaitingLabels (workers s)) \<or> k \<in> userLabels s' \<or>
           status item' = Done \<or> status item' = Error)"
        using remix_start(2) c(3) ul by (cases "k = h") auto
    qed
  qed
next
  case (remix_settle call r t tr)
  have acts: "poolActs (acts @ [a]) = poolActs acts"
    using remix_settle(1) by (simp add: poolActs_snoc)
  have ul: "userLabels s' =
      callHairstyle ` set (retries s) \<union> remixHairstyle ` set (remove1 call (remixes s))"
    using remix_settle(2) by (simp add: userLabels_def)
  show ?thesis
    unfolding acts
  proof (rule poolInvariant_change_items [OF inv])
    show "hairstyleQueue s' = hairstyleQueue s" "workers s' = workers s"
      "awaitingAll s' = awaitingAll s" using remix_settle(2) by simp_all
  next
    fix k item
    assume k: "k \<in> set hs" "generatedImages (app s) k = Some item"
      "k \<in> set (hairstyleQueue s) \<or> k \<in> set (awaitingLabels (workers s)) \<or> k \<in> userLabels s \<or>
        status item = Done \<or> status item = Error"
    show "\<exists>item'. generatedImages (app s') k = Some item' \<and>
        (k \<in> set (hairstyleQueue s) \<or> k \<in> set (awaitingLabels (workers s)) \<or> k \<in> userLabels s' \<or>
         status item' = Done \<or> status item' = Error)"
    proof (cases "k = remixHairstyle call")
      case True
      then show ?thesis
        using remix_settle(2) remix_settled_status [where r = r and src = "remixSource call"]
        by (simp add: handleRemixDecade_settle_apply)
    next
      case False
      then show ?thesis
        using remix_settle(2) k userLabels_remove_remix [of k s call] ul
        by (auto simp add: handleRemixDecade_settle_apply)
    qed
  qed
qed

lemma startSys_Some:
  "startSys gender a = Some s0 \<Longrightarrow>
   \<exists>img. uploadedImage a = Some img \<and> img \<noteq> [] \<and>
     s0 = \<lparr>app = a\<lparr>selectedGender := Some gender, isLoading := True, appState := Generating,
                     generatedImages := initialImages (hairstylesOf gender)\<rparr>,
           hairstyleQueue = hairstylesOf gender,
           workers = [LoopHead, LoopHead],
           runImage = img, runGender = gender, awaitingAll = True,
           retries = [], remixes = []\<rparr>"
  by (auto simp add: startSys_def handleGenerate_start_def Run.extend_def concurrencyLimit_def
        numeral_2_eq_2 split: option.splits if_splits)

lemma sysInvariant_start:
  assumes "startSys gender a = Some s0"
  shows "poolInvariant (hairstylesOf gender) (poolActs []) (userLabels s0) s0"
proof -
  from startSys_Some [OF assms] obtain img where
    "s0 = \<lparr>app = a\<lparr>selectedGender := Some gender, isLoading := True, appState := Generating,
                     generatedImages := initialImages (hairstylesOf gender)\<rparr>,
           hairstyleQueue = hairstylesOf gender,
           workers = [LoopHead, LoopHead],
           runImage = img, runGender = gender, awaitingAll = True,
           retries = [], remixes = []\<rparr>" by blast
  then show ?thesis
    by (simp add: poolInvariant_def poolActs_Nil dequeued_def settledLabels_def awaitingLabels_def
          initialImages_apply concurrencyLimit_def)
qed

lemma sysInvariant_exec:
  "sys_exec s0 acts s \<Longrightarrow> poolInvariant hs (poolActs []) (userLabels s0) s0 \<Longrightarrow> [] \<notin> set hs \<Longrightarrow>
   poolInvariant hs (poolActs acts) (userLabels s) s"
proof (induction rule: sys_exec.induct)
  case (sys_nil s)
  then show ?case by simp
next
  case (sys_snoc s acts s' a s'')
  then show ?case using sysInvariant_step by blast
qed

lemma sysInvariant_reachable:
  "startSys gender a = Some s0 \<Longrightarrow> sys_exec s0 acts s \<Longrightarrow>
   poolInvariant (hairstylesOf gender) (poolActs acts) (userLabels s) s"
  using sysInvariant_exec sysInvariant_start hairstyles_facts(1) by blast

lemma sys_step_weight:
  "sys_step s a s' \<Longrightarrow>
   length (poolActs (acts @ [a])) + poolWeight s' \<le> length (poolActs acts) + poolWeight s"
proof (induction rule: sys_step.induct)
  case (pool s a s')
  then show ?case using pool_step_weight [of s a s'] by (simp add: poolActs_snoc)
qed (simp_all add: poolActs_snoc poolWeight_def)

lemma sys_exec_weight:
  "sys_exec s0 acts s \<Longrightarrow> length (poolActs acts) + poolWeight s \<le> poolWeight s0"
proof (induction rule: sys_exec.induct)
  case (sys_nil s)
  then show ?case by (simp add: poolActs_Nil)
next
  case (sys_snoc s acts s' a s'')
  then show ?case using sys_step_weight [of s' a s'' acts] by simp
qed

lemma sys_settles:
  assumes ne: "[] \<notin> set hs"
  shows "poolInvariant hs (poolActs acts) (userLabels s) s \<Longrightarrow> sys_exec s0 acts s \<Longrightarrow>
         \<exists>acts' s'. sys_exec s0 (acts @ acts') s' \<and> \<not> awaitingAll s'"
proof (induction "poolWeight s" arbitrary: acts s rule: less_induct)
  case less
  show ?case
  proof (cases "awaitingAll s")
    case False
    with less.prems(2) have "sys_exec s0 (acts @ []) s \<and> \<not> awaitingAll s" by simp
    then show ?thesis by blast
  next
    case True
    then obtain p s' where step: "pool_step s p s'"
      using pool_progress [OF less.prems(1) ne] by blast
    then have sstep: "sys_step s (Pool p) s'" by (rule sys_step.pool)
    have "poolWeight s' < poolWeight s" using step by (rule pool_step_weight)
    moreover have "poolInvariant hs (poolActs (acts @ [Pool p])) (userLabels s') s'"
      using less.prems(1) sstep ne by (rule sysInvariant_step)
    moreover have "sys_exec s0 (acts @ [Pool p]) s'"
      using less.prems(2) sstep by (rule sys_exec.sys_snoc)
    ultimately obtain acts' s'' where
      "sys_exec s0 ((acts @ [Pool p]) @ acts') s''" "\<not> awaitingAll s''"
      using less.hyps by blast
    then have "sys_exec s0 (acts @ (Pool p # acts')) s'' \<and> \<not> awaitingAll s''" by simp
    then show ?thesis by blast
  qed
qed

lemma sys_exec_take:
  "sys_exec s0 acts s \<Longrightarrow> \<exists>s'. sys_exec s0 (take n acts) s'"
proof (induction arbitrary: n rule: sys_exec.induct)
  case (sys_nil s)
  then show ?case using sys_exec.sys_nil by auto
next
  case (sys_snoc s acts s' a s'')
  show ?case
  proof (cases "n \<le> length acts")
    case True
    then show ?thesis using sys_snoc.IH [of n] by simp
  next
    case False
    then have "take n (acts @ [a]) = acts @ [a]" by simp
    then show ?thesis using sys_exec.sys_snoc [OF sys_snoc.hyps] by auto
  qed
qed

lemma sys_exec_fixed:
  "sys_exec s0 acts s \<Longrightarrow>
   uploadedImage (app s) = uploadedImage (app s0) \<and>
   selectedGender (app s) = selectedGender (app s0) \<and>
   runImage s = runImage s0 \<and> runGender s = runGender s0"
proof (induction rule: sys_exec.induct)
  case (sys_nil s)
  then show ?case by simp
next
  case (sys_snoc s acts s' a s'')
  from sys_snoc.hyps(2) have
    "uploadedImage (app s'') = uploadedImage (app s') \<and>
     selectedGender (app s'') = selectedGender (app s') \<and>
     runImage s'' = runImage s' \<and> runGender s'' = runGender s'"
  proof (cases rule: sys_step.cases)
    case (pool p)
    then show ?thesis using pool_step_fixed by blast
  next
    case (retry_start h a' issued)
    then show ?thesis using handleRegenerateDecade_start_cases [of h "app s'" a' issued] by auto
  next
    case (retry_settle call r t tr)
    then show ?thesis by (auto simp add: handleRegenerateDecade_settle_def split: sum.splits)
  next
    case (remix_start h prompt a' issued)
    then show ?thesis using handleRemixDecade_start_cases [of h prompt "app s'" a' issued] by auto
  next
    case (remix_settle call r t tr)
    then show ?thesis by (auto simp add: handleRemixDecade_settle_def split: sum.splits)
  qed
  with sys_snoc.IH show ?case by simp
qed

lemma sys_step_Settle:
  assumes "sys_step s (Pool (Settle i h r)) s'"
  shows "app s' = processHairstyle_settle h r (app s) \<and>
         workers s' = (workers s)[i := LoopHead] \<and> hairstyleQueue s' = hairstyleQueue s \<and>
         retries s' = retries s \<and> remixes s' = remixes s"
  using assms
proof (cases rule: sys_step.cases)
  case pool
  then show ?thesis
    using pool_step_Settle [of s "Settle i h r" s' i h r]
      pool_step_user_calls [of s "Settle i h r" s'] by simp
qed

lemma sys_step_Dequeue:
  assumes "sys_step s (Pool (Dequeue i h)) s'"
  shows "i < length (workers s) \<and> workers s ! i = LoopHead \<and>
         workers s' = (workers s)[i := Awaiting h] \<and>
         hairstyleQueue s = h # hairstyleQueue s'"
  using assms
proof (cases rule: sys_step.cases)
  case pool
  then show ?thesis
    by (cases rule: pool_step.cases) auto
qed

text \<open>A run over the six masculine labels in which the user asks for the first label
  again while the run goes on: its first call has succeeded, the second call of the pool
  fails, and the call that \<^verbatim>\<open>handleRegenerateDecade\<close> issued is still in flight when
  \<^verbatim>\<open>Promise.all\<close> resolves.\<close>

lemma retry_during_run:
  "startSys Masculino
     \<lparr>uploadedImage = Some (js ''data:image/png;base64,AA''), generatedImages = Map.empty,
      isLoading = False, appState = ImageUploaded, selectedGender = None\<rparr> =
     Some \<lparr>app = \<lparr>uploadedImage = Some (js ''data:image/png;base64,AA''),
          generatedImages =
           [js ''Corte Buzz (com Degrad'' @ [234] @ js '')'' \<mapsto> \<lparr>status = Pending, url = None, error = None\<rparr>,
            js ''Undercut Desconectado'' \<mapsto> \<lparr>status = Pending, url = None, error = None\<rparr>,
            js ''Coque Samurai'' \<mapsto> \<lparr>status = Pending, url = None, error = None\<rparr>,
            js ''Cabelo M'' @ [233] @ js ''dio Despenteado'' \<mapsto> \<lparr>status = Pending, url = None, error = None\<rparr>,
            js ''Tran'' @ [231] @ js ''as Nag'' @ [244] \<mapsto> \<lparr>status = Pending, url = None, error = None\<rparr>,
            js ''Cabelo Longo Ondulado'' \<mapsto> \<lparr>status = Pending, url = None, error = None\<rparr>],
          isLoading = True, appState = Generating, selectedGender = Some Masculino\<rparr>,
      hairstyleQueue = [js ''Corte Buzz (com Degrad'' @ [234] @ js '')'', js ''Undercut Desconectado'', js ''Coque Samurai'', js ''Cabelo M'' @ [233] @ js ''dio Despenteado'', js ''Tran'' @ [231] @ js ''as Nag'' @ [244], js ''Cabelo Longo Ondulado''],
      workers = [LoopHead, LoopHead],
      runImage = js ''data:image/png;base64,AA'', runGender = Masculino, awaitingAll = True,
      retries = [], remixes = []\<rparr> \<and>
   sys_exec
     \<lparr>app = \<lparr>uploadedImage = Some (js ''data:image/png;base64,AA''),
          generatedImages =
           [js ''Corte Buzz (com Degrad'' @ [234] @ js '')'' \<mapsto> \<lparr>status = Pending, url = None, error = None\<rparr>,
            js ''Undercut Desconectado'' \<mapsto> \<lparr>status = Pending, url = None, error = None\<rparr>,
            js ''Coque Samurai'' \<mapsto> \<lparr>status = Pending, url = None, error = None\<rparr>,
            js ''Cabelo M'' @ [233] @ js ''dio Despenteado'' \<mapsto> \<lparr>status = Pending, url = None, error = None\<rparr>,
            js ''Tran'' @ [231] @ js ''as Nag'' @ [244] \<mapsto> \<lparr>status = Pending, url = None, error = None\<rparr>,
            js ''Cabelo Longo Ondulado'' \<mapsto> \<lparr>status = Pending, url = None, error = None\<rparr>],
          isLoading = True, appState = Generating, selectedGender = Some Masculino\<rparr>,
      hairstyleQueue = [js ''Corte Buzz (com Degrad'' @ [234] @ js '')'', js ''Undercut Desconectado'', js ''Coque Samurai'', js ''Cabelo M'' @ [233] @ js ''dio Despenteado'', js ''Tran'' @ [231] @ js ''as Nag'' @ [244], js ''Cabelo Longo Ondulado''],
      workers = [LoopHead, LoopHead],
      runImage = js ''data:image/png;base64,AA'', runGender = Masculino, awaitingAll = True,
      retries = [], remixes = []\<rparr>
     [Pool (Dequeue 0 (js ''Corte Buzz (com Degrad'' @ [234] @ js '')'')),
      Pool (Dequeue 1 (js ''Undercut Desconectado'')),
      Pool (Settle 0 (js ''Corte Buzz (com Degrad'' @ [234] @ js '')'') (Inr (js ''data:image/png;base64,BB''))),
      Pool (Dequeue 0 (js ''Coque Samurai'')),
      RetryStart (js ''Corte Buzz (com Degrad'' @ [234] @ js '')''),
      Pool (Settle 1 (js ''Undercut Desconectado'') (Inl (JsError (js ''O modelo de IA n'' @ [227] @ js ''o conseguiu gerar uma imagem. Detalhes: '' @ js ''quota exceeded'')))),
      Pool (Dequeue 1 (js ''Cabelo M'' @ [233] @ js ''dio Despenteado'')),
      Pool (Settle 0 (js ''Coque Samurai'') (Inr (js ''data:image/png;base64,BB''))),
      Pool (Dequeue 0 (js ''Tran'' @ [231] @ js ''as Nag'' @ [244])),
      Pool (Settle 1 (js ''Cabelo M'' @ [233] @ js ''dio Despenteado'') (Inr (js ''data:image/png;base64,BB''))),
      Pool (Dequeue 1 (js ''Cabelo Longo Ondulado'')),
      Pool (Settle 0 (js ''Tran'' @ [231] @ js ''as Nag'' @ [244]) (Inr (js ''data:image/png;base64,BB''))),
      Pool (Exit 0),
      Pool (Settle 1 (js ''Cabelo Longo Ondulado'') (Inr (js ''data:image/png;base64,BB''))),
      Pool (Exit 1),
      Pool Complete]
     \<lparr>app = \<lparr>uploadedImage = Some (js ''data:image/png;base64,AA''),
          generatedImages =
           [js ''Corte Buzz (com Degrad'' @ [234] @ js '')'' \<mapsto> \<lparr>status = Pending, url = None, error = None\<rparr>,
            js ''Undercut Desconectado'' \<mapsto> \<lparr>status = Pending, url = None, error = None\<rparr>,
            js ''Coque Samurai'' \<mapsto> \<lparr>status = Pending, url = None, error = None\<rparr>,
            js ''Cabelo M'' @ [233] @ js ''dio Despenteado'' \<mapsto> \<lparr>status = Pending, url = None, error = None\<rparr>,
            js ''Tran'' @ [231] @ js ''as Nag'' @ [244] \<mapsto> \<lparr>status = Pending, url = None, error = None\<rparr>,
            js ''Cabelo Longo Ondulado'' \<mapsto> \<lparr>status = Pending, url = None, error = None\<rparr>,
            js ''Corte Buzz (com Degrad'' @ [234] @ js '')'' \<mapsto> \<lparr>status = Pending, url = None, error = None\<rparr>,
            js ''Undercut Desconectado'' \<mapsto> \<lparr>status = Error, url = None, error = Some (js ''O modelo de IA n'' @ [227] @ js ''o conseguiu gerar uma imagem. Detalhes: '' @ js ''quota exceeded'')\<rparr>,
            js ''Coque Samurai'' \<mapsto> \<lparr>status = Done, url = Some (js ''data:image/png;base64,BB''), error = None\<rparr>,
            js ''Cabelo M'' @ [233] @ js ''dio Despenteado'' \<mapsto> \<lparr>status = Done, url = Some (js ''data:image/png;base64,BB''), error = None\<rparr>,
            js ''Tran'' @ [231] @ js ''as Nag'' @ [244] \<mapsto> \<lparr>status = Done, url = Some (js ''data:image/png;base64,BB''), error = None\<rparr>,
            js ''Cabelo Longo Ondulado'' \<mapsto> \<lparr>status = Done, url = Some (js ''data:image/png;base64,BB''), error = None\<rparr>],
          isLoading = False, appState = ResultsShown, selectedGender = Some Masculino\<rparr>,
      hairstyleQueue = [],
      workers = [Finished, Finished],
      runImage = js ''data:image/png;base64,AA'', runGender = Masculino, awaitingAll = False,
      retries = [\<lparr>callImage = js ''data:image/png;base64,AA'', callPrompt = stylePrompt Masculino (js ''Corte Buzz (com Degrad'' @ [234] @ js '')''),
                 callHairstyle = js ''Corte Buzz (com Degrad'' @ [234] @ js '')'', callGender = genderStr Masculino\<rparr>], remixes = []\<rparr>"
proof -
  let ?c0 = "\<lparr>app = \<lparr>uploadedImage = Some (js ''data:image/png;base64,AA''),
          generatedImages =
           [js ''Corte Buzz (com Degrad'' @ [234] @ js '')'' \<mapsto> \<lparr>status = Pending, url = None, error = None\<rparr>,
            js ''Undercut Desconectado'' \<mapsto> \<lparr>status = Pending, url = None, error = None\<rparr>,
            js ''Coque Samurai'' \<mapsto> \<lparr>status = Pending, url = None, error = None\<rparr>,
            js ''Cabelo M'' @ [233] @ js ''dio Despenteado'' \<mapsto> \<lparr>status = Pending, url = None, error = None\<rparr>,
            js ''Tran'' @ [231] @ js ''as Nag'' @ [244] \<mapsto> \<lparr>status = Pending, url = None, error = None\<rparr>,
            js ''Cabelo Longo Ondulado'' \<mapsto> \<lparr>status = Pending, url = None, error = None\<rparr>],
          isLoading = True, appState = Generating, selectedGender = Some Masculino\<rparr>,
      hairstyleQueue = [js ''Corte Buzz (com Degrad'' @ [234] @ js '')'', js ''Undercut Desconectado'', js ''Coque Samurai'', js ''Cabelo M'' @ [233] @ js ''dio Despenteado'', js ''Tran'' @ [231] @ js ''as Nag'' @ [244], js ''Cabelo Longo Ondulado''],
      workers = [LoopHead, LoopHead],
      runImage = js ''data:image/png;base64,AA'', runGender = Masculino, awaitingAll = True,
      retries = [], remixes = []\<rparr>"
  let ?c1 = "\<lparr>app = \<lparr>uploadedImage = Some (js ''data:image/png;base64,AA''),
          generatedImages =
           [js ''Corte Buzz (com Degrad'' @ [234] @ js '')'' \<mapsto> \<lparr>status = Pending, url = None, error = None\<rparr>,
            js ''Undercut Desconectado'' \<mapsto> \<lparr>status = Pending, url = None, error = None\<rparr>,
            js ''Coque Samurai'' \<mapsto> \<lparr>status = Pending, url = None, error = None\<rparr>,
            js ''Cabelo M'' @ [233] @ js ''dio Despenteado'' \<mapsto> \<lparr>status = Pending, url = None, error = None\<rparr>,
            js ''Tran'' @ [231] @ js ''as Nag'' @ [244] \<mapsto> \<lparr>status = Pending, url = None, error = None\<rparr>,
            js ''Cabelo Longo Ondulado'' \<mapsto> \<lparr>status = Pending, url = None, error = None\<rparr>],
          isLoading = True, appState = Generating, selectedGender = Some Masculino\<rparr>,
      hairstyleQueue = [js ''Undercut Desconectado'', js ''Coque Samurai'', js ''Cabelo M'' @ [233] @ js ''dio Despenteado'', js ''Tran'' @ [231] @ js ''as Nag'' @ [244], js ''Cabelo Longo Ondulado''],
      workers = [Awaiting (js ''Corte Buzz (com Degrad'' @ [234] @ js '')''), LoopHead],
      runImage = js ''data:image/png;base64,AA'', runGender = Masculino, awaitingAll = True,
      retries = [], remixes = []\<rparr>"
  let ?c2 = "\<lparr>app = \<lparr>uploadedImage = Some (js ''data:image/png;base64,AA''),
          generatedImages =
           [js ''Corte Buzz (com Degrad'' @ [234] @ js '')'' \<mapsto> \<lparr>status = Pending, url = None, error = None\<rparr>,
            js ''Undercut Desconectado'' \<mapsto> \<lparr>status = Pending, url = None, error = None\<rparr>,
            js ''Coque Samurai'' \<mapsto> \<lparr>status = Pending, url = None, error = None\<rparr>,
            js ''Cabelo M'' @ [233] @ js ''dio Despenteado'' \<mapsto> \<lparr>status = Pending, url = None, error = None\<rparr>,
            js ''Tran'' @ [231] @ js ''as Nag'' @ [244] \<mapsto> \<lparr>status = Pending, url = None, error = None\<rparr>,
            js ''Cabelo Longo Ondulado'' \<mapsto> \<lparr>status = Pending, url = None, error = None\<rparr>],
          isLoading = True, appState = Generating, selectedGender = Some Masculino\<rparr>,
      hairstyleQueue = [js ''Coque Samurai'', js ''Cabelo M'' @ [233] @ js ''dio Despenteado'', js ''Tran'' @ [231] @ js ''as Nag'' @ [244], js ''Cabelo Longo Ondulado''],
      workers = [Awaiting (js ''Corte Buzz (com Degrad'' @ [234] @ js '')''), Awaiting (js ''Undercut Desconectado'')],
      runImage = js ''data:image/png;base64,AA'', runGender = Masculino, awaitingAll = True,
      retries = [], remixes = []\<rparr>"
  let ?c3 = "\<lparr>app = \<lparr>uploadedImage = Some (js ''data:image/png;base64,AA''),
          generatedImages =
           [js ''Corte Buzz (com Degrad'' @ [234] @ js '')'' \<mapsto> \<lparr>status = Pending, url = None, error = None\<rparr>,
            js ''Undercut Desconectado'' \<mapsto> \<lparr>status = Pending, url = None, error = None\<rparr>,
            js ''Coque Samurai'' \<mapsto> \<lparr>status = Pending, url = None, error = None\<rparr>,
            js ''Cabelo M'' @ [233] @ js ''dio Despenteado'' \<mapsto> \<lparr>status = Pending, url = None, error = None\<rparr>,
            js ''Tran'' @ [231] @ js ''as Nag'' @ [244] \<mapsto> \<lparr>status = Pending, url = None, error = None\<rparr>,
            js ''Cabelo Longo Ondulado'' \<mapsto> \<lparr>status = Pending, url = None, error = None\<rparr>,
            js ''Corte Buzz (com Degrad'' @ [234] @ js '')'' \<mapsto> \<lparr>status = Done, url = Some (js ''data:image/png;base64,BB''), error = None\<rparr>],
          isLoading = True, appState = Generating, selectedGender = Some Masculino\<rparr>,
      hairstyleQueue = [js ''Coque Samurai'', js ''Cabelo M'' @ [233] @ js ''dio Despenteado'', js ''Tran'' @ [231] @ js ''as Nag'' @ [244], js ''Cabelo Longo Ondulado''],
      workers = [LoopHead, Awaiting (js ''Undercut Desconectado'')],
      runImage = js ''data:image/png;base64,AA'', runGender = Masculino, awaitingAll = True,
      retries = [], remixes = []\<rparr>"
  let ?c4 = "\<lparr>app = \<lparr>uploadedImage = Some (js ''data:image/png;base64,AA''),
          generatedImages =
           [js ''Corte Buzz (com Degrad'' @ [234] @ js '')'' \<mapsto> \<lparr>status = Pending, url = None, error = None\<rparr>,
            js ''Undercut Desconectado'' \<mapsto> \<lparr>status = Pending, url = None, error = None\<rparr>,
            js ''Coque Samurai'' \<mapsto> \<lparr>status = Pending, url = None, error = None\<rparr>,
            js ''Cabelo M'' @ [233] @ js ''dio Despenteado'' \<mapsto> \<lparr>status = Pending, url = None, error = None\<rparr>,
            js ''Tran'' @ [231] @ js ''as Nag'' @ [244] \<mapsto> \<lparr>status = Pending, url = None, error = None\<rparr>,
            js ''Cabelo Longo Ondulado'' \<mapsto> \<lparr>status = Pending, url = None, error = None\<rparr>,
            js ''Corte Buzz (com Degrad'' @ [234] @ js '')'' \<mapsto> \<lparr>status = Done, url = Some (js ''data:image/png;base64,BB''), error = None\<rparr>],
          isLoading = True, appState = Generating, selectedGender = Some Masculino\<rparr>,
      hairstyleQueue = [js ''Cabelo M'' @ [233] @ js ''dio Despenteado'', js ''Tran'' @ [231] @ js ''as Nag'' @ [244], js ''Cabelo Longo Ondulado''],
      workers = [Awaiting (js ''Coque Samurai''), Awaiting (js ''Undercut Desconectado'')],
      runImage = js ''data:image/png;base64,AA'', runGender = Masculino, awaitingAll = True,
      retries = [], remixes = []\<rparr>"
  let ?c5 = "\<lparr>app = \<lparr>uploadedImage = Some (js ''data:image/png;base64,AA''),
          generatedImages =
           [js ''Corte Buzz (com Degrad'' @ [234] @ js '')'' \<mapsto> \<lparr>status = Pending, url = None, error = None\<rparr>,
            js ''Undercut Desconectado'' \<mapsto> \<lparr>status = Pending, url = None, error = None\<rparr>,
            js ''Coque Samurai'' \<mapsto> \<lparr>status = Pending, url = None, error = None\<rparr>,
            js ''Cabelo M'' @ [233] @ js ''dio Despenteado'' \<mapsto> \<lparr>status = Pending, url = None, error = None\<rparr>,
            js ''Tran'' @ [231] @ js ''as Nag'' @ [244] \<mapsto> \<lparr>status = Pending, url = None, error = None\<rparr>,
            js ''Cabelo Longo Ondulado'' \<mapsto> \<lparr>status = Pending, url = None, error = None\<rparr>,
            js ''Corte Buzz (com Degrad'' @ [234] @ js '')'' \<mapsto> \<lparr>status = Pending, url = None, error = None\<rparr>],
          isLoading = True, appState = Generating, selectedGender = Some Masculino\<rparr>,
      hairstyleQueue = [js ''Cabelo M'' @ [233] @ js ''dio Despenteado'', js ''Tran'' @ [231] @ js ''as Nag'' @ [244], js ''Cabelo Longo Ondulado''],
      workers = [Awaiting (js ''Coque Samurai''), Awaiting (js ''Undercut Desconectado'')],
      runImage = js ''data:image/png;base64,AA'', runGender = Masculino, awaitingAll = True,
      retries = [\<lparr>callImage = js ''data:image/png;base64,AA'', callPrompt = stylePrompt Masculino (js ''Corte Buzz (com Degrad'' @ [234] @ js '')''),
                 callHairstyle = js ''Corte Buzz (com Degrad'' @ [234] @ js '')'', callGender = genderStr Masculino\<rparr>], remixes = []\<rparr>"
  let ?c6 = "\<lparr>app = \<lparr>uploadedImage = Some (js ''data:image/png;base64,AA''),
          generatedImages =
           [js ''Corte Buzz (com Degrad'' @ [234] @ js '')'' \<mapsto> \<lparr>status = Pending, url = None, error = None\<rparr>,
            js ''Undercut Desconectado'' \<mapsto> \<lparr>status = Pending, url = None, error = None\<rparr>,
            js ''Coque Samurai'' \<mapsto> \<lparr>status = Pending, url = None, error = None\<rparr>,
            js ''Cabelo M'' @ [233] @ js ''dio Despenteado'' \<mapsto> \<lparr>status = Pending, url = None, error = None\<rparr>,
            js ''Tran'' @ [231] @ js ''as Nag'' @ [244] \<mapsto> \<lparr>status = Pending, url = None, error = None\<rparr>,
            js ''Cabelo Longo Ondulado'' \<mapsto> \<lparr>status = Pending, url = None, error = None\<rparr>,
            js ''Corte Buzz (com Degrad'' @ [234] @ js '')'' \<mapsto> \<lparr>status = Pending, url = None, error = None\<rparr>,
            js ''Undercut Desconectado'' \<mapsto> \<lparr>status = Error, url = None, error = Some (js ''O modelo de IA n'' @ [227] @ js ''o conseguiu gerar uma imagem. Detalhes: '' @ js ''quota exceeded'')\<rparr>],
          isLoading = True, appState = Generating, selectedGender = Some Masculino\<rparr>,
      hairstyleQueue = [js ''Cabelo M'' @ [233] @ js ''dio Despenteado'', js ''Tran'' @ [231] @ js ''as Nag'' @ [244], js ''Cabelo Longo Ondulado''],
      workers = [Awaiting (js ''Coque Samurai''), LoopHead],
      runImage = js ''data:image/png;base64,AA'', runGender = Masculino, awaitingAll = True,
      retries = [\<lparr>callImage = js ''data:image/png;base64,AA'', callPrompt = stylePrompt Masculino (js ''Corte Buzz (com Degrad'' @ [234] @ js '')''),
                 callHairstyle = js ''Corte Buzz (com Degrad'' @ [234] @ js '')'', callGender = genderStr Masculino\<rparr>], remixes = []\<rparr>"
  let ?c7 = "\<lparr>app = \<lparr>uploadedImage = Some (js ''data:image/png;base64,AA''),
          generatedImages =
           [js ''Corte Buzz (com Degrad'' @ [234] @ js '')'' \<mapsto> \<lparr>status = Pending, url = None, error = None\<rparr>,
            js ''Undercut Desconectado'' \<mapsto> \<lparr>status = Pending, url = None, error = None\<rparr>,
            js ''Coque Samurai'' \<mapsto> \<lparr>status = Pending, url = None, error = None\<rparr>,
            js ''Cabelo M'' @ [233] @ js ''dio Despenteado'' \<mapsto> \<lparr>status = Pending, url = None, error = None\<rparr>,
            js ''Tran'' @ [231] @ js ''as Nag'' @ [244] \<mapsto> \<lparr>status = Pending, url = None, error = None\<rparr>,
            js ''Cabelo Longo Ondulado'' \<mapsto> \<lparr>status = Pending, url = None, error = None\<rparr>,
            js ''Corte Buzz (com Degrad'' @ [234] @ js '')'' \<mapsto> \<lparr>status = Pending, url = None, error = None\<rparr>,
            js ''Undercut Desconectado'' \<mapsto> \<lparr>status = Error, url = None, error = Some (js ''O modelo de IA n'' @ [227] @ js ''o conseguiu gerar uma imagem. Detalhes: '' @ js ''quota exceeded'')\<rparr>],
          isLoading = True, appState = Generating, selectedGender = Some Masculino\<rparr>,
      hairstyleQueue = [js ''Tran'' @ [231] @ js ''as Nag'' @ [244], js ''Cabelo Longo Ondulado''],
      workers = [Awaiting (js ''Coque Samurai''), Awaiting (js ''Cabelo M'' @ [233] @ js ''dio Despenteado'')],
      runImage = js ''data:image/png;base64,AA'', runGender = Masculino, awaitingAll = True,
      retries = [\<lparr>callImage = js ''data:image/png;base64,AA'', callPrompt = stylePrompt Masculino (js ''Corte Buzz (com Degrad'' @ [234] @ js '')''),
                 callHairstyle = js ''Corte Buzz (com Degrad'' @ [234] @ js '')'', callGender = genderStr Masculino\<rparr>], remixes = []\<rparr>"
  let ?c8 = "\<lparr>app = \<lparr>uploadedImage = Some (js ''data:image/png;base64,AA''),
          generatedImages =
           [js ''Corte Buzz (com Degrad'' @ [234] @ js '')'' \<mapsto> \<lparr>status = Pending, url = None, error = None\<rparr>,
            js ''Undercut Desconectado'' \<mapsto> \<lparr>status = Pending, url = None, error = None\<rparr>,
            js ''Coque Samurai'' \<mapsto> \<lparr>status = Pending, url = None, error = None\<rparr>,
            js ''Cabelo M'' @ [233] @ js ''dio Despenteado'' \<mapsto> \<lparr>status = Pending, url = None, error = None\<rparr>,
            js ''Tran'' @ [231] @ js ''as Nag'' @ [244] \<mapsto> \<lparr>status = Pending, url = None, error = None\<rparr>,
            js ''Cabelo Longo Ondulado'' \<mapsto> \<lparr>status = Pending, url = None, error = None\<rparr>,
            js ''Corte Buzz (com Degrad'' @ [234] @ js '')'' \<mapsto> \<lparr>status = Pending, url = None, error = None\<rparr>,
            js ''Undercut Desconectado'' \<mapsto> \<lparr>status = Error, url = None, error = Some (js ''O modelo de IA n'' @ [227] @ js ''o conseguiu gerar uma imagem. Detalhes: '' @ js ''quota exceeded'')\<rparr>,
            js ''Coque Samurai'' \<mapsto> \<lparr>status = Done, url = Some (js ''data:image/png;base64,BB''), error = None\<rparr>],
          isLoading = True, appState = Generating, selectedGender = Some Masculino\<rparr>,
      hairstyleQueue = [js ''Tran'' @ [231] @ js ''as Nag'' @ [244], js ''Cabelo Longo Ondulado''],
      workers = [LoopHead, Awaiting (js ''Cabelo M'' @ [233] @ js ''dio Despenteado'')],
      runImage = js ''data:image/png;base64,AA'', runGender = Masculino, awaitingAll = True,
      retries = [\<lparr>callImage = js ''data:image/png;base64,AA'', callPrompt = stylePrompt Masculino (js ''Corte Buzz (com Degrad'' @ [234] @ js '')''),
                 callHairstyle = js ''Corte Buzz (com Degrad'' @ [234] @ js '')'', callGender = genderStr Masculino\<rparr>], remixes = []\<rparr>"
  let ?c9 = "\<lparr>app = \<lparr>uploadedImage = Some (js ''data:image/png;base64,AA''),
          generatedImages =
           [js ''Corte Buzz (com Degrad'' @ [234] @ js '')'' \<mapsto> \<lparr>status = Pending, url = None, error = None\<rparr>,
            js ''Undercut Desconectado'' \<mapsto> \<lparr>status = Pending, url = None, error = None\<rparr>,
            js ''Coque Samurai'' \<mapsto> \<lparr>status = Pending, url = None, error = None\<rparr>,
            js ''Cabelo M'' @ [233] @ js ''dio Despenteado'' \<mapsto> \<lparr>status = Pending, url = None, error = None\<rparr>,
            js ''Tran'' @ [231] @ js ''as Nag'' @ [244] \<mapsto> \<lparr>status = Pending, url = None, error = None\<rparr>,
            js ''Cabelo Longo Ondulado'' \<mapsto> \<lparr>status = Pending, url = None, error = None\<rparr>,
            js ''Corte Buzz (com Degrad'' @ [234] @ js '')'' \<mapsto> \<lparr>status = Pending, url = None, error = None\<rparr>,
            js ''Undercut Desconectado'' \<mapsto> \<lparr>status = Error, url = None, error = Some (js ''O modelo de IA n'' @ [227] @ js ''o conseguiu gerar uma imagem. Detalhes: '' @ js ''quota exceeded'')\<rparr>,
            js ''Coque Samurai'' \<mapsto> \<lparr>status = Done, url = Some (js ''data:image/png;base64,BB''), error = None\<rparr>],
          isLoading = True, appState = Generating, selectedGender = Some Masculino\<rparr>,
      hairstyleQueue = [js ''Cabelo Longo Ondulado''],
      workers = [Awaiting (js ''Tran'' @ [231] @ js ''as Nag'' @ [244]), Awaiting (js ''Cabelo M'' @ [233] @ js ''dio Despenteado'')],
      runImage = js ''data:image/png;base64,AA'', runGender = Masculino, awaitingAll = True,
      retries = [\<lparr>callImage = js ''data:image/png;base64,AA'', callPrompt = stylePrompt Masculino (js ''Corte Buzz (com Degrad'' @ [234] @ js '')''),
                 callHairstyle = js ''Corte Buzz (com Degrad'' @ [234] @ js '')'', callGender = genderStr Masculino\<rparr>], remixes = []\<rparr>"
  let ?c10 = "\<lparr>app = \<lparr>uploadedImage = Some (js ''data:image/png;base64,AA''),
          generatedImages =
           [js ''Corte Buzz (com Degrad'' @ [234] @ js '')'' \<mapsto> \<lparr>status = Pending, url = None, error = None\<rparr>,
            js ''Undercut Desconectado'' \<mapsto> \<lparr>status = Pending, url = None, error = None\<rparr>,
            js ''Coque Samurai'' \<mapsto> \<lparr>status = Pending, url = None, error = None\<rparr>,
            js ''Cabelo M'' @ [233] @ js ''dio Despenteado'' \<mapsto> \<lparr>status = Pending, url = None, error = None\<rparr>,
            js ''Tran'' @ [231] @ js ''as Nag'' @ [244] \<mapsto> \<lparr>status = Pending, url = None, error = None\<rparr>,
            js ''Cabelo Longo Ondulado'' \<mapsto> \<lparr>status = Pending, url = None, error = None\<rparr>,
            js ''Corte Buzz (com Degrad'' @ [234] @ js '')'' \<mapsto> \<lparr>status = Pending, url = None, error = None\<rparr>,
            js ''Undercut Desconectado'' \<mapsto> \<lparr>status = Error, url = None, error = Some (js ''O modelo de IA n'' @ [227] @ js ''o conseguiu gerar uma imagem. Detalhes: '' @ js ''quota exceeded'')\<rparr>,
            js ''Coque Samurai'' \<mapsto> \<lparr>status = Done, url = Some (js ''data:image/png;base64,BB''), error = None\<rparr>,
            js ''Cabelo M'' @ [233] @ js ''dio Despenteado'' \<mapsto> \<lparr>status = Done, url = Some (js ''data:image/png;base64,BB''), error = None\<rparr>],
          isLoading = True, appState = Generating, selectedGender = Some Masculino\<rparr>,
      hairstyleQueue = [js ''Cabelo Longo Ondulado''],
      workers = [Awaiting (js ''Tran'' @ [231] @ js ''as Nag'' @ [244]), LoopHead],
      runImage = js ''data:image/png;base64,AA'', runGender = Masculino, awaitingAll = True,
      retries = [\<lparr>callImage = js ''data:image/png;base64,AA'', callPrompt = stylePrompt Masculino (js ''Corte Buzz (com Degrad'' @ [234] @ js '')''),
                 callHairstyle = js ''Corte Buzz (com Degrad'' @ [234] @ js '')'', callGender = genderStr Masculino\<rparr>], remixes = []\<rparr>"
  let ?c11 = "\<lparr>app = \<lparr>uploadedImage = Some (js ''data:image/png;base64,AA''),
          generatedImages =
           [js ''Corte Buzz (com Degrad'' @ [234] @ js '')'' \<mapsto> \<lparr>status = Pending, url = None, error = None\<rparr>,
            js ''Undercut Desconectado'' \<mapsto> \<lparr>status = Pending, url = None, error = None\<rparr>,
            js ''Coque Samurai'' \<mapsto> \<lparr>status = Pending, url = None, error = None\<rparr>,
            js ''Cabelo M'' @ [233] @ js ''dio Despenteado'' \<mapsto> \<lparr>status = Pending, url = None, error = None\<rparr>,
            js ''Tran'' @ [231] @ js ''as Nag'' @ [244] \<mapsto> \<lparr>status = Pending, url = None, error = None\<rparr>,
            js ''Cabelo Longo Ondulado'' \<mapsto> \<lparr>status = Pending, url = None, error = None\<rparr>,
            js ''Corte Buzz (com Degrad'' @ [234] @ js '')'' \<mapsto> \<lparr>status = Pending, url = None, error = None\<rparr>,
            js ''Undercut Desconectado'' \<mapsto> \<lparr>status = Error, url = None, error = Some (js ''O modelo de IA n'' @ [227] @ js ''o conseguiu gerar uma imagem. Detalhes: '' @ js ''quota exceeded'')\<rparr>,
            js ''Coque Samurai'' \<mapsto> \<lparr>status = Done, url = Some (js ''data:image/png;base64,BB''), error = None\<rparr>,
            js ''Cabelo M'' @ [233] @ js ''dio Despenteado'' \<mapsto> \<lparr>status = Done, url = Some (js ''data:image/png;base64,BB''), error = None\<rparr>],
          isLoading = True, appState = Generating, selectedGender = Some Masculino\<rparr>,
      hairstyleQueue = [],
      workers = [Awaiting (js ''Tran'' @ [231] @ js ''as Nag'' @ [244]), Awaiting (js ''Cabelo Longo Ondulado'')],
      runImage = js ''data:image/png;base64,AA'', runGender = Masculino, awaitingAll = True,
      retries = [\<lparr>callImage = js ''data:image/png;base64,AA'', callPrompt = stylePrompt Masculino (js ''Corte Buzz (com Degrad'' @ [234] @ js '')''),
                 callHairstyle = js ''Corte Buzz (com Degrad'' @ [234] @ js '')'', callGender = genderStr Masculino\<rparr>], remixes = []\<rparr>"
  let ?c12 = "\<lparr>app = \<lparr>uploadedImage = Some (js ''data:image/png;base64,AA''),
          generatedImages =
           [js ''Corte Buzz (com Degrad'' @ [234] @ js '')'' \<mapsto> \<lparr>status = Pending, url = None, error = None\<rparr>,
            js ''Undercut Desconectado'' \<mapsto> \<lparr>status = Pending, url = None, error = None\<rparr>,
            js ''Coque Samurai'' \<mapsto> \<lparr>status = Pending, url = None, error = None\<rparr>,
            js ''Cabelo M'' @ [233] @ js ''dio Despenteado'' \<mapsto> \<lparr>status = Pending, url = None, error = None\<rparr>,
            js ''Tran'' @ [231] @ js ''as Nag'' @ [244] \<mapsto> \<lparr>status = Pending, url = None, error = None\<rparr>,
            js ''Cabelo Longo Ondulado'' \<mapsto> \<lparr>status = Pending, url = None, error = None\<rparr>,
            js ''Corte Buzz (com Degrad'' @ [234] @ js '')'' \<mapsto> \<lparr>status = Pending, url = None, error = None\<rparr>,
            js ''Undercut Desconectado'' \<mapsto> \<lparr>status = Error, url = None, error = Some (js ''O modelo de IA n'' @ [227] @ js ''o conseguiu gerar uma imagem. Detalhes: '' @ js ''quota exceeded'')\<rparr>,
            js ''Coque Samurai'' \<mapsto> \<lparr>status = Done, url = Some (js ''data:image/png;base64,BB''), error = None\<rparr>,
            js ''Cabelo M'' @ [233] @ js ''dio Despenteado'' \<mapsto> \<lparr>status = Done, url = Some (js ''data:image/png;base64,BB''), error = None\<rparr>,
            js ''Tran'' @ [231] @ js ''as Nag'' @ [244] \<mapsto> \<lparr>status = Done, url = Some (js ''data:image/png;base64,BB''), error = None\<rparr>],
          isLoading = True, appState = Generating, selectedGender = Some Masculino\<rparr>,
      hairstyleQueue = [],
      workers = [LoopHead, Awaiting (js ''Cabelo Longo Ondulado'')],
      runImage = js ''data:image/png;base64,AA'', runGender = Masculino, awaitingAll = True,
      retries = [\<lparr>callImage = js ''data:image/png;base64,AA'', callPrompt = stylePrompt Masculino (js ''Corte Buzz (com Degrad'' @ [234] @ js '')''),
                 callHairstyle = js ''Corte Buzz (com Degrad'' @ [234] @ js '')'', callGender = genderStr Masculino\<rparr>], remixes = []\<rparr>"
  let ?c13 = "\<lparr>app = \<lparr>uploadedImage = Some (js ''data:image/png;base64,AA''),
          generatedImages =
           [js ''Corte Buzz (com Degrad'' @ [234] @ js '')'' \<mapsto> \<lparr>status = Pending, url = None, error = None\<rparr>,
            js ''Undercut Desconectado'' \<mapsto> \<lparr>status = Pending, url = None, error = None\<rparr>,
            js ''Coque Samurai'' \<mapsto> \<lparr>status = Pending, url = None, error = None\<rparr>,
            js ''Cabelo M'' @ [233] @ js ''dio Despenteado'' \<mapsto> \<lparr>status = Pending, url = None, error = None\<rparr>,
            js ''Tran'' @ [231] @ js ''as Nag'' @ [244] \<mapsto> \<lparr>status = Pending, url = None, error = None\<rparr>,
            js ''Cabelo Longo Ondulado'' \<mapsto> \<lparr>status = Pending, url = None, error = None\<rparr>,
            js ''Corte Buzz (com Degrad'' @ [234] @ js '')'' \<mapsto> \<lparr>status = Pending, url = None, error = None\<rparr>,
            js ''Undercut Desconectado'' \<mapsto> \<lparr>status = Error, url = None, error = Some (js ''O modelo de IA n'' @ [227] @ js ''o conseguiu gerar uma imagem. Detalhes: '' @ js ''quota exceeded'')\<rparr>,
            js ''Coque Samurai'' \<mapsto> \<lparr>status = Done, url = Some (js ''data:image/png;base64,BB''), error = None\<rparr>,
            js ''Cabelo M'' @ [233] @ js ''dio Despenteado'' \<mapsto> \<lparr>status = Done, url = Some (js ''data:image/png;base64,BB''), error = None\<rparr>,
            js ''Tran'' @ [231] @ js ''as Nag'' @ [244] \<mapsto> \<lparr>status = Done, url = Some (js ''data:image/png;base64,BB''), error = None\<rparr>],
          isLoading = True, appState = Generating, selectedGender = Some Masculino\<rparr>,
      hairstyleQueue = [],
      workers = [Finished, Awaiting (js ''Cabelo Longo Ondulado'')],
      runImage = js ''data:image/png;base64,AA'', runGender = Masculino, awaitingAll = True,
      retries = [\<lparr>callImage = js ''data:image/png;base64,AA'', callPrompt = stylePrompt Masculino (js ''Corte Buzz (com Degrad'' @ [234] @ js '')''),
                 callHairstyle = js ''Corte Buzz (com Degrad'' @ [234] @ js '')'', callGender = genderStr Masculino\<rparr>], remixes = []\<rparr>"
  let ?c14 = "\<lparr>app = \<lparr>uploadedImage = Some (js ''data:image/png;base64,AA''),
          generatedImages =
           [js ''Corte Buzz (com Degrad'' @ [234] @ js '')'' \<mapsto> \<lparr>status = Pending, url = None, error = None\<rparr>,
            js ''Undercut Desconectado'' \<mapsto> \<lparr>status = Pending, url = None, error = None\<rparr>,
            js ''Coque Samurai'' \<mapsto> \<lparr>status = Pending, url = None, error = None\<rparr>,
            js ''Cabelo M'' @ [233] @ js ''dio Despenteado'' \<mapsto> \<lparr>status = Pending, url = None, error = None\<rparr>,
            js ''Tran'' @ [231] @ js ''as Nag'' @ [244] \<mapsto> \<lparr>status = Pending, url = None, error = None\<rparr>,
            js ''Cabelo Longo Ondulado'' \<mapsto> \<lparr>status = Pending, url = None, error = None\<rparr>,
            js ''Corte Buzz (com Degrad'' @ [234] @ js '')'' \<mapsto> \<lparr>status = Pending, url = None, error = None\<rparr>,
            js ''Undercut Desconectado'' \<mapsto> \<lparr>status = Error, url = None, error = Some (js ''O modelo de IA n'' @ [227] @ js ''o conseguiu gerar uma imagem. Detalhes: '' @ js ''quota exceeded'')\<rparr>,
            js ''Coque Samurai'' \<mapsto> \<lparr>status = Done, url = Some (js ''data:image/png;base64,BB''), error = None\<rparr>,
            js ''Cabelo M'' @ [233] @ js ''dio Despenteado'' \<mapsto> \<lparr>status = Done, url = Some (js ''data:image/png;base64,BB''), error = None\<rparr>,
            js ''Tran'' @ [231] @ js ''as Nag'' @ [244] \<mapsto> \<lparr>status = Done, url = Some (js ''data:image/png;base64,BB''), error = None\<rparr>,
            js ''Cabelo Longo Ondulado'' \<mapsto> \<lparr>status = Done, url = Some (js ''data:image/png;base64,BB''), error = None\<rparr>],
          isLoading = True, appState = Generating, selectedGender = Some Masculino\<rparr>,
      hairstyleQueue = [],
      workers = [Finished, LoopHead],
      runImage = js ''data:image/png;base64,AA'', runGender = Masculino, awaitingAll = True,
      retries = [\<lparr>callImage = js ''data:image/png;base64,AA'', callPrompt = stylePrompt Masculino (js ''Corte Buzz (com Degrad'' @ [234] @ js '')''),
                 callHairstyle = js ''Corte Buzz (com Degrad'' @ [234] @ js '')'', callGender = genderStr Masculino\<rparr>], remixes = []\<rparr>"
  let ?c15 = "\<lparr>app = \<lparr>uploadedImage = Some (js ''data:image/png;base64,AA''),
          generatedImages =
           [js ''Corte Buzz (com Degrad'' @ [234] @ js '')'' \<mapsto> \<lparr>status = Pending, url = None, error = None\<rparr>,
            js ''Undercut Desconectado'' \<mapsto> \<lparr>status = Pending, url = None, error = None\<rparr>,
            js ''Coque Samurai'' \<mapsto> \<lparr>status = Pending, url = None, error = None\<rparr>,
            js ''Cabelo M'' @ [233] @ js ''dio Despenteado'' \<mapsto> \<lparr>status = Pending, url = None, error = None\<rparr>,
            js ''Tran'' @ [231] @ js ''as Nag'' @ [244] \<mapsto> \<lparr>status = Pending, url = None, error = None\<rparr>,
            js ''Cabelo Longo Ondulado'' \<mapsto> \<lparr>status = Pending, url = None, error = None\<rparr>,
            js ''Corte Buzz (com Degrad'' @ [234] @ js '')'' \<mapsto> \<lparr>status = Pending, url = None, error = None\<rparr>,
            js ''Undercut Desconectado'' \<mapsto> \<lparr>status = Error, url = None, error = Some (js ''O modelo de IA n'' @ [227] @ js ''o conseguiu gerar uma imagem. Detalhes: '' @ js ''quota exceeded'')\<rparr>,
            js ''Coque Samurai'' \<mapsto> \<lparr>status = Done, url = Some (js ''data:image/png;base64,BB''), error = None\<rparr>,
            js ''Cabelo M'' @ [233] @ js ''dio Despenteado'' \<mapsto> \<lparr>status = Done, url = Some (js ''data:image/png;base64,BB''), error = None\<rparr>,
            js ''Tran'' @ [231] @ js ''as Nag'' @ [244] \<mapsto> \<lparr>status = Done, url = Some (js ''data:image/png;base64,BB''), error = None\<rparr>,
            js ''Cabelo Longo Ondulado'' \<mapsto> \<lparr>status = Done, url = Some (js ''data:image/png;base64,BB''), error = None\<rparr>],
          isLoading = True, appState = Generating, selectedGender = Some Masculino\<rparr>,
      hairstyleQueue = [],
      workers = [Finished, Finished],
      runImage = js ''data:image/png;base64,AA'', runGender = Masculino, awaitingAll = True,
      retries = [\<lparr>callImage = js ''data:image/png;base64,AA'', callPrompt = stylePrompt Masculino (js ''Corte Buzz (com Degrad'' @ [234] @ js '')''),
                 callHairstyle = js ''Corte Buzz (com Degrad'' @ [234] @ js '')'', callGender = genderStr Masculino\<rparr>], remixes = []\<rparr>"
  let ?c16 = "\<lparr>app = \<lparr>uploadedImage = Some (js ''data:image/png;base64,AA''),
          generatedImages =
           [js ''Corte Buzz (com Degrad'' @ [234] @ js '')'' \<mapsto> \<lparr>status = Pending, url = None, error = None\<rparr>,
            js ''Undercut Desconectado'' \<mapsto> \<lparr>status = Pending, url = None, error = None\<rparr>,
            js ''Coque Samurai'' \<mapsto> \<lparr>status = Pending, url = None, error = None\<rparr>,
            js ''Cabelo M'' @ [233] @ js ''dio Despenteado'' \<mapsto> \<lparr>status = Pending, url = None, error = None\<rparr>,
            js ''Tran'' @ [231] @ js ''as Nag'' @ [244] \<mapsto> \<lparr>status = Pending, url = None, error = None\<rparr>,
            js ''Cabelo Longo Ondulado'' \<mapsto> \<lparr>status = Pending, url = None, error = None\<rparr>,
            js ''Corte Buzz (com Degrad'' @ [234] @ js '')'' \<mapsto> \<lparr>status = Pending, url = None, error = None\<rparr>,
            js ''Undercut Desconectado'' \<mapsto> \<lparr>status = Error, url = None, error = Some (js ''O modelo de IA n'' @ [227] @ js ''o conseguiu gerar uma imagem. Detalhes: '' @ js ''quota exceeded'')\<rparr>,
            js ''Coque Samurai'' \<mapsto> \<lparr>status = Done, url = Some (js ''data:image/png;base64,BB''), error = None\<rparr>,
            js ''Cabelo M'' @ [233] @ js ''dio Despenteado'' \<mapsto> \<lparr>status = Done, url = Some (js ''data:image/png;base64,BB''), error = None\<rparr>,
            js ''Tran'' @ [231] @ js ''as Nag'' @ [244] \<mapsto> \<lparr>status = Done, url = Some (js ''data:image/png;base64,BB''), error = None\<rparr>,
            js ''Cabelo Longo Ondulado'' \<mapsto> \<lparr>status = Done, url = Some (js ''data:image/png;base64,BB''), error = None\<rparr>],
          isLoading = False, appState = ResultsShown, selectedGender = Some Masculino\<rparr>,
      hairstyleQueue = [],
      workers = [Finished, Finished],
      runImage = js ''data:image/png;base64,AA'', runGender = Masculino, awaitingAll = False,
      retries = [\<lparr>callImage = js ''data:image/png;base64,AA'', callPrompt = stylePrompt Masculino (js ''Corte Buzz (com Degrad'' @ [234] @ js '')''),
                 callHairstyle = js ''Corte Buzz (com Degrad'' @ [234] @ js '')'', callGender = genderStr Masculino\<rparr>], remixes = []\<rparr>"
  have dec: "decode (js ''data:image/png;base64,AA'') = Inr \<lparr>mimeType = js ''image/png'', data = js ''AA''\<rparr>"
    by (simp add: decode_def dataUrlMatch_def js_def isWordChar_def isLineTerminator_def)
  have ok: "\<And>p h g. fst (generateDecadeImage (\<lambda>tr req. Inr \<lparr>parts = [\<lparr>inlineData = Some \<lparr>mimeType = js ''image/png'', data = js ''BB''\<rparr>\<rparr>], responseText = None\<rparr>) (js ''data:image/png;base64,AA'') p h g []) = Inr (js ''data:image/png;base64,BB'')"
    using generate_ok [OF dec] by (simp add: encode_def js_def)
  have nint: "\<not> isInternalError (JsError (js ''quota exceeded''))" by (simp add: isInternalError_def errorMessageOf_def js_def)
  have nnoimg: "\<not> isNoImageError (JsError (js ''quota exceeded''))" by (simp add: isNoImageError_def errorMessageOf_def noImagePhrase_def js_def)
  have fail: "\<And>p h g. fst (generateDecadeImage (\<lambda>tr req. Inl (JsError (js ''quota exceeded''))) (js ''data:image/png;base64,AA'') p h g []) = Inl (JsError (js ''O modelo de IA n'' @ [227] @ js ''o conseguiu gerar uma imagem. Detalhes: '' @ js ''quota exceeded''))"
    using generate_fail [OF dec nint nnoimg] by (simp add: unrecoverableError_def)
  have start: "startSys Masculino
     \<lparr>uploadedImage = Some (js ''data:image/png;base64,AA''), generatedImages = Map.empty,
      isLoading = False, appState = ImageUploaded, selectedGender = None\<rparr> = Some ?c0"
    by (simp add: startSys_def handleGenerate_start_def Run.extend_def hairstylesOf_def concurrencyLimit_def numeral_2_eq_2 MALE_HAIRSTYLES_def initialImages_def pendingItem_def)
       (simp add: js_def)
  have e0: "sys_exec ?c0 [] ?c0" by (rule sys_exec.sys_nil)
  have s1: "sys_step ?c0 (Pool (Dequeue 0 (js ''Corte Buzz (com Degrad'' @ [234] @ js '')''))) ?c1"
    using sys_step.pool [OF pool_step.dequeue [of 0 ?c0 "js ''Corte Buzz (com Degrad'' @ [234] @ js '')''" "tl (hairstyleQueue ?c0)"]]
    by (simp add: js_def)
  have e1: "sys_exec ?c0
     [Pool (Dequeue 0 (js ''Corte Buzz (com Degrad'' @ [234] @ js '')''))] ?c1"
    using sys_exec.sys_snoc [OF e0 s1] by simp
  have s2: "sys_step ?c1 (Pool (Dequeue 1 (js ''Undercut Desconectado''))) ?c2"
    using sys_step.pool [OF pool_step.dequeue [of 1 ?c1 "js ''Undercut Desconectado''" "tl (hairstyleQueue ?c1)"]]
    by (simp add: js_def)
  have e2: "sys_exec ?c0
     [Pool (Dequeue 0 (js ''Corte Buzz (com Degrad'' @ [234] @ js '')'')),
      Pool (Dequeue 1 (js ''Undercut Desconectado''))] ?c2"
    using sys_exec.sys_snoc [OF e1 s2] by simp
  have s3: "sys_step ?c2 (Pool (Settle 0 (js ''Corte Buzz (com Degrad'' @ [234] @ js '')'') (Inr (js ''data:image/png;base64,BB'')))) ?c3"
    using sys_step.pool [OF pool_step.settle [of 0 ?c2 "js ''Corte Buzz (com Degrad'' @ [234] @ js '')''" "Inr (js ''data:image/png;base64,BB'')" "\<lambda>tr req. Inr \<lparr>parts = [\<lparr>inlineData = Some \<lparr>mimeType = js ''image/png'', data = js ''BB''\<rparr>\<rparr>], responseText = None\<rparr>" "[]"]] ok
    by (simp add: processHairstyle_settle_def doneItem_def errorItem_def caughtMessage_def)
  have e3: "sys_exec ?c0
     [Pool (Dequeue 0 (js ''Corte Buzz (com Degrad'' @ [234] @ js '')'')),
      Pool (Dequeue 1 (js ''Undercut Desconectado'')),
      Pool (Settle 0 (js ''Corte Buzz (com Degrad'' @ [234] @ js '')'') (Inr (js ''data:image/png;base64,BB'')))] ?c3"
    using sys_exec.sys_snoc [OF e2 s3] by simp
  have s4: "sys_step ?c3 (Pool (Dequeue 0 (js ''Coque Samurai''))) ?c4"
    using sys_step.pool [OF pool_step.dequeue [of 0 ?c3 "js ''Coque Samurai''" "tl (hairstyleQueue ?c3)"]]
    by (simp add: js_def)
  have e4: "sys_exec ?c0
     [Pool (Dequeue 0 (js ''Corte Buzz (com Degrad'' @ [234] @ js '')'')),
      Pool (Dequeue 1 (js ''Undercut Desconectado'')),
      Pool (Settle 0 (js ''Corte Buzz (com Degrad'' @ [234] @ js '')'') (Inr (js ''data:image/png;base64,BB''))),
      Pool (Dequeue 0 (js ''Coque Samurai''))] ?c4"
    using sys_exec.sys_snoc [OF e3 s4] by simp
  have s5: "sys_step ?c4 (RetryStart (js ''Corte Buzz (com Degrad'' @ [234] @ js '')'')) ?c5"
    using sys_step.retry_start [of "js ''Corte Buzz (com Degrad'' @ [234] @ js '')''" ?c4 "app ?c5" "Some (\<lparr>callImage = js ''data:image/png;base64,AA'', callPrompt = stylePrompt Masculino (js ''Corte Buzz (com Degrad'' @ [234] @ js '')''),                  callHairstyle = js ''Corte Buzz (com Degrad'' @ [234] @ js '')'', callGender = genderStr Masculino\<rparr>)"]
    by (simp add: handleRegenerateDecade_start_def isPending_def pendingItem_def js_def)
  have e5: "sys_exec ?c0
     [Pool (Dequeue 0 (js ''Corte Buzz (com Degrad'' @ [234] @ js '')'')),
      Pool (Dequeue 1 (js ''Undercut Desconectado'')),
      Pool (Settle 0 (js ''Corte Buzz (com Degrad'' @ [234] @ js '')'') (Inr (js ''data:image/png;base64,BB''))),
      Pool (Dequeue 0 (js ''Coque Samurai'')),
      RetryStart (js ''Corte Buzz (com Degrad'' @ [234] @ js '')'')] ?c5"
    using sys_exec.sys_snoc [OF e4 s5] by simp
  have s6: "sys_step ?c5 (Pool (Settle 1 (js ''Undercut Desconectado'') (Inl (JsError (js ''O modelo de IA n'' @ [227] @ js ''o conseguiu gerar uma imagem. Detalhes: '' @ js ''quota exceeded''))))) ?c6"
    using sys_step.pool [OF pool_step.settle [of 1 ?c5 "js ''Undercut Desconectado''" "Inl (JsError (js ''O modelo de IA n'' @ [227] @ js ''o conseguiu gerar uma imagem. Detalhes: '' @ js ''quota exceeded''))" "\<lambda>tr req. Inl (JsError (js ''quota exceeded''))" "[]"]] fail
    by (simp add: processHairstyle_settle_def doneItem_def errorItem_def caughtMessage_def)
  have e6: "sys_exec ?c0
     [Pool (Dequeue 0 (js ''Corte Buzz (com Degrad'' @ [234] @ js '')'')),
      Pool (Dequeue 1 (js ''Undercut Desconectado'')),
      Pool (Settle 0 (js ''Corte Buzz (com Degrad'' @ [234] @ js '')'') (Inr (js ''data:image/png;base64,BB''))),
      Pool (Dequeue 0 (js ''Coque Samurai'')),
      RetryStart (js ''Corte Buzz (com Degrad'' @ [234] @ js '')''),
      Pool (Settle 1 (js ''Undercut Desconectado'') (Inl (JsError (js ''O modelo de IA n'' @ [227] @ js ''o conseguiu gerar uma imagem. Detalhes: '' @ js ''quota exceeded''))))] ?c6"
    using sys_exec.sys_snoc [OF e5 s6] by simp
  have s7: "sys_step ?c6 (Pool (Dequeue 1 (js ''Cabelo M'' @ [233] @ js ''dio Despenteado''))) ?c7"
    using sys_step.pool [OF pool_step.dequeue [of 1 ?c6 "js ''Cabelo M'' @ [233] @ js ''dio Despenteado''" "tl (hairstyleQueue ?c6)"]]
    by (simp add: js_def)
  have e7: "sys_exec ?c0
     [Pool (Dequeue 0 (js ''Corte Buzz (com Degrad'' @ [234] @ js '')'')),
      Pool (Dequeue 1 (js ''Undercut Desconectado'')),
      Pool (Settle 0 (js ''Corte Buzz (com Degrad'' @ [234] @ js '')'') (Inr (js ''data:image/png;base64,BB''))),
      Pool (Dequeue 0 (js ''Coque Samurai'')),
      RetryStart (js ''Corte Buzz (com Degrad'' @ [234] @ js '')''),
      Pool (Settle 1 (js ''Undercut Desconectado'') (Inl (JsError (js ''O modelo de IA n'' @ [227] @ js ''o conseguiu gerar uma imagem. Detalhes: '' @ js ''quota exceeded'')))),
      Pool (Dequeue 1 (js ''Cabelo M'' @ [233] @ js ''dio Despenteado''))] ?c7"
    using sys_exec.sys_snoc [OF e6 s7] by simp
  have s8: "sys_step ?c7 (Pool (Settle 0 (js ''Coque Samurai'') (Inr (js ''data:image/png;base64,BB'')))) ?c8"
    using sys_step.pool [OF pool_step.settle [of 0 ?c7 "js ''Coque Samurai''" "Inr (js ''data:image/png;base64,BB'')" "\<lambda>tr req. Inr \<lparr>parts = [\<lparr>inlineData = Some \<lparr>mimeType = js ''image/png'', data = js ''BB''\<rparr>\<rparr>], responseText = None\<rparr>" "[]"]] ok
    by (simp add: processHairstyle_settle_def doneItem_def errorItem_def caughtMessage_def)
  have e8: "sys_exec ?c0
     [Pool (Dequeue 0 (js ''Corte Buzz (com Degrad'' @ [234] @ js '')'')),
      Pool (Dequeue 1 (js ''Undercut Desconectado'')),
      Pool (Settle 0 (js ''Corte Buzz (com Degrad'' @ [234] @ js '')'') (Inr (js ''data:image/png;base64,BB''))),
      Pool (Dequeue 0 (js ''Coque Samurai'')),
      RetryStart (js ''Corte Buzz (com Degrad'' @ [234] @ js '')''),
      Pool (Settle 1 (js ''Undercut Desconectado'') (Inl (JsError (js ''O modelo de IA n'' @ [227] @ js ''o conseguiu gerar uma imagem. Detalhes: '' @ js ''quota exceeded'')))),
      Pool (Dequeue 1 (js ''Cabelo M'' @ [233] @ js ''dio Despenteado'')),
      Pool (Settle 0 (js ''Coque Samurai'') (Inr (js ''data:image/png;base64,BB'')))] ?c8"
    using sys_exec.sys_snoc [OF e7 s8] by simp
  have s9: "sys_step ?c8 (Pool (Dequeue 0 (js ''Tran'' @ [231] @ js ''as Nag'' @ [244]))) ?c9"
    using sys_step.pool [OF pool_step.dequeue [of 0 ?c8 "js ''Tran'' @ [231] @ js ''as Nag'' @ [244]" "tl (hairstyleQueue ?c8)"]]
    by (simp add: js_def)
  have e9: "sys_exec ?c0
     [Pool (Dequeue 0 (js ''Corte Buzz (com Degrad'' @ [234] @ js '')'')),
      Pool (Dequeue 1 (js ''Undercut Desconectado'')),
      Pool (Settle 0 (js ''Corte Buzz (com Degrad'' @ [234] @ js '')'') (Inr (js ''data:image/png;base64,BB''))),
      Pool (Dequeue 0 (js ''Coque Samurai'')),
      RetryStart (js ''Corte Buzz (com Degrad'' @ [234] @ js '')''),
      Pool (Settle 1 (js ''Undercut Desconectado'') (Inl (JsError (js ''O modelo de IA n'' @ [227] @ js ''o conseguiu gerar uma imagem. Detalhes: '' @ js ''quota exceeded'')))),
      Pool (Dequeue 1 (js ''Cabelo M'' @ [233] @ js ''dio Despenteado'')),
      Pool (Settle 0 (js ''Coque Samurai'') (Inr (js ''data:image/png;base64,BB''))),
      Pool (Dequeue 0 (js ''Tran'' @ [231] @ js ''as Nag'' @ [244]))] ?c9"
    using sys_exec.sys_snoc [OF e8 s9] by simp
  have s10: "sys_step ?c9 (Pool (Settle 1 (js ''Cabelo M'' @ [233] @ js ''dio Despenteado'') (Inr (js ''data:image/png;base64,BB'')))) ?c10"
    using sys_step.pool [OF pool_step.settle [of 1 ?c9 "js ''Cabelo M'' @ [233] @ js ''dio Despenteado''" "Inr (js ''data:image/png;base64,BB'')" "\<lambda>tr req. Inr \<lparr>parts = [\<lparr>inlineData = Some \<lparr>mimeType = js ''image/png'', data = js ''BB''\<rparr>\<rparr>], responseText = None\<rparr>" "[]"]] ok
    by (simp add: processHairstyle_settle_def doneItem_def errorItem_def caughtMessage_def)
  have e10: "sys_exec ?c0
     [Pool (Dequeue 0 (js ''Corte Buzz (com Degrad'' @ [234] @ js '')'')),
      Pool (Dequeue 1 (js ''Undercut Desconectado'')),
      Pool (Settle 0 (js ''Corte Buzz (com Degrad'' @ [234] @ js '')'') (Inr (js ''data:image/png;base64,BB''))),
      Pool (Dequeue 0 (js ''Coque Samurai'')),
      RetryStart (js ''Corte Buzz (com Degrad'' @ [234] @ js '')''),
      Pool (Settle 1 (js ''Undercut Desconectado'') (Inl (JsError (js ''O modelo de IA n'' @ [227] @ js ''o conseguiu gerar uma imagem. Detalhes: '' @ js ''quota exceeded'')))),
      Pool (Dequeue 1 (js ''Cabelo M'' @ [233] @ js ''dio Despenteado'')),
      Pool (Settle 0 (js ''Coque Samurai'') (Inr (js ''data:image/png;base64,BB''))),
      Pool (Dequeue 0 (js ''Tran'' @ [231] @ js ''as Nag'' @ [244])),
      Pool (Settle 1 (js ''Cabelo M'' @ [233] @ js ''dio Despenteado'') (Inr (js ''data:image/png;base64,BB'')))] ?c10"
    using sys_exec.sys_snoc [OF e9 s10] by simp
  have s11: "sys_step ?c10 (Pool (Dequeue 1 (js ''Cabelo Longo Ondulado''))) ?c11"
    using sys_step.pool [OF pool_step.dequeue [of 1 ?c10 "js ''Cabelo Longo Ondulado''" "tl (hairstyleQueue ?c10)"]]
    by (simp add: js_def)
  have e11: "sys_exec ?c0
     [Pool (Dequeue 0 (js ''Corte Buzz (com Degrad'' @ [234] @ js '')'')),
      Pool (Dequeue 1 (js ''Undercut Desconectado'')),
      Pool (Settle 0 (js ''Corte Buzz (com Degrad'' @ [234] @ js '')'') (Inr (js ''data:image/png;base64,BB''))),
      Pool (Dequeue 0 (js ''Coque Samurai'')),
      RetryStart (js ''Corte Buzz (com Degrad'' @ [234] @ js '')''),
      Pool (Settle 1 (js ''Undercut Desconectado'') (Inl (JsError (js ''O modelo de IA n'' @ [227] @ js ''o conseguiu gerar uma imagem. Detalhes: '' @ js ''quota exceeded'')))),
      Pool (Dequeue 1 (js ''Cabelo M'' @ [233] @ js ''dio Despenteado'')),
      Pool (Settle 0 (js ''Coque Samurai'') (Inr (js ''data:image/png;base64,BB''))),
      Pool (Dequeue 0 (js ''Tran'' @ [231] @ js ''as Nag'' @ [244])),
      Pool (Settle 1 (js ''Cabelo M'' @ [233] @ js ''dio Despenteado'') (Inr (js ''data:image/png;base64,BB''))),
      Pool (Dequeue 1 (js ''Cabelo Longo Ondulado''))] ?c11"
    using sys_exec.sys_snoc [OF e10 s11] by simp
  have s12: "sys_step ?c11 (Pool (Settle 0 (js ''Tran'' @ [231] @ js ''as Nag'' @ [244]) (Inr (js ''data:image/png;base64,BB'')))) ?c12"
    using sys_step.pool [OF pool_step.settle [of 0 ?c11 "js ''Tran'' @ [231] @ js ''as Nag'' @ [244]" "Inr (js ''data:image/png;base64,BB'')" "\<lambda>tr req. Inr \<lparr>parts = [\<lparr>inlineData = Some \<lparr>mimeType = js ''image/png'', data = js ''BB''\<rparr>\<rparr>], responseText = None\<rparr>" "[]"]] ok
    by (simp add: processHairstyle_settle_def doneItem_def errorItem_def caughtMessage_def)
  have e12: "sys_exec ?c0
     [Pool (Dequeue 0 (js ''Corte Buzz (com Degrad'' @ [234] @ js '')'')),
      Pool (Dequeue 1 (js ''Undercut Desconectado'')),
      Pool (Settle 0 (js ''Corte Buzz (com Degrad'' @ [234] @ js '')'') (Inr (js ''data:image/png;base64,BB''))),
      Pool (Dequeue 0 (js ''Coque Samurai'')),
      RetryStart (js ''Corte Buzz (com Degrad'' @ [234] @ js '')''),
      Pool (Settle 1 (js ''Undercut Desconectado'') (Inl (JsError (js ''O modelo de IA n'' @ [227] @ js ''o conseguiu gerar uma imagem. Detalhes: '' @ js ''quota exceeded'')))),
      Pool (Dequeue 1 (js ''Cabelo M'' @ [233] @ js ''dio Despenteado'')),
      Pool (Settle 0 (js ''Coque Samurai'') (Inr (js ''data:image/png;base64,BB''))),
      Pool (Dequeue 0 (js ''Tran'' @ [231] @ js ''as Nag'' @ [244])),
      Pool (Settle 1 (js ''Cabelo M'' @ [233] @ js ''dio Despenteado'') (Inr (js ''data:image/png;base64,BB''))),
      Pool (Dequeue 1 (js ''Cabelo Longo Ondulado'')),
      Pool (Settle 0 (js ''Tran'' @ [231] @ js ''as Nag'' @ [244]) (Inr (js ''data:image/png;base64,BB'')))] ?c12"
    using sys_exec.sys_snoc [OF e11 s12] by simp
  have s13: "sys_step ?c12 (Pool (Exit 0)) ?c13"
    using sys_step.pool [OF pool_step.exit [of 0 ?c12]] by simp
  have e13: "sys_exec ?c0
     [Pool (Dequeue 0 (js ''Corte Buzz (com Degrad'' @ [234] @ js '')'')),
      Pool (Dequeue 1 (js ''Undercut Desconectado'')),
      Pool (Settle 0 (js ''Corte Buzz (com Degrad'' @ [234] @ js '')'') (Inr (js ''data:image/png;base64,BB''))),
      Pool (Dequeue 0 (js ''Coque Samurai'')),
      RetryStart (js ''Corte Buzz (com Degrad'' @ [234] @ js '')''),
      Pool (Settle 1 (js ''Undercut Desconectado'') (Inl (JsError (js ''O modelo de IA n'' @ [227] @ js ''o conseguiu gerar uma imagem. Detalhes: '' @ js ''quota exceeded'')))),
      Pool (Dequeue 1 (js ''Cabelo M'' @ [233] @ js ''dio Despenteado'')),
      Pool (Settle 0 (js ''Coque Samurai'') (Inr (js ''data:image/png;base64,BB''))),
      Pool (Dequeue 0 (js ''Tran'' @ [231] @ js ''as Nag'' @ [244])),
      Pool (Settle 1 (js ''Cabelo M'' @ [233] @ js ''dio Despenteado'') (Inr (js ''data:image/png;base64,BB''))),
      Pool (Dequeue 1 (js ''Cabelo Longo Ondulado'')),
      Pool (Settle 0 (js ''Tran'' @ [231] @ js ''as Nag'' @ [244]) (Inr (js ''data:image/png;base64,BB''))),
      Pool (Exit 0)] ?c13"
    using sys_exec.sys_snoc [OF e12 s13] by simp
  have s14: "sys_step ?c13 (Pool (Settle 1 (js ''Cabelo Longo Ondulado'') (Inr (js ''data:image/png;base64,BB'')))) ?c14"
    using sys_step.pool [OF pool_step.settle [of 1 ?c13 "js ''Cabelo Longo Ondulado''" "Inr (js ''data:image/png;base64,BB'')" "\<lambda>tr req. Inr \<lparr>parts = [\<lparr>inlineData = Some \<lparr>mimeType = js ''image/png'', data = js ''BB''\<rparr>\<rparr>], responseText = None\<rparr>" "[]"]] ok
    by (simp add: processHairstyle_settle_def doneItem_def errorItem_def caughtMessage_def)
  have e14: "sys_exec ?c0
     [Pool (Dequeue 0 (js ''Corte Buzz (com Degrad'' @ [234] @ js '')'')),
      Pool (Dequeue 1 (js ''Undercut Desconectado'')),
      Pool (Settle 0 (js ''Corte Buzz (com Degrad'' @ [234] @ js '')'') (Inr (js ''data:image/png;base64,BB''))),
      Pool (Dequeue 0 (js ''Coque Samurai'')),
      RetryStart (js ''Corte Buzz (com Degrad'' @ [234] @ js '')''),
      Pool (Settle 1 (js ''Undercut Desconectado'') (Inl (JsError (js ''O modelo de IA n'' @ [227] @ js ''o conseguiu gerar uma imagem. Detalhes: '' @ js ''quota exceeded'')))),
      Pool (Dequeue 1 (js ''Cabelo M'' @ [233] @ js ''dio Despenteado'')),
      Pool (Settle 0 (js ''Coque Samurai'') (Inr (js ''data:image/png;base64,BB''))),
      Pool (Dequeue 0 (js ''Tran'' @ [231] @ js ''as Nag'' @ [244])),
      Pool (Settle 1 (js ''Cabelo M'' @ [233] @ js ''dio Despenteado'') (Inr (js ''data:image/png;base64,BB''))),
      Pool (Dequeue 1 (js ''Cabelo Longo Ondulado'')),
      Pool (Settle 0 (js ''Tran'' @ [231] @ js ''as Nag'' @ [244]) (Inr (js ''data:image/png;base64,BB''))),
      Pool (Exit 0),
      Pool (Settle 1 (js ''Cabelo Longo Ondulado'') (Inr (js ''data:image/png;base64,BB'')))] ?c14"
    using sys_exec.sys_snoc [OF e13 s14] by simp
  have s15: "sys_step ?c14 (Pool (Exit 1)) ?c15"
    using sys_step.pool [OF pool_step.exit [of 1 ?c14]] by simp
  have e15: "sys_exec ?c0
     [Pool (Dequeue 0 (js ''Corte Buzz (com Degrad'' @ [234] @ js '')'')),
      Pool (Dequeue 1 (js ''Undercut Desconectado'')),
      Pool (Settle 0 (js ''Corte Buzz (com Degrad'' @ [234] @ js '')'') (Inr (js ''data:image/png;base64,BB''))),
      Pool (Dequeue 0 (js ''Coque Samurai'')),
      RetryStart (js ''Corte Buzz (com Degrad'' @ [234] @ js '')''),
      Pool (Settle 1 (js ''Undercut Desconectado'') (Inl (JsError (js ''O modelo de IA n'' @ [227] @ js ''o conseguiu gerar uma imagem. Detalhes: '' @ js ''quota exceeded'')))),
      Pool (Dequeue 1 (js ''Cabelo M'' @ [233] @ js ''dio Despenteado'')),
      Pool (Settle 0 (js ''Coque Samurai'') (Inr (js ''data:image/png;base64,BB''))),
      Pool (Dequeue 0 (js ''Tran'' @ [231] @ js ''as Nag'' @ [244])),
      Pool (Settle 1 (js ''Cabelo M'' @ [233] @ js ''dio Despenteado'') (Inr (js ''data:image/png;base64,BB''))),
      Pool (Dequeue 1 (js ''Cabelo Longo Ondulado'')),
      Pool (Settle 0 (js ''Tran'' @ [231] @ js ''as Nag'' @ [244]) (Inr (js ''data:image/png;base64,BB''))),
      Pool (Exit 0),
      Pool (Settle 1 (js ''Cabelo Longo Ondulado'') (Inr (js ''data:image/png;base64,BB''))),
      Pool (Exit 1)] ?c15"
    using sys_exec.sys_snoc [OF e14 s15] by simp
  have s16: "sys_step ?c15 (Pool Complete) ?c16"
    using sys_step.pool [OF pool_step.complete [of ?c15]] by simp
  have e16: "sys_exec ?c0
     [Pool (Dequeue 0 (js ''Corte Buzz (com Degrad'' @ [234] @ js '')'')),
      Pool (Dequeue 1 (js ''Undercut Desconectado'')),
      Pool (Settle 0 (js ''Corte Buzz (com Degrad'' @ [234] @ js '')'') (Inr (js ''data:image/png;base64,BB''))),
      Pool (Dequeue 0 (js ''Coque Samurai'')),
      RetryStart (js ''Corte Buzz (com Degrad'' @ [234] @ js '')''),
      Pool (Settle 1 (js ''Undercut Desconectado'') (Inl (JsError (js ''O modelo de IA n'' @ [227] @ js ''o conseguiu gerar uma imagem. Detalhes: '' @ js ''quota exceeded'')))),
      Pool (Dequeue 1 (js ''Cabelo M'' @ [233] @ js ''dio Despenteado'')),
      Pool (Settle 0 (js ''Coque Samurai'') (Inr (js ''data:image/png;base64,BB''))),
      Pool (Dequeue 0 (js ''Tran'' @ [231] @ js ''as Nag'' @ [244])),
      Pool (Settle 1 (js ''Cabelo M'' @ [233] @ js ''dio Despenteado'') (Inr (js ''data:image/png;base64,BB''))),
      Pool (Dequeue 1 (js ''Cabelo Longo Ondulado'')),
      Pool (Settle 0 (js ''Tran'' @ [231] @ js ''as Nag'' @ [244]) (Inr (js ''data:image/png;base64,BB''))),
      Pool (Exit 0),
      Pool (Settle 1 (js ''Cabelo Longo Ondulado'') (Inr (js ''data:image/png;base64,BB''))),
      Pool (Exit 1),
      Pool Complete] ?c16"
    using sys_exec.sys_snoc [OF e15 s16] by simp
  from start e16 show ?thesis by simp
qed

text \<open>
  C3, as stated, fails: the cards are shown, with their button for another try, while
  the run goes on. In the run above the first label's item is \<open>Done\<close> after its call, the
  user asks for it again, and when the run settles (\<^verbatim>\<open>appState\<close> is
  \<^verbatim>\<open>results-shown\<close>) that item is \<open>Pending\<close>, neither \<open>Done\<close> nor \<open>Error\<close>.
\<close>

theorem run_settles_counterexample:
  "startSys Masculino
     \<lparr>uploadedImage = Some (js ''data:image/png;base64,AA''), generatedImages = Map.empty,
      isLoading = False, appState = ImageUploaded, selectedGender = None\<rparr> =
     Some \<lparr>app = \<lparr>uploadedImage = Some (js ''data:image/png;base64,AA''),
          generatedImages =
           [js ''Corte Buzz (com Degrad'' @ [234] @ js '')'' \<mapsto> \<lparr>status = Pending, url = None, error = None\<rparr>,
            js ''Undercut Desconectado'' \<mapsto> \<lparr>status = Pending, url = None, error = None\<rparr>,
            js ''Coque Samurai'' \<mapsto> \<lparr>status = Pending, url = None, error = None\<rparr>,
            js ''Cabelo M'' @ [233] @ js ''dio Despenteado'' \<mapsto> \<lparr>status = Pending, url = None, error = None\<rparr>,
            js ''Tran'' @ [231] @ js ''as Nag'' @ [244] \<mapsto> \<lparr>status = Pending, url = None, error = None\<rparr>,
            js ''Cabelo Longo Ondulado'' \<mapsto> \<lparr>status = Pending, url = None, error = None\<rparr>],
          isLoading = True, appState = Generating, selectedGender = Some Masculino\<rparr>,
      hairstyleQueue = [js ''Corte Buzz (com Degrad'' @ [234] @ js '')'', js ''Undercut Desconectado'', js ''Coque Samurai'', js ''Cabelo M'' @ [233] @ js ''dio Despenteado'', js ''Tran'' @ [231] @ js ''as Nag'' @ [244], js ''Cabelo Longo Ondulado''],
      workers = [LoopHead, LoopHead],
      runImage = js ''data:image/png;base64,AA'', runGender = Masculino, awaitingAll = True,
      retries = [], remixes = []\<rparr> \<and>
   sys_exec
     \<lparr>app = \<lparr>uploadedImage = Some (js ''data:image/png;base64,AA''),
          generatedImages =
           [js ''Corte Buzz (com Degrad'' @ [234] @ js '')'' \<mapsto> \<lparr>status = Pending, url = None, error = None\<rparr>,
            js ''Undercut Desconectado'' \<mapsto> \<lparr>status = Pending, url = None, error = None\<rparr>,
            js ''Coque Samurai'' \<mapsto> \<lparr>status = Pending, url = None, error = None\<rparr>,
            js ''Cabelo M'' @ [233] @ js ''dio Despenteado'' \<mapsto> \<lparr>status = Pending, url = None, error = None\<rparr>,
            js ''Tran'' @ [231] @ js ''as Nag'' @ [244] \<mapsto> \<lparr>status = Pending, url = None, error = None\<rparr>,
            js ''Cabelo Longo Ondulado'' \<mapsto> \<lparr>status = Pending, url = None, error = None\<rparr>],
          isLoading = True, appState = Generating, selectedGender = Some Masculino\<rparr>,
      hairstyleQueue = [js ''Corte Buzz (com Degrad'' @ [234] @ js '')'', js ''Undercut Desconectado'', js ''Coque Samurai'', js ''Cabelo M'' @ [233] @ js ''dio Despenteado'', js ''Tran'' @ [231] @ js ''as Nag'' @ [244], js ''Cabelo Longo Ondulado''],
      workers = [LoopHead, LoopHead],
      runImage = js ''data:image/png;base64,AA'', runGender = Masculino, awaitingAll = True,
      retries = [], remixes = []\<rparr>
     [Pool (Dequeue 0 (js ''Corte Buzz (com Degrad'' @ [234] @ js '')'')),
      Pool (Dequeue 1 (js ''Undercut Desconectado'')),
      Pool (Settle 0 (js ''Corte Buzz (com Degrad'' @ [234] @ js '')'') (Inr (js ''data:image/png;base64,BB''))),
      Pool (Dequeue 0 (js ''Coque Samurai'')),
      RetryStart (js ''Corte Buzz (com Degrad'' @ [234] @ js '')''),
      Pool (Settle 1 (js ''Undercut Desconectado'') (Inl (JsError (js ''O modelo de IA n'' @ [227] @ js ''o conseguiu gerar uma imagem. Detalhes: '' @ js ''quota exceeded'')))),
      Pool (Dequeue 1 (js ''Cabelo M'' @ [233] @ js ''dio Despenteado'')),
      Pool (Settle 0 (js ''Coque Samurai'') (Inr (js ''data:image/png;base64,BB''))),
      Pool (Dequeue 0 (js ''Tran'' @ [231] @ js ''as Nag'' @ [244])),
      Pool (Settle 1 (js ''Cabelo M'' @ [233] @ js ''dio Despenteado'') (Inr (js ''data:image/png;base64,BB''))),
      Pool (Dequeue 1 (js ''Cabelo Longo Ondulado'')),
      Pool (Settle 0 (js ''Tran'' @ [231] @ js ''as Nag'' @ [244]) (Inr (js ''data:image/png;base64,BB''))),
      Pool (Exit 0),
      Pool (Settle 1 (js ''Cabelo Longo Ondulado'') (Inr (js ''data:image/png;base64,BB''))),
      Pool (Exit 1),
      Pool Complete]
     \<lparr>app = \<lparr>uploadedImage = Some (js ''data:image/png;base64,AA''),
          generatedImages =
           [js ''Corte Buzz (com Degrad'' @ [234] @ js '')'' \<mapsto> \<lparr>status = Pending, url = None, error = None\<rparr>,
            js ''Undercut Desconectado'' \<mapsto> \<lparr>status = Pending, url = None, error = None\<rparr>,
            js ''Coque Samurai'' \<mapsto> \<lparr>status = Pending, url = None, error = None\<rparr>,
            js ''Cabelo M'' @ [233] @ js ''dio Despenteado'' \<mapsto> \<lparr>status = Pending, url = None, error = None\<rparr>,
            js ''Tran'' @ [231] @ js ''as Nag'' @ [244] \<mapsto> \<lparr>status = Pending, url = None, error = None\<rparr>,
            js ''Cabelo Longo Ondulado'' \<mapsto> \<lparr>status = Pending, url = None, error = None\<rparr>,
            js ''Corte Buzz (com Degrad'' @ [234] @ js '')'' \<mapsto> \<lparr>status = Pending, url = None, error = None\<rparr>,
            js ''Undercut Desconectado'' \<mapsto> \<lparr>status = Error, url = None, error = Some (js ''O modelo de IA n'' @ [227] @ js ''o conseguiu gerar uma imagem. Detalhes: '' @ js ''quota exceeded'')\<rparr>,
            js ''Coque Samurai'' \<mapsto> \<lparr>status = Done, url = Some (js ''data:image/png;base64,BB''), error = None\<rparr>,
            js ''Cabelo M'' @ [233] @ js ''dio Despenteado'' \<mapsto> \<lparr>status = Done, url = Some (js ''data:image/png;base64,BB''), error = None\<rparr>,
            js ''Tran'' @ [231] @ js ''as Nag'' @ [244] \<mapsto> \<lparr>status = Done, url = Some (js ''data:image/png;base64,BB''), error = None\<rparr>,
            js ''Cabelo Longo Ondulado'' \<mapsto> \<lparr>status = Done, url = Some (js ''data:image/png;base64,BB''), error = None\<rparr>],
          isLoading = False, appState = ResultsShown, selectedGender = Some Masculino\<rparr>,
      hairstyleQueue = [],
      workers = [Finished, Finished],
      runImage = js ''data:image/png;base64,AA'', runGender = Masculino, awaitingAll = False,
      retries = [\<lparr>callImage = js ''data:image/png;base64,AA'', callPrompt = stylePrompt Masculino (js ''Corte Buzz (com Degrad'' @ [234] @ js '')''),
                 callHairstyle = js ''Corte Buzz (com Degrad'' @ [234] @ js '')'', callGender = genderStr Masculino\<rparr>], remixes = []\<rparr> \<and>
   \<not> awaitingAll
     \<lparr>app = \<lparr>uploadedImage = Some (js ''data:image/png;base64,AA''),
          generatedImages =
           [js ''Corte Buzz (com Degrad'' @ [234] @ js '')'' \<mapsto> \<lparr>status = Pending, url = None, error = None\<rparr>,
            js ''Undercut Desconectado'' \<mapsto> \<lparr>status = Pending, url = None, error = None\<rparr>,
            js ''Coque Samurai'' \<mapsto> \<lparr>status = Pending, url = None, error = None\<rparr>,
            js ''Cabelo M'' @ [233] @ js ''dio Despenteado'' \<mapsto> \<lparr>status = Pending, url = None, error = None\<rparr>,
            js ''Tran'' @ [231] @ js ''as Nag'' @ [244] \<mapsto> \<lparr>status = Pending, url = None, error = None\<rparr>,
            js ''Cabelo Longo Ondulado'' \<mapsto> \<lparr>status = Pending, url = None, error = None\<rparr>,
            js ''Corte Buzz (com Degrad'' @ [234] @ js '')'' \<mapsto> \<lparr>status = Pending, url = None, error = None\<rparr>,
            js ''Undercut Desconectado'' \<mapsto> \<lparr>status = Error, url = None, error = Some (js ''O modelo de IA n'' @ [227] @ js ''o conseguiu gerar uma imagem. Detalhes: '' @ js ''quota exceeded'')\<rparr>,
            js ''Coque Samurai'' \<mapsto> \<lparr>status = Done, url = Some (js ''data:image/png;base64,BB''), error = None\<rparr>,
            js ''Cabelo M'' @ [233] @ js ''dio Despenteado'' \<mapsto> \<lparr>status = Done, url = Some (js ''data:image/png;base64,BB''), error = None\<rparr>,
            js ''Tran'' @ [231] @ js ''as Nag'' @ [244] \<mapsto> \<lparr>status = Done, url = Some (js ''data:image/png;base64,BB''), error = None\<rparr>,
            js ''Cabelo Longo Ondulado'' \<mapsto> \<lparr>status = Done, url = Some (js ''data:image/png;base64,BB''), error = None\<rparr>],
          isLoading = False, appState = ResultsShown, selectedGender = Some Masculino\<rparr>,
      hairstyleQueue = [],
      workers = [Finished, Finished],
      runImage = js ''data:image/png;base64,AA'', runGender = Masculino, awaitingAll = False,
      retries = [\<lparr>callImage = js ''data:image/png;base64,AA'', callPrompt = stylePrompt Masculino (js ''Corte Buzz (com Degrad'' @ [234] @ js '')''),
                 callHairstyle = js ''Corte Buzz (com Degrad'' @ [234] @ js '')'', callGender = genderStr Masculino\<rparr>], remixes = []\<rparr> \<and>
   appState (app
     \<lparr>app = \<lparr>uploadedImage = Some (js ''data:image/png;base64,AA''),
          generatedImages =
           [js ''Corte Buzz (com Degrad'' @ [234] @ js '')'' \<mapsto> \<lparr>status = Pending, url = None, error = None\<rparr>,
            js ''Undercut Desconectado'' \<mapsto> \<lparr>status = Pending, url = None, error = None\<rparr>,
            js ''Coque Samurai'' \<mapsto> \<lparr>status = Pending, url = None, error = None\<rparr>,
            js ''Cabelo M'' @ [233] @ js ''dio Despenteado'' \<mapsto> \<lparr>status = Pending, url = None, error = None\<rparr>,
            js ''Tran'' @ [231] @ js ''as Nag'' @ [244] \<mapsto> \<lparr>status = Pending, url = None, error = None\<rparr>,
            js ''Cabelo Longo Ondulado'' \<mapsto> \<lparr>status = Pending, url = None, error = None\<rparr>,
            js ''Corte Buzz (com Degrad'' @ [234] @ js '')'' \<mapsto> \<lparr>status = Pending, url = None, error = None\<rparr>,
            js ''Undercut Desconectado'' \<mapsto> \<lparr>status = Error, url = None, error = Some (js ''O modelo de IA n'' @ [227] @ js ''o conseguiu gerar uma imagem. Detalhes: '' @ js ''quota exceeded'')\<rparr>,
            js ''Coque Samurai'' \<mapsto> \<lparr>status = Done, url = Some (js ''data:image/png;base64,BB''), error = None\<rparr>,
            js ''Cabelo M'' @ [233] @ js ''dio Despenteado'' \<mapsto> \<lparr>status = Done, url = Some (js ''data:image/png;base64,BB''), error = None\<rparr>,
            js ''Tran'' @ [231] @ js ''as Nag'' @ [244] \<mapsto> \<lparr>status = Done, url = Some (js ''data:image/png;base64,BB''), error = None\<rparr>,
            js ''Cabelo Longo Ondulado'' \<mapsto> \<lparr>status = Done, url = Some (js ''data:image/png;base64,BB''), error = None\<rparr>],
          isLoading = False, appState = ResultsShown, selectedGender = Some Masculino\<rparr>,
      hairstyleQueue = [],
      workers = [Finished, Finished],
      runImage = js ''data:image/png;base64,AA'', runGender = Masculino, awaitingAll = False,
      retries = [\<lparr>callImage = js ''data:image/png;base64,AA'', callPrompt = stylePrompt Masculino (js ''Corte Buzz (com Degrad'' @ [234] @ js '')''),
                 callHairstyle = js ''Corte Buzz (com Degrad'' @ [234] @ js '')'', callGender = genderStr Masculino\<rparr>], remixes = []\<rparr>) = ResultsShown \<and>
   generatedImages (app
     \<lparr>app = \<lparr>uploadedImage = Some (js ''data:image/png;base64,AA''),
          generatedImages =
           [js ''Corte Buzz (com Degrad'' @ [234] @ js '')'' \<mapsto> \<lparr>status = Pending, url = None, error = None\<rparr>,
            js ''Undercut Desconectado'' \<mapsto> \<lparr>status = Pending, url = None, error = None\<rparr>,
            js ''Coque Samurai'' \<mapsto> \<lparr>status = Pending, url = None, error = None\<rparr>,
            js ''Cabelo M'' @ [233] @ js ''dio Despenteado'' \<mapsto> \<lparr>status = Pending, url = None, error = None\<rparr>,
            js ''Tran'' @ [231] @ js ''as Nag'' @ [244] \<mapsto> \<lparr>status = Pending, url = None, error = None\<rparr>,
            js ''Cabelo Longo Ondulado'' \<mapsto> \<lparr>status = Pending, url = None, error = None\<rparr>,
            js ''Corte Buzz (com Degrad'' @ [234] @ js '')'' \<mapsto> \<lparr>status = Pending, url = None, error = None\<rparr>,
            js ''Undercut Desconectado'' \<mapsto> \<lparr>status = Error, url = None, error = Some (js ''O modelo de IA n'' @ [227] @ js ''o conseguiu gerar uma imagem. Detalhes: '' @ js ''quota exceeded'')\<rparr>,
            js ''Coque Samurai'' \<mapsto> \<lparr>status = Done, url = Some (js ''data:image/png;base64,BB''), error = None\<rparr>,
            js ''Cabelo M'' @ [233] @ js ''dio Despenteado'' \<mapsto> \<lparr>status = Done, url = Some (js ''data:image/png;base64,BB''), error = None\<rparr>,
            js ''Tran'' @ [231] @ js ''as Nag'' @ [244] \<mapsto> \<lparr>status = Done, url = Some (js ''data:image/png;base64,BB''), error = None\<rparr>,
            js ''Cabelo Longo Ondulado'' \<mapsto> \<lparr>status = Done, url = Some (js ''data:image/png;base64,BB''), error = None\<rparr>],
          isLoading = False, appState = ResultsShown, selectedGender = Some Masculino\<rparr>,
      hairstyleQueue = [],
      workers = [Finished, Finished],
      runImage = js ''data:image/png;base64,AA'', runGender = Masculino, awaitingAll = False,
      retries = [\<lparr>callImage = js ''data:image/png;base64,AA'', callPrompt = stylePrompt Masculino (js ''Corte Buzz (com Degrad'' @ [234] @ js '')''),
                 callHairstyle = js ''Corte Buzz (com Degrad'' @ [234] @ js '')'', callGender = genderStr Masculino\<rparr>], remixes = []\<rparr>)
     (js ''Corte Buzz (com Degrad'' @ [234] @ js '')'') = Some \<lparr>status = Pending, url = None, error = None\<rparr>"
  using retry_during_run by (simp add: js_def)

text \<open>
  C3, amended: in a run that \<^verbatim>\<open>handleGenerate\<close> started, after any actions of the pool
  and of the handlers \<^verbatim>\<open>handleRegenerateDecade\<close> and \<^verbatim>\<open>handleRemixDecade\<close>: the number of
  the pool's actions is bounded; while the run has not settled some step of the pool is
  possible; and the run can be continued until it settles. When it has settled, the labels
  dequeued are the labels of the chosen gender, in order and each once; one call of the
  pool was settled for each label; and the item of every label is \<open>Done\<close> or \<open>Error\<close>,
  unless a call that the user started for that label is still in flight. A call of the
  pool that settles with a failure sets its label's item to \<open>Error\<close> with the message, puts
  its worker back at the head of its loop, and leaves the other workers, the queue and
  the calls of the other handlers as they were.
\<close>

theorem run_settles_all_labels:
  assumes start: "startSys gender a = Some s0"
    and run: "sys_exec s0 acts s"
  shows "length (poolActs acts) + poolWeight s \<le> poolWeight s0 \<and>
    (awaitingAll s \<longrightarrow> (\<exists>act s'. sys_step s (Pool act) s')) \<and>
    (\<exists>acts' s'. sys_exec s0 (acts @ acts') s' \<and> \<not> awaitingAll s') \<and>
    (\<not> awaitingAll s \<longrightarrow>
       dequeued (poolActs acts) = hairstylesOf gender \<and> distinct (hairstylesOf gender) \<and>
       mset (settledLabels (poolActs acts)) = mset (hairstylesOf gender) \<and>
       (\<forall>h \<in> set (hairstylesOf gender). \<exists>item. generatedImages (app s) h = Some item \<and>
            (status item = Done \<or> status item = Error \<or>
             (\<exists>call \<in> set (retries s). callHairstyle call = h) \<or>
             (\<exists>call \<in> set (remixes s). remixHairstyle call = h)))) \<and>
    (\<forall>i h err s'. sys_step s (Pool (Settle i h (Inl err))) s' \<longrightarrow>
       generatedImages (app s') =
         (generatedImages (app s))(h \<mapsto> \<lparr>status = Error, url = None, error = Some (caughtMessage err)\<rparr>) \<and>
       workers s' = (workers s)[i := LoopHead] \<and> hairstyleQueue s' = hairstyleQueue s \<and>
       retries s' = retries s \<and> remixes s' = remixes s) \<and>
    (\<forall>m. caughtMessage (JsError m) = m) \<and>
    hairstylesOf Masculino =
      [js ''Corte Buzz (com Degrad'' @ [234] @ js '')'', js ''Undercut Desconectado'',
       js ''Coque Samurai'', js ''Cabelo M'' @ [233] @ js ''dio Despenteado'',
       js ''Tran'' @ [231] @ js ''as Nag'' @ [244], js ''Cabelo Longo Ondulado''] \<and>
    hairstylesOf Feminino =
      [js ''Pixie Assim'' @ [233] @ js ''trico'', js ''Bob Franc'' @ [234] @ js ''s (com Franja)'',
       js ''Ondas de Sereia (Longo)'', js ''Coque Alto (Despenteado)'',
       js ''Tran'' @ [231] @ js ''as Boxeadora'', js ''Afro Volumoso'']"
proof -
  let ?hs = "hairstylesOf gender"
  have ne: "[] \<notin> set ?hs" by (rule hairstyles_facts)
  have inv: "poolInvariant ?hs (poolActs acts) (userLabels s) s"
    using start run by (rule sysInvariant_reachable)
  have 1: "length (poolActs acts) + poolWeight s \<le> poolWeight s0"
    using run by (rule sys_exec_weight)
  have 2: "awaitingAll s \<longrightarrow> (\<exists>act s'. sys_step s (Pool act) s')"
    using pool_progress [OF inv ne] sys_step.pool by blast
  have 3: "\<exists>acts' s'. sys_exec s0 (acts @ acts') s' \<and> \<not> awaitingAll s'"
    using sys_settles [OF ne inv run] .
  have 4: "\<not> awaitingAll s \<longrightarrow>
       dequeued (poolActs acts) = ?hs \<and> distinct ?hs \<and>
       mset (settledLabels (poolActs acts)) = mset ?hs \<and>
       (\<forall>h \<in> set ?hs. \<exists>item. generatedImages (app s) h = Some item \<and>
            (status item = Done \<or> status item = Error \<or>
             (\<exists>call \<in> set (retries s). callHairstyle call = h) \<or>
             (\<exists>call \<in> set (remixes s). remixHairstyle call = h)))"
  proof
    assume st: "\<not> awaitingAll s"
    from poolInvariant_settled [OF inv st]
    have a: "dequeued (poolActs acts) = ?hs" "mset (settledLabels (poolActs acts)) = mset ?hs"
      and b: "\<forall>h \<in> set ?hs. \<exists>item. generatedImages (app s) h = Some item \<and>
              (status item = Done \<or> status item = Error \<or> h \<in> userLabels s)"
      by blast+
    have "\<forall>h \<in> set ?hs. \<exists>item. generatedImages (app s) h = Some item \<and>
            (status item = Done \<or> status item = Error \<or>
             (\<exists>call \<in> set (retries s). callHairstyle call = h) \<or>
             (\<exists>call \<in> set (remixes s). remixHairstyle call = h))"
    proof
      fix h assume "h \<in> set ?hs"
      with b obtain item where i: "generatedImages (app s) h = Some item"
        "status item = Done \<or> status item = Error \<or> h \<in> userLabels s" by blast
      have "h \<in> userLabels s \<Longrightarrow> (\<exists>call \<in> set (retries s). callHairstyle call = h) \<or>
             (\<exists>call \<in> set (remixes s). remixHairstyle call = h)"
        by (auto simp add: userLabels_def)
      with i show "\<exists>item. generatedImages (app s) h = Some item \<and>
            (status item = Done \<or> status item = Error \<or>
             (\<exists>call \<in> set (retries s). callHairstyle call = h) \<or>
             (\<exists>call \<in> set (remixes s). remixHairstyle call = h))" by blast
    qed
    with a hairstyles_facts(2) [of gender] show
      "dequeued (poolActs acts) = ?hs \<and> distinct ?hs \<and>
       mset (settledLabels (poolActs acts)) = mset ?hs \<and>
       (\<forall>h \<in> set ?hs. \<exists>item. generatedImages (app s) h = Some item \<and>
            (status item = Done \<or> status item = Error \<or>
             (\<exists>call \<in> set (retries s). callHairstyle call = h) \<or>
             (\<exists>call \<in> set (remixes s). remixHairstyle call = h)))" by blast
  qed
  have 5: "\<forall>i h err s'. sys_step s (Pool (Settle i h (Inl err))) s' \<longrightarrow>
       generatedImages (app s') =
         (generatedImages (app s))(h \<mapsto> \<lparr>status = Error, url = None, error = Some (caughtMessage err)\<rparr>) \<and>
       workers s' = (workers s)[i := LoopHead] \<and> hairstyleQueue s' = hairstyleQueue s \<and>
       retries s' = retries s \<and> remixes s' = remixes s"
  proof (intro allI impI)
    fix i h err s'
    assume "sys_step s (Pool (Settle i h (Inl err))) s'"
    from sys_step_Settle [OF this]
    show "generatedImages (app s') =
         (generatedImages (app s))(h \<mapsto> \<lparr>status = Error, url = None, error = Some (caughtMessage err)\<rparr>) \<and>
       workers s' = (workers s)[i := LoopHead] \<and> hairstyleQueue s' = hairstyleQueue s \<and>
       retries s' = retries s \<and> remixes s' = remixes s"
      by (simp add: processHairstyle_settle_def errorItem_def)
  qed
  have 6: "\<forall>m. caughtMessage (JsError m) = m" by (simp add: caughtMessage_def)
  have 7: "hairstylesOf Masculino =
      [js ''Corte Buzz (com Degrad'' @ [234] @ js '')'', js ''Undercut Desconectado'',
       js ''Coque Samurai'', js ''Cabelo M'' @ [233] @ js ''dio Despenteado'',
       js ''Tran'' @ [231] @ js ''as Nag'' @ [244], js ''Cabelo Longo Ondulado'']"
    by (simp add: hairstylesOf_def MALE_HAIRSTYLES_def)
  have 8: "hairstylesOf Feminino =
      [js ''Pixie Assim'' @ [233] @ js ''trico'', js ''Bob Franc'' @ [234] @ js ''s (com Franja)'',
       js ''Ondas de Sereia (Longo)'', js ''Coque Alto (Despenteado)'',
       js ''Tran'' @ [231] @ js ''as Boxeadora'', js ''Afro Volumoso'']"
    by (simp add: hairstylesOf_def FEMALE_HAIRSTYLES_def)
  from 1 2 3 4 5 6 7 8 show ?thesis by blast
qed

text \<open>The run above: all six labels were dequeued, in order, and settled once each, and
  the first label is the one a call of \<^verbatim>\<open>handleRegenerateDecade\<close> is in flight for.\<close>

theorem run_settles_all_labels_witness:
  "startSys Masculino
     \<lparr>uploadedImage = Some (js ''data:image/png;base64,AA''), generatedImages = Map.empty,
      isLoading = False, appState = ImageUploaded, selectedGender = None\<rparr> =
     Some \<lparr>app = \<lparr>uploadedImage = Some (js ''data:image/png;base64,AA''),
          generatedImages =
           [js ''Corte Buzz (com Degrad'' @ [234] @ js '')'' \<mapsto> \<lparr>status = Pending, url = None, error = None\<rparr>,
            js ''Undercut Desconectado'' \<mapsto> \<lparr>status = Pending, url = None, error = None\<rparr>,
            js ''Coque Samurai'' \<mapsto> \<lparr>status = Pending, url = None, error = None\<rparr>,
            js ''Cabelo M'' @ [233] @ js ''dio Despenteado'' \<mapsto> \<lparr>status = Pending, url = None, error = None\<rparr>,
            js ''Tran'' @ [231] @ js ''as Nag'' @ [244] \<mapsto> \<lparr>status = Pending, url = None, error = None\<rparr>,
            js ''Cabelo Longo Ondulado'' \<mapsto> \<lparr>status = Pending, url = None, error = None\<rparr>],
          isLoading = True, appState = Generating, selectedGender = Some Masculino\<rparr>,
      hairstyleQueue = [js ''Corte Buzz (com Degrad'' @ [234] @ js '')'', js ''Undercut Desconectado'', js ''Coque Samurai'', js ''Cabelo M'' @ [233] @ js ''dio Despenteado'', js ''Tran'' @ [231] @ js ''as Nag'' @ [244], js ''Cabelo Longo Ondulado''],
      workers = [LoopHead, LoopHead],
      runImage = js ''data:image/png;base64,AA'', runGender = Masculino, awaitingAll = True,
      retries = [], remixes = []\<rparr> \<and>
   sys_exec
     \<lparr>app = \<lparr>uploadedImage = Some (js ''data:image/png;base64,AA''),
          generatedImages =
           [js ''Corte Buzz (com Degrad'' @ [234] @ js '')'' \<mapsto> \<lparr>status = Pending, url = None, error = None\<rparr>,
            js ''Undercut Desconectado'' \<mapsto> \<lparr>status = Pending, url = None, error = None\<rparr>,
            js ''Coque Samurai'' \<mapsto> \<lparr>status = Pending, url = None, error = None\<rparr>,
            js ''Cabelo M'' @ [233] @ js ''dio Despenteado'' \<mapsto> \<lparr>status = Pending, url = None, error = None\<rparr>,
            js ''Tran'' @ [231] @ js ''as Nag'' @ [244] \<mapsto> \<lparr>status = Pending, url = None, error = None\<rparr>,
            js ''Cabelo Longo Ondulado'' \<mapsto> \<lparr>status = Pending, url = None, error = None\<rparr>],
          isLoading = True, appState = Generating, selectedGender = Some Masculino\<rparr>,
      hairstyleQueue = [js ''Corte Buzz (com Degrad'' @ [234] @ js '')'', js ''Undercut Desconectado'', js ''Coque Samurai'', js ''Cabelo M'' @ [233] @ js ''dio Despenteado'', js ''Tran'' @ [231] @ js ''as Nag'' @ [244], js ''Cabelo Longo Ondulado''],
      workers = [LoopHead, LoopHead],
      runImage = js ''data:image/png;base64,AA'', runGender = Masculino, awaitingAll = True,
      retries = [], remixes = []\<rparr>
     [Pool (Dequeue 0 (js ''Corte Buzz (com Degrad'' @ [234] @ js '')'')),
      Pool (Dequeue 1 (js ''Undercut Desconectado'')),
      Pool (Settle 0 (js ''Corte Buzz (com Degrad'' @ [234] @ js '')'') (Inr (js ''data:image/png;base64,BB''))),
      Pool (Dequeue 0 (js ''Coque Samurai'')),
      RetryStart (js ''Corte Buzz (com Degrad'' @ [234] @ js '')''),
      Pool (Settle 1 (js ''Undercut Desconectado'') (Inl (JsError (js ''O modelo de IA n'' @ [227] @ js ''o conseguiu gerar uma imagem. Detalhes: '' @ js ''quota exceeded'')))),
      Pool (Dequeue 1 (js ''Cabelo M'' @ [233] @ js ''dio Despenteado'')),
      Pool (Settle 0 (js ''Coque Samurai'') (Inr (js ''data:image/png;base64,BB''))),
      Pool (Dequeue 0 (js ''Tran'' @ [231] @ js ''as Nag'' @ [244])),
      Pool (Settle 1 (js ''Cabelo M'' @ [233] @ js ''dio Despenteado'') (Inr (js ''data:image/png;base64,BB''))),
      Pool (Dequeue 1 (js ''Cabelo Longo Ondulado'')),
      Pool (Settle 0 (js ''Tran'' @ [231] @ js ''as Nag'' @ [244]) (Inr (js ''data:image/png;base64,BB''))),
      Pool (Exit 0),
      Pool (Settle 1 (js ''Cabelo Longo Ondulado'') (Inr (js ''data:image/png;base64,BB''))),
      Pool (Exit 1),
      Pool Complete]
     \<lparr>app = \<lparr>uploadedImage = Some (js ''data:image/png;base64,AA''),
          generatedImages =
           [js ''Corte Buzz (com Degrad'' @ [234] @ js '')'' \<mapsto> \<lparr>status = Pending, url = None, error = None\<rparr>,
            js ''Undercut Desconectado'' \<mapsto> \<lparr>status = Pending, url = None, error = None\<rparr>,
            js ''Coque Samurai'' \<mapsto> \<lparr>status = Pending, url = None, error = None\<rparr>,
            js ''Cabelo M'' @ [233] @ js ''dio Despenteado'' \<mapsto> \<lparr>status = Pending, url = None, error = None\<rparr>,
            js ''Tran'' @ [231] @ js ''as Nag'' @ [244] \<mapsto> \<lparr>status = Pending, url = None, error = None\<rparr>,
            js ''Cabelo Longo Ondulado'' \<mapsto> \<lparr>status = Pending, url = None, error = None\<rparr>,
            js ''Corte Buzz (com Degrad'' @ [234] @ js '')'' \<mapsto> \<lparr>status = Pending, url = None, error = None\<rparr>,
            js ''Undercut Desconectado'' \<mapsto> \<lparr>status = Error, url = None, error = Some (js ''O modelo de IA n'' @ [227] @ js ''o conseguiu gerar uma imagem. Detalhes: '' @ js ''quota exceeded'')\<rparr>,
            js ''Coque Samurai'' \<mapsto> \<lparr>status = Done, url = Some (js ''data:image/png;base64,BB''), error = None\<rparr>,
            js ''Cabelo M'' @ [233] @ js ''dio Despenteado'' \<mapsto> \<lparr>status = Done, url = Some (js ''data:image/png;base64,BB''), error = None\<rparr>,
            js ''Tran'' @ [231] @ js ''as Nag'' @ [244] \<mapsto> \<lparr>status = Done, url = Some (js ''data:image/png;base64,BB''), error = None\<rparr>,
            js ''Cabelo Longo Ondulado'' \<mapsto> \<lparr>status = Done, url = Some (js ''data:image/png;base64,BB''), error = None\<rparr>],
          isLoading = False, appState = ResultsShown, selectedGender = Some Masculino\<rparr>,
      hairstyleQueue = [],
      workers = [Finished, Finished],
      runImage = js ''data:image/png;base64,AA'', runGender = Masculino, awaitingAll = False,
      retries = [\<lparr>callImage = js ''data:image/png;base64,AA'', callPrompt = stylePrompt Masculino (js ''Corte Buzz (com Degrad'' @ [234] @ js '')''),
                 callHairstyle = js ''Corte Buzz (com Degrad'' @ [234] @ js '')'', callGender = genderStr Masculino\<rparr>], remixes = []\<rparr> \<and>
   \<not> awaitingAll
     \<lparr>app = \<lparr>uploadedImage = Some (js ''data:image/png;base64,AA''),
          generatedImages =
           [js ''Corte Buzz (com Degrad'' @ [234] @ js '')'' \<mapsto> \<lparr>status = Pending, url = None, error = None\<rparr>,
            js ''Undercut Desconectado'' \<mapsto> \<lparr>status = Pending, url = None, error = None\<rparr>,
            js ''Coque Samurai'' \<mapsto> \<lparr>status = Pending, url = None, error = None\<rparr>,
            js ''Cabelo M'' @ [233] @ js ''dio Despenteado'' \<mapsto> \<lparr>status = Pending, url = None, error = None\<rparr>,
            js ''Tran'' @ [231] @ js ''as Nag'' @ [244] \<mapsto> \<lparr>status = Pending, url = None, error = None\<rparr>,
            js ''Cabelo Longo Ondulado'' \<mapsto> \<lparr>status = Pending, url = None, error = None\<rparr>,
            js ''Corte Buzz (com Degrad'' @ [234] @ js '')'' \<mapsto> \<lparr>status = Pending, url = None, error = None\<rparr>,
            js ''Undercut Desconectado'' \<mapsto> \<lparr>status = Error, url = None, error = Some (js ''O modelo de IA n'' @ [227] @ js ''o conseguiu gerar uma imagem. Detalhes: '' @ js ''quota exceeded'')\<rparr>,
            js ''Coque Samurai'' \<mapsto> \<lparr>status = Done, url = Some (js ''data:image/png;base64,BB''), error = None\<rparr>,
            js ''Cabelo M'' @ [233] @ js ''dio Despenteado'' \<mapsto> \<lparr>status = Done, url = Some (js ''data:image/png;base64,BB''), error = None\<rparr>,
            js ''Tran'' @ [231] @ js ''as Nag'' @ [244] \<mapsto> \<lparr>status = Done, url = Some (js ''data:image/png;base64,BB''), error = None\<rparr>,
            js ''Cabelo Longo Ondulado'' \<mapsto> \<lparr>status = Done, url = Some (js ''data:image/png;base64,BB''), error = None\<rparr>],
          isLoading = False, appState = ResultsShown, selectedGender = Some Masculino\<rparr>,
      hairstyleQueue = [],
      workers = [Finished, Finished],
      runImage = js ''data:image/png;base64,AA'', runGender = Masculino, awaitingAll = False,
      retries = [\<lparr>callImage = js ''data:image/png;base64,AA'', callPrompt = stylePrompt Masculino (js ''Corte Buzz (com Degrad'' @ [234] @ js '')''),
                 callHairstyle = js ''Corte Buzz (com Degrad'' @ [234] @ js '')'', callGender = genderStr Masculino\<rparr>], remixes = []\<rparr> \<and>
   dequeued (poolActs
     [Pool (Dequeue 0 (js ''Corte Buzz (com Degrad'' @ [234] @ js '')'')),
      Pool (Dequeue 1 (js ''Undercut Desconectado'')),
      Pool (Settle 0 (js ''Corte Buzz (com Degrad'' @ [234] @ js '')'') (Inr (js ''data:image/png;base64,BB''))),
      Pool (Dequeue 0 (js ''Coque Samurai'')),
      RetryStart (js ''Corte Buzz (com Degrad'' @ [234] @ js '')''),
      Pool (Settle 1 (js ''Undercut Desconectado'') (Inl (JsError (js ''O modelo de IA n'' @ [227] @ js ''o conseguiu gerar uma imagem. Detalhes: '' @ js ''quota exceeded'')))),
      Pool (Dequeue 1 (js ''Cabelo M'' @ [233] @ js ''dio Despenteado'')),
      Pool (Settle 0 (js ''Coque Samurai'') (Inr (js ''data:image/png;base64,BB''))),
      Pool (Dequeue 0 (js ''Tran'' @ [231] @ js ''as Nag'' @ [244])),
      Pool (Settle 1 (js ''Cabelo M'' @ [233] @ js ''dio Despenteado'') (Inr (js ''data:image/png;base64,BB''))),
      Pool (Dequeue 1 (js ''Cabelo Longo Ondulado'')),
      Pool (Settle 0 (js ''Tran'' @ [231] @ js ''as Nag'' @ [244]) (Inr (js ''data:image/png;base64,BB''))),
      Pool (Exit 0),
      Pool (Settle 1 (js ''Cabelo Longo Ondulado'') (Inr (js ''data:image/png;base64,BB''))),
      Pool (Exit 1),
      Pool Complete]) =
     [js ''Corte Buzz (com Degrad'' @ [234] @ js '')'',
      js ''Undercut Desconectado'',
      js ''Coque Samurai'',
      js ''Cabelo M'' @ [233] @ js ''dio Despenteado'',
      js ''Tran'' @ [231] @ js ''as Nag'' @ [244],
      js ''Cabelo Longo Ondulado''] \<and>
   mset (settledLabels (poolActs
     [Pool (Dequeue 0 (js ''Corte Buzz (com Degrad'' @ [234] @ js '')'')),
      Pool (Dequeue 1 (js ''Undercut Desconectado'')),
      Pool (Settle 0 (js ''Corte Buzz (com Degrad'' @ [234] @ js '')'') (Inr (js ''data:image/png;base64,BB''))),
      Pool (Dequeue 0 (js ''Coque Samurai'')),
      RetryStart (js ''Corte Buzz (com Degrad'' @ [234] @ js '')''),
      Pool (Settle 1 (js ''Undercut Desconectado'') (Inl (JsError (js ''O modelo de IA n'' @ [227] @ js ''o conseguiu gerar uma imagem. Detalhes: '' @ js ''quota exceeded'')))),
      Pool (Dequeue 1 (js ''Cabelo M'' @ [233] @ js ''dio Despenteado'')),
      Pool (Settle 0 (js ''Coque Samurai'') (Inr (js ''data:image/png;base64,BB''))),
      Pool (Dequeue 0 (js ''Tran'' @ [231] @ js ''as Nag'' @ [244])),
      Pool (Settle 1 (js ''Cabelo M'' @ [233] @ js ''dio Despenteado'') (Inr (js ''data:image/png;base64,BB''))),
      Pool (Dequeue 1 (js ''Cabelo Longo Ondulado'')),
      Pool (Settle 0 (js ''Tran'' @ [231] @ js ''as Nag'' @ [244]) (Inr (js ''data:image/png;base64,BB''))),
      Pool (Exit 0),
      Pool (Settle 1 (js ''Cabelo Longo Ondulado'') (Inr (js ''data:image/png;base64,BB''))),
      Pool (Exit 1),
      Pool Complete])) =
     mset [js ''Corte Buzz (com Degrad'' @ [234] @ js '')'',
      js ''Undercut Desconectado'',
      js ''Coque Samurai'',
      js ''Cabelo M'' @ [233] @ js ''dio Despenteado'',
      js ''Tran'' @ [231] @ js ''as Nag'' @ [244],
      js ''Cabelo Longo Ondulado''] \<and>
   (\<exists>call \<in> set (retries
     \<lparr>app = \<lparr>uploadedImage = Some (js ''data:image/png;base64,AA''),
          generatedImages =
           [js ''Corte Buzz (com Degrad'' @ [234] @ js '')'' \<mapsto> \<lparr>status = Pending, url = None, error = None\<rparr>,
            js ''Undercut Desconectado'' \<mapsto> \<lparr>status = Pending, url = None, error = None\<rparr>,
            js ''Coque Samurai'' \<mapsto> \<lparr>status = Pending, url = None, error = None\<rparr>,
            js ''Cabelo M'' @ [233] @ js ''dio Despenteado'' \<mapsto> \<lparr>status = Pending, url = None, error = None\<rparr>,
            js ''Tran'' @ [231] @ js ''as Nag'' @ [244] \<mapsto> \<lparr>status = Pending, url = None, error = None\<rparr>,
            js ''Cabelo Longo Ondulado'' \<mapsto> \<lparr>status = Pending, url = None, error = None\<rparr>,
            js ''Corte Buzz (com Degrad'' @ [234] @ js '')'' \<mapsto> \<lparr>status = Pending, url = None, error = None\<rparr>,
            js ''Undercut Desconectado'' \<mapsto> \<lparr>status = Error, url = None, error = Some (js ''O modelo de IA n'' @ [227] @ js ''o conseguiu gerar uma imagem. Detalhes: '' @ js ''quota exceeded'')\<rparr>,
            js ''Coque Samurai'' \<mapsto> \<lparr>status = Done, url = Some (js ''data:image/png;base64,BB''), error = None\<rparr>,
            js ''Cabelo M'' @ [233] @ js ''dio Despenteado'' \<mapsto> \<lparr>status = Done, url = Some (js ''data:image/png;base64,BB''), error = None\<rparr>,
            js ''Tran'' @ [231] @ js ''as Nag'' @ [244] \<mapsto> \<lparr>status = Done, url = Some (js ''data:image/png;base64,BB''), error = None\<rparr>,
            js ''Cabelo Longo Ondulado'' \<mapsto> \<lparr>status = Done, url = Some (js ''data:image/png;base64,BB''), error = None\<rparr>],
          isLoading = False, appState = ResultsShown, selectedGender = Some Masculino\<rparr>,
      hairstyleQueue = [],
      workers = [Finished, Finished],
      runImage = js ''data:image/png;base64,AA'', runGender = Masculino, awaitingAll = False,
      retries = [\<lparr>callImage = js ''data:image/png;base64,AA'', callPrompt = stylePrompt Masculino (js ''Corte Buzz (com Degrad'' @ [234] @ js '')''),
                 callHairstyle = js ''Corte Buzz (com Degrad'' @ [234] @ js '')'', callGender = genderStr Masculino\<rparr>], remixes = []\<rparr>). callHairstyle call = js ''Corte Buzz (com Degrad'' @ [234] @ js '')'')"
proof -
  let ?s0 = "\<lparr>app = \<lparr>uploadedImage = Some (js ''data:image/png;base64,AA''),
          generatedImages =
           [js ''Corte Buzz (com Degrad'' @ [234] @ js '')'' \<mapsto> \<lparr>status = Pending, url = None, error = None\<rparr>,
            js ''Undercut Desconectado'' \<mapsto> \<lparr>status = Pending, url = None, error = None\<rparr>,
            js ''Coque Samurai'' \<mapsto> \<lparr>status = Pending, url = None, error = None\<rparr>,
            js ''Cabelo M'' @ [233] @ js ''dio Despenteado'' \<mapsto> \<lparr>status = Pending, url = None, error = None\<rparr>,
            js ''Tran'' @ [231] @ js ''as Nag'' @ [244] \<mapsto> \<lparr>status = Pending, url = None, error = None\<rparr>,
            js ''Cabelo Longo Ondulado'' \<mapsto> \<lparr>status = Pending, url = None, error = None\<rparr>],
          isLoading = True, appState = Generating, selectedGender = Some Masculino\<rparr>,
      hairstyleQueue = [js ''Corte Buzz (com Degrad'' @ [234] @ js '')'', js ''Undercut Desconectado'', js ''Coque Samurai'', js ''Cabelo M'' @ [233] @ js ''dio Despenteado'', js ''Tran'' @ [231] @ js ''as Nag'' @ [244], js ''Cabelo Longo Ondulado''],
      workers = [LoopHead, LoopHead],
      runImage = js ''data:image/png;base64,AA'', runGender = Masculino, awaitingAll = True,
      retries = [], remixes = []\<rparr>"
  let ?acts = "[Pool (Dequeue 0 (js ''Corte Buzz (com Degrad'' @ [234] @ js '')'')),
      Pool (Dequeue 1 (js ''Undercut Desconectado'')),
      Pool (Settle 0 (js ''Corte Buzz (com Degrad'' @ [234] @ js '')'') (Inr (js ''data:image/png;base64,BB''))),
      Pool (Dequeue 0 (js ''Coque Samurai'')),
      RetryStart (js ''Corte Buzz (com Degrad'' @ [234] @ js '')''),
      Pool (Settle 1 (js ''Undercut Desconectado'') (Inl (JsError (js ''O modelo de IA n'' @ [227] @ js ''o conseguiu gerar uma imagem. Detalhes: '' @ js ''quota exceeded'')))),
      Pool (Dequeue 1 (js ''Cabelo M'' @ [233] @ js ''dio Despenteado'')),
      Pool (Settle 0 (js ''Coque Samurai'') (Inr (js ''data:image/png;base64,BB''))),
      Pool (Dequeue 0 (js ''Tran'' @ [231] @ js ''as Nag'' @ [244])),
      Pool (Settle 1 (js ''Cabelo M'' @ [233] @ js ''dio Despenteado'') (Inr (js ''data:image/png;base64,BB''))),
      Pool (Dequeue 1 (js ''Cabelo Longo Ondulado'')),
      Pool (Settle 0 (js ''Tran'' @ [231] @ js ''as Nag'' @ [244]) (Inr (js ''data:image/png;base64,BB''))),
      Pool (Exit 0),
      Pool (Settle 1 (js ''Cabelo Longo Ondulado'') (Inr (js ''data:image/png;base64,BB''))),
      Pool (Exit 1),
      Pool Complete]"
  let ?sF = "\<lparr>app = \<lparr>uploadedImage = Some (js ''data:image/png;base64,AA''),
          generatedImages =
           [js ''Corte Buzz (com Degrad'' @ [234] @ js '')'' \<mapsto> \<lparr>status = Pending, url = None, error = None\<rparr>,
            js ''Undercut Desconectado'' \<mapsto> \<lparr>status = Pending, url = None, error = None\<rparr>,
            js ''Coque Samurai'' \<mapsto> \<lparr>status = Pending, url = None, error = None\<rparr>,
            js ''Cabelo M'' @ [233] @ js ''dio Despenteado'' \<mapsto> \<lparr>status = Pending, url = None, error = None\<rparr>,
            js ''Tran'' @ [231] @ js ''as Nag'' @ [244] \<mapsto> \<lparr>status = Pending, url = None, error = None\<rparr>,
            js ''Cabelo Longo Ondulado'' \<mapsto> \<lparr>status = Pending, url = None, error = None\<rparr>,
            js ''Corte Buzz (com Degrad'' @ [234] @ js '')'' \<mapsto> \<lparr>status = Pending, url = None, error = None\<rparr>,
            js ''Undercut Desconectado'' \<mapsto> \<lparr>status = Error, url = None, error = Some (js ''O modelo de IA n'' @ [227] @ js ''o conseguiu gerar uma imagem. Detalhes: '' @ js ''quota exceeded'')\<rparr>,
            js ''Coque Samurai'' \<mapsto> \<lparr>status = Done, url = Some (js ''data:image/png;base64,BB''), error = None\<rparr>,
            js ''Cabelo M'' @ [233] @ js ''dio Despenteado'' \<mapsto> \<lparr>status = Done, url = Some (js ''data:image/png;base64,BB''), error = None\<rparr>,
            js ''Tran'' @ [231] @ js ''as Nag'' @ [244] \<mapsto> \<lparr>status = Done, url = Some (js ''data:image/png;base64,BB''), error = None\<rparr>,
            js ''Cabelo Longo Ondulado'' \<mapsto> \<lparr>status = Done, url = Some (js ''data:image/png;base64,BB''), error = None\<rparr>],
          isLoading = False, appState = ResultsShown, selectedGender = Some Masculino\<rparr>,
      hairstyleQueue = [],
      workers = [Finished, Finished],
      runImage = js ''data:image/png;base64,AA'', runGender = Masculino, awaitingAll = False,
      retries = [\<lparr>callImage = js ''data:image/png;base64,AA'', callPrompt = stylePrompt Masculino (js ''Corte Buzz (com Degrad'' @ [234] @ js '')''),
                 callHairstyle = js ''Corte Buzz (com Degrad'' @ [234] @ js '')'', callGender = genderStr Masculino\<rparr>], remixes = []\<rparr>"
  have start: "startSys Masculino
     \<lparr>uploadedImage = Some (js ''data:image/png;base64,AA''), generatedImages = Map.empty,
      isLoading = False, appState = ImageUploaded, selectedGender = None\<rparr> = Some ?s0" and run: "sys_exec ?s0 ?acts ?sF"
    using retry_during_run by blast+
  have settled: "\<not> awaitingAll ?sF" by simp
  have busy: "\<exists>call \<in> set (retries ?sF). callHairstyle call = js ''Corte Buzz (com Degrad'' @ [234] @ js '')''" by simp
  from run_settles_all_labels [OF start run] settled
  have "dequeued (poolActs ?acts) = hairstylesOf Masculino"
    and "mset (settledLabels (poolActs ?acts)) = mset (hairstylesOf Masculino)"
    and "hairstylesOf Masculino =
     [js ''Corte Buzz (com Degrad'' @ [234] @ js '')'',
      js ''Undercut Desconectado'',
      js ''Coque Samurai'',
      js ''Cabelo M'' @ [233] @ js ''dio Despenteado'',
      js ''Tran'' @ [231] @ js ''as Nag'' @ [244],
      js ''Cabelo Longo Ondulado'']"
    by blast+
  with start run settled busy show ?thesis by simp
qed

lemma hairstyles_four:
  "\<exists>h1 h2 h3 h4 rest. hairstylesOf gender = h1 # h2 # h3 # h4 # rest \<and>
     h1 \<noteq> [] \<and> h2 \<noteq> [] \<and> h3 \<noteq> [] \<and> h4 \<noteq> []"
  by (cases gender; simp add: hairstylesOf_def MALE_HAIRSTYLES_def FEMALE_HAIRSTYLES_def js_def)

lemma concurrent_state:
  assumes start: "startSys gender a = Some s0" and dec: "decode (runImage s0) = Inr img"
  shows "\<exists>acts s. sys_exec s0 acts s \<and> awaitingAll s \<and>
           length (dequeued (poolActs acts)) = length (settledLabels (poolActs acts)) + 2 \<and>
           poolInFlight s = 2 \<and> retries s \<noteq> [] \<and> remixes s \<noteq> []"
proof -
  obtain img0 where img0: "uploadedImage a = Some img0" "img0 \<noteq> []"
    and s0: "s0 = \<lparr>app = a\<lparr>selectedGender := Some gender, isLoading := True, appState := Generating,
                     generatedImages := initialImages (hairstylesOf gender)\<rparr>,
           hairstyleQueue = hairstylesOf gender,
           workers = [LoopHead, LoopHead],
           runImage = img0, runGender = gender, awaitingAll = True,
           retries = [], remixes = []\<rparr>"
    using startSys_Some [OF start] by blast
  obtain h1 h2 h3 h4 rest where hs: "hairstylesOf gender = h1 # h2 # h3 # h4 # rest"
    and ne: "h1 \<noteq> []" "h2 \<noteq> []" "h3 \<noteq> []" "h4 \<noteq> []"
    using hairstyles_four [of gender] by blast
  from dec s0 have dec0: "decode img0 = Inr img" by simp
  define u where "u = encode img"
  have u_ne: "u \<noteq> []" by (simp add: u_def encode_def js_def)
  let ?t = "\<lambda>(tr::event list) (req::Request). (Inr \<lparr>parts = [\<lparr>inlineData = Some img\<rparr>], responseText = None\<rparr>
              :: thrown + GenerateContentResponse)"
  have ok: "\<And>p h g. fst (generateDecadeImage ?t img0 p h g []) = Inr u"
    using generate_ok [OF dec0] by (simp add: u_def)
  define a0 where "a0 = a\<lparr>selectedGender := Some gender, isLoading := True, appState := Generating\<rparr>"
  have a0: "uploadedImage a0 = Some img0" "selectedGender a0 = Some gender"
    by (simp_all add: a0_def img0)
  define m0 where "m0 = initialImages (hairstylesOf gender)"
  let ?S = "\<lambda>m q ws rs xs. \<lparr>app = a0\<lparr>generatedImages := m\<rparr>, hairstyleQueue = q, workers = ws,
           runImage = img0, runGender = gender, awaitingAll = True, retries = rs, remixes = xs\<rparr>"
  let ?s0 = "?S m0 (h1 # h2 # h3 # h4 # rest) [LoopHead, LoopHead] [] []"
  let ?s1 = "?S m0 (h2 # h3 # h4 # rest) [Awaiting h1, LoopHead] [] []"
  let ?s2 = "?S m0 (h3 # h4 # rest) [Awaiting h1, Awaiting h2] [] []"
  let ?m3 = "m0(h1 \<mapsto> doneItem u)"
  let ?s3 = "?S ?m3 (h3 # h4 # rest) [LoopHead, Awaiting h2] [] []"
  let ?s4 = "?S ?m3 (h4 # rest) [Awaiting h3, Awaiting h2] [] []"
  let ?call = "\<lparr>callImage = img0, callPrompt = stylePrompt gender h1,
                 callHairstyle = h1, callGender = genderStr gender\<rparr>"
  let ?m5 = "?m3(h1 \<mapsto> pendingItem)"
  let ?s5 = "?S ?m5 (h4 # rest) [Awaiting h3, Awaiting h2] [?call] []"
  let ?m6 = "?m5(h2 \<mapsto> doneItem u)"
  let ?s6 = "?S ?m6 (h4 # rest) [Awaiting h3, LoopHead] [?call] []"
  let ?s7 = "?S ?m6 rest [Awaiting h3, Awaiting h4] [?call] []"
  let ?rcall = "\<lparr>remixHairstyle = h2, remixSource = u, remixPrompt = js ''franja''\<rparr>"
  let ?m8 = "?m6(h2 \<mapsto> markPending ?m6 h2)"
  let ?s8 = "?S ?m8 rest [Awaiting h3, Awaiting h4] [?call] [?rcall]"
  let ?acts = "[Pool (Dequeue 0 h1), Pool (Dequeue 1 h2), Pool (Settle 0 h1 (Inr u)),
          Pool (Dequeue 0 h3), RetryStart h1, Pool (Settle 1 h2 (Inr u)), Pool (Dequeue 1 h4),
          RemixStart h2 (js ''franja'')]"
  have eq0: "s0 = ?s0" by (simp add: s0 hs a0_def m0_def)
  have e0: "sys_exec ?s0 [] ?s0" by (rule sys_exec.sys_nil)
  have p1: "pool_step ?s0 (Dequeue 0 h1) ?s1"
    using pool_step.dequeue [of 0 ?s0 h1 "h2 # h3 # h4 # rest"] ne by simp
  have p2: "pool_step ?s1 (Dequeue 1 h2) ?s2"
    using pool_step.dequeue [of 1 ?s1 h2 "h3 # h4 # rest"] ne by simp
  have p3: "pool_step ?s2 (Settle 0 h1 (Inr u)) ?s3"
    using pool_step.settle [of 0 ?s2 h1 "Inr u" ?t "[]"] ok
    by (simp add: processHairstyle_settle_def)
  have p4: "pool_step ?s3 (Dequeue 0 h3) ?s4"
    using pool_step.dequeue [of 0 ?s3 h3 "h4 # rest"] ne by simp
  have r5: "handleRegenerateDecade_start h1 (app ?s4) = (a0\<lparr>generatedImages := ?m5\<rparr>, Some ?call)"
    using a0 img0 by (simp add: handleRegenerateDecade_start_def isPending_def doneItem_def)
  have p5: "sys_step ?s4 (RetryStart h1) ?s5"
    using sys_step.retry_start [OF r5] by simp
  have p6: "pool_step ?s5 (Settle 1 h2 (Inr u)) ?s6"
    using pool_step.settle [of 1 ?s5 h2 "Inr u" ?t "[]"] ok
    by (simp add: processHairstyle_settle_def)
  have p7: "pool_step ?s6 (Dequeue 1 h4) ?s7"
    using pool_step.dequeue [of 1 ?s6 h4 rest] ne by simp
  have r8: "handleRemixDecade_start h2 (js ''franja'') (app ?s7) = (a0\<lparr>generatedImages := ?m8\<rparr>, Some ?rcall)"
    using u_ne
    by (simp add: handleRemixDecade_start_def sourceImageOf_def isPending_def doneItem_def)
       (simp add: js_def)
  have p8: "sys_step ?s7 (RemixStart h2 (js ''franja'')) ?s8"
    using sys_step.remix_start [OF r8] by simp
  have e1: "sys_exec ?s0 [Pool (Dequeue 0 h1)] ?s1"
    using sys_exec.sys_snoc [OF e0 sys_step.pool [OF p1]] by simp
  have e2: "sys_exec ?s0 [Pool (Dequeue 0 h1), Pool (Dequeue 1 h2)] ?s2"
    using sys_exec.sys_snoc [OF e1 sys_step.pool [OF p2]] by simp
  have e3: "sys_exec ?s0 [Pool (Dequeue 0 h1), Pool (Dequeue 1 h2), Pool (Settle 0 h1 (Inr u))] ?s3"
    using sys_exec.sys_snoc [OF e2 sys_step.pool [OF p3]] by simp
  have e4: "sys_exec ?s0 [Pool (Dequeue 0 h1), Pool (Dequeue 1 h2), Pool (Settle 0 h1 (Inr u)),
          Pool (Dequeue 0 h3)] ?s4"
    using sys_exec.sys_snoc [OF e3 sys_step.pool [OF p4]] by simp
  have e5: "sys_exec ?s0 [Pool (Dequeue 0 h1), Pool (Dequeue 1 h2), Pool (Settle 0 h1 (Inr u)),
          Pool (Dequeue 0 h3), RetryStart h1] ?s5"
    using sys_exec.sys_snoc [OF e4 p5] by simp
  have e6: "sys_exec ?s0 [Pool (Dequeue 0 h1), Pool (Dequeue 1 h2), Pool (Settle 0 h1 (Inr u)),
          Pool (Dequeue 0 h3), RetryStart h1, Pool (Settle 1 h2 (Inr u))] ?s6"
    using sys_exec.sys_snoc [OF e5 sys_step.pool [OF p6]] by simp
  have e7: "sys_exec ?s0 [Pool (Dequeue 0 h1), Pool (Dequeue 1 h2), Pool (Settle 0 h1 (Inr u)),
          Pool (Dequeue 0 h3), RetryStart h1, Pool (Settle 1 h2 (Inr u)), Pool (Dequeue 1 h4)] ?s7"
    using sys_exec.sys_snoc [OF e6 sys_step.pool [OF p7]] by simp
  have "sys_exec ?s0 ?acts ?s8"
    using sys_exec.sys_snoc [OF e7 p8] by simp
  moreover have "awaitingAll ?s8 \<and> poolInFlight ?s8 = 2 \<and>
      retries ?s8 \<noteq> [] \<and> remixes ?s8 \<noteq> []"
    by (simp add: poolInFlight_def)
  moreover have "length (dequeued (poolActs ?acts)) = length (settledLabels (poolActs ?acts)) + 2"
    by (simp add: poolActs_def dequeued_def settledLabels_def)
  ultimately show ?thesis unfolding eq0 by blast
qed

text \<open>
  C4: in every state that a run and the user's requests can reach, the calls that the
  pool's workers have dequeued and that have not settled are the calls counted by
  \<open>poolInFlight\<close>, and they are at most \<open>concurrencyLimit\<close>, which is two; so at every
  point of the run the labels dequeued are at most two more than the labels settled. A
  worker dequeues a label only at the head of its loop, with no call of its own in
  flight. The calls of \<^verbatim>\<open>handleRegenerateDecade\<close> and \<^verbatim>\<open>handleRemixDecade\<close> are not
  counted against the limit: when the uploaded image decodes, the run reaches a state in
  which it has not settled, two calls of the pool are in flight, and a retry call and a
  remix call are in flight as well.
\<close>

theorem pool_concurrency_limit:
  "(startSys gender a = Some s0 \<and> sys_exec s0 acts s \<longrightarrow>
      length (dequeued (poolActs acts)) = length (settledLabels (poolActs acts)) + poolInFlight s \<and>
      poolInFlight s \<le> concurrencyLimit \<and> concurrencyLimit = 2 \<and>
      (\<forall>n. length (settledLabels (poolActs (take n acts))) \<le> length (dequeued (poolActs (take n acts))) \<and>
           length (dequeued (poolActs (take n acts))) \<le>
             length (settledLabels (poolActs (take n acts))) + 2) \<and>
      (\<forall>i h s'. sys_step s (Pool (Dequeue i h)) s' \<longrightarrow>
           i < length (workers s) \<and> workers s ! i = LoopHead \<and>
           workers s' = (workers s)[i := Awaiting h])) \<and>
   (startSys gender a = Some s0 \<and> decode (runImage s0) = Inr img \<longrightarrow>
      (\<exists>acts' s'. sys_exec s0 acts' s' \<and> awaitingAll s' \<and>
         length (dequeued (poolActs acts')) = length (settledLabels (poolActs acts')) + 2 \<and>
         poolInFlight s' = 2 \<and> retries s' \<noteq> [] \<and> remixes s' \<noteq> []))"
proof (intro conjI impI)
  assume h: "startSys gender a = Some s0 \<and> sys_exec s0 acts s"
  then have inv: "poolInvariant (hairstylesOf gender) (poolActs acts) (userLabels s) s"
    using sysInvariant_reachable by blast
  from poolInvariant_in_flight [OF inv]
  show "length (dequeued (poolActs acts)) = length (settledLabels (poolActs acts)) + poolInFlight s"
    and "poolInFlight s \<le> concurrencyLimit" by simp_all
  show "\<forall>n. length (settledLabels (poolActs (take n acts))) \<le> length (dequeued (poolActs (take n acts))) \<and>
           length (dequeued (poolActs (take n acts))) \<le>
             length (settledLabels (poolActs (take n acts))) + 2"
  proof
    fix n
    from h obtain s' where "sys_exec s0 (take n acts) s'"
      using sys_exec_take [of s0 acts s n] by blast
    with h have "poolInvariant (hairstylesOf gender) (poolActs (take n acts)) (userLabels s') s'"
      using sysInvariant_reachable by blast
    from poolInvariant_in_flight [OF this]
    show "length (settledLabels (poolActs (take n acts))) \<le> length (dequeued (poolActs (take n acts))) \<and>
           length (dequeued (poolActs (take n acts))) \<le>
             length (settledLabels (poolActs (take n acts))) + 2"
      by (simp add: concurrencyLimit_def)
  qed
  show "\<forall>i h s'. sys_step s (Pool (Dequeue i h)) s' \<longrightarrow>
           i < length (workers s) \<and> workers s ! i = LoopHead \<and>
           workers s' = (workers s)[i := Awaiting h]"
    using sys_step_Dequeue by blast
next
  show "concurrencyLimit = 2" by (simp add: concurrencyLimit_def)
next
  assume "startSys gender a = Some s0 \<and> decode (runImage s0) = Inr img"
  then show "\<exists>acts' s'. sys_exec s0 acts' s' \<and> awaitingAll s' \<and>
         length (dequeued (poolActs acts')) = length (settledLabels (poolActs acts')) + 2 \<and>
         poolInFlight s' = 2 \<and> retries s' \<noteq> [] \<and> remixes s' \<noteq> []"
    using concurrent_state by blast
qed

text \<open>Three labels dequeued and one settled: two calls of the pool are in flight, and
  with them the call of \<^verbatim>\<open>handleRegenerateDecade\<close> for the first label.\<close>

theorem pool_concurrency_limit_witness:
  "startSys Masculino
     \<lparr>uploadedImage = Some (js ''data:image/png;base64,AA''), generatedImages = Map.empty,
      isLoading = False, appState = ImageUploaded, selectedGender = None\<rparr> =
     Some \<lparr>app = \<lparr>uploadedImage = Some (js ''data:image/png;base64,AA''),
          generatedImages =
           [js ''Corte Buzz (com Degrad'' @ [234] @ js '')'' \<mapsto> \<lparr>status = Pending, url = None, error = None\<rparr>,
            js ''Undercut Desconectado'' \<mapsto> \<lparr>status = Pending, url = None, error = None\<rparr>,
            js ''Coque Samurai'' \<mapsto> \<lparr>status = Pending, url = None, error = None\<rparr>,
            js ''Cabelo M'' @ [233] @ js ''dio Despenteado'' \<mapsto> \<lparr>status = Pending, url = None, error = None\<rparr>,
            js ''Tran'' @ [231] @ js ''as Nag'' @ [244] \<mapsto> \<lparr>status = Pending, url = None, error = None\<rparr>,
            js ''Cabelo Longo Ondulado'' \<mapsto> \<lparr>status = Pending, url = None, error = None\<rparr>],
          isLoading = True, appState = Generating, selectedGender = Some Masculino\<rparr>,
      hairstyleQueue = [js ''Corte Buzz (com Degrad'' @ [234] @ js '')'', js ''Undercut Desconectado'', js ''Coque Samurai'', js ''Cabelo M'' @ [233] @ js ''dio Despenteado'', js ''Tran'' @ [231] @ js ''as Nag'' @ [244], js ''Cabelo Longo Ondulado''],
      workers = [LoopHead, LoopHead],
      runImage = js ''data:image/png;base64,AA'', runGender = Masculino, awaitingAll = True,
      retries = [], remixes = []\<rparr> \<and>
   sys_exec
     \<lparr>app = \<lparr>uploadedImage = Some (js ''data:image/png;base64,AA''),
          generatedImages =
           [js ''Corte Buzz (com Degrad'' @ [234] @ js '')'' \<mapsto> \<lparr>status = Pending, url = None, error = None\<rparr>,
            js ''Undercut Desconectado'' \<mapsto> \<lparr>status = Pending, url = None, error = None\<rparr>,
            js ''Coque Samurai'' \<mapsto> \<lparr>status = Pending, url = None, error = None\<rparr>,
            js ''Cabelo M'' @ [233] @ js ''dio Despenteado'' \<mapsto> \<lparr>status = Pending, url = None, error = None\<rparr>,
            js ''Tran'' @ [231] @ js ''as Nag'' @ [244] \<mapsto> \<lparr>status = Pending, url = None, error = None\<rparr>,
            js ''Cabelo Longo Ondulado'' \<mapsto> \<lparr>status = Pending, url = None, error = None\<rparr>],
          isLoading = True, appState = Generating, selectedGender = Some Masculino\<rparr>,
      hairstyleQueue = [js ''Corte Buzz (com Degrad'' @ [234] @ js '')'', js ''Undercut Desconectado'', js ''Coque Samurai'', js ''Cabelo M'' @ [233] @ js ''dio Despenteado'', js ''Tran'' @ [231] @ js ''as Nag'' @ [244], js ''Cabelo Longo Ondulado''],
      workers = [LoopHead, LoopHead],
      runImage = js ''data:image/png;base64,AA'', runGender = Masculino, awaitingAll = True,
      retries = [], remixes = []\<rparr>
     [Pool (Dequeue 0 (js ''Corte Buzz (com Degrad'' @ [234] @ js '')'')),
      Pool (Dequeue 1 (js ''Undercut Desconectado'')),
      Pool (Settle 0 (js ''Corte Buzz (com Degrad'' @ [234] @ js '')'') (Inr (js ''data:image/png;base64,BB''))),
      Pool (Dequeue 0 (js ''Coque Samurai'')),
      RetryStart (js ''Corte Buzz (com Degrad'' @ [234] @ js '')'')]
     \<lparr>app = \<lparr>uploadedImage = Some (js ''data:image/png;base64,AA''),
          generatedImages =
           [js ''Corte Buzz (com Degrad'' @ [234] @ js '')'' \<mapsto> \<lparr>status = Pending, url = None, error = None\<rparr>,
            js ''Undercut Desconectado'' \<mapsto> \<lparr>status = Pending, url = None, error = None\<rparr>,
            js ''Coque Samurai'' \<mapsto> \<lparr>status = Pending, url = None, error = None\<rparr>,
            js ''Cabelo M'' @ [233] @ js ''dio Despenteado'' \<mapsto> \<lparr>status = Pending, url = None, error = None\<rparr>,
            js ''Tran'' @ [231] @ js ''as Nag'' @ [244] \<mapsto> \<lparr>status = Pending, url = None, error = None\<rparr>,
            js ''Cabelo Longo Ondulado'' \<mapsto> \<lparr>status = Pending, url = None, error = None\<rparr>,
            js ''Corte Buzz (com Degrad'' @ [234] @ js '')'' \<mapsto> \<lparr>status = Pending, url = None, error = None\<rparr>],
          isLoading = True, appState = Generating, selectedGender = Some Masculino\<rparr>,
      hairstyleQueue = [js ''Cabelo M'' @ [233] @ js ''dio Despenteado'', js ''Tran'' @ [231] @ js ''as Nag'' @ [244], js ''Cabelo Longo Ondulado''],
      workers = [Awaiting (js ''Coque Samurai''), Awaiting (js ''Undercut Desconectado'')],
      runImage = js ''data:image/png;base64,AA'', runGender = Masculino, awaitingAll = True,
      retries = [\<lparr>callImage = js ''data:image/png;base64,AA'', callPrompt = stylePrompt Masculino (js ''Corte Buzz (com Degrad'' @ [234] @ js '')''),
                 callHairstyle = js ''Corte Buzz (com Degrad'' @ [234] @ js '')'', callGender = genderStr Masculino\<rparr>], remixes = []\<rparr> \<and>
   decode (runImage
     \<lparr>app = \<lparr>uploadedImage = Some (js ''data:image/png;base64,AA''),
          generatedImages =
           [js ''Corte Buzz (com Degrad'' @ [234] @ js '')'' \<mapsto> \<lparr>status = Pending, url = None, error = None\<rparr>,
            js ''Undercut Desconectado'' \<mapsto> \<lparr>status = Pending, url = None, error = None\<rparr>,
            js ''Coque Samurai'' \<mapsto> \<lparr>status = Pending, url = None, error = None\<rparr>,
            js ''Cabelo M'' @ [233] @ js ''dio Despenteado'' \<mapsto> \<lparr>status = Pending, url = None, error = None\<rparr>,
            js ''Tran'' @ [231] @ js ''as Nag'' @ [244] \<mapsto> \<lparr>status = Pending, url = None, error = None\<rparr>,
            js ''Cabelo Longo Ondulado'' \<mapsto> \<lparr>status = Pending, url = None, error = None\<rparr>],
          isLoading = True, appState = Generating, selectedGender = Some Masculino\<rparr>,
      hairstyleQueue = [js ''Corte Buzz (com Degrad'' @ [234] @ js '')'', js ''Undercut Desconectado'', js ''Coque Samurai'', js ''Cabelo M'' @ [233] @ js ''dio Despenteado'', js ''Tran'' @ [231] @ js ''as Nag'' @ [244], js ''Cabelo Longo Ondulado''],
      workers = [LoopHead, LoopHead],
      runImage = js ''data:image/png;base64,AA'', runGender = Masculino, awaitingAll = True,
      retries = [], remixes = []\<rparr>) = Inr \<lparr>mimeType = js ''image/png'', data = js ''AA''\<rparr> \<and>
   length (dequeued (poolActs
     [Pool (Dequeue 0 (js ''Corte Buzz (com Degrad'' @ [234] @ js '')'')),
      Pool (Dequeue 1 (js ''Undercut Desconectado'')),
      Pool (Settle 0 (js ''Corte Buzz (com Degrad'' @ [234] @ js '')'') (Inr (js ''data:image/png;base64,BB''))),
      Pool (Dequeue 0 (js ''Coque Samurai'')),
      RetryStart (js ''Corte Buzz (com Degrad'' @ [234] @ js '')'')])) = 3 \<and>
   length (settledLabels (poolActs
     [Pool (Dequeue 0 (js ''Corte Buzz (com Degrad'' @ [234] @ js '')'')),
      Pool (Dequeue 1 (js ''Undercut Desconectado'')),
      Pool (Settle 0 (js ''Corte Buzz (com Degrad'' @ [234] @ js '')'') (Inr (js ''data:image/png;base64,BB''))),
      Pool (Dequeue 0 (js ''Coque Samurai'')),
      RetryStart (js ''Corte Buzz (com Degrad'' @ [234] @ js '')'')])) = 1 \<and>
   poolInFlight
     \<lparr>app = \<lparr>uploadedImage = Some (js ''data:image/png;base64,AA''),
          generatedImages =
           [js ''Corte Buzz (com Degrad'' @ [234] @ js '')'' \<mapsto> \<lparr>status = Pending, url = None, error = None\<rparr>,
            js ''Undercut Desconectado'' \<mapsto> \<lparr>status = Pending, url = None, error = None\<rparr>,
            js ''Coque Samurai'' \<mapsto> \<lparr>status = Pending, url = None, error = None\<rparr>,
            js ''Cabelo M'' @ [233] @ js ''dio Despenteado'' \<mapsto> \<lparr>status = Pending, url = None, error = None\<rparr>,
            js ''Tran'' @ [231] @ js ''as Nag'' @ [244] \<mapsto> \<lparr>status = Pending, url = None, error = None\<rparr>,
            js ''Cabelo Longo Ondulado'' \<mapsto> \<lparr>status = Pending, url = None, error = None\<rparr>,
            js ''Corte Buzz (com Degrad'' @ [234] @ js '')'' \<mapsto> \<lparr>status = Pending, url = None, error = None\<rparr>],
          isLoading = True, appState = Generating, selectedGender = Some Masculino\<rparr>,
      hairstyleQueue = [js ''Cabelo M'' @ [233] @ js ''dio Despenteado'', js ''Tran'' @ [231] @ js ''as Nag'' @ [244], js ''Cabelo Longo Ondulado''],
      workers = [Awaiting (js ''Coque Samurai''), Awaiting (js ''Undercut Desconectado'')],
      runImage = js ''data:image/png;base64,AA'', runGender = Masculino, awaitingAll = True,
      retries = [\<lparr>callImage = js ''data:image/png;base64,AA'', callPrompt = stylePrompt Masculino (js ''Corte Buzz (com Degrad'' @ [234] @ js '')''),
                 callHairstyle = js ''Corte Buzz (com Degrad'' @ [234] @ js '')'', callGender = genderStr Masculino\<rparr>], remixes = []\<rparr> = 2 \<and>
   concurrencyLimit = 2 \<and>
   retries
     \<lparr>app = \<lparr>uploadedImage = Some (js ''data:image/png;base64,AA''),
          generatedImages =
           [js ''Corte Buzz (com Degrad'' @ [234] @ js '')'' \<mapsto> \<lparr>status = Pending, url = None, error = None\<rparr>,
            js ''Undercut Desconectado'' \<mapsto> \<lparr>status = Pending, url = None, error = None\<rparr>,
            js ''Coque Samurai'' \<mapsto> \<lparr>status = Pending, url = None, error = None\<rparr>,
            js ''Cabelo M'' @ [233] @ js ''dio Despenteado'' \<mapsto> \<lparr>status = Pending, url = None, error = None\<rparr>,
            js ''Tran'' @ [231] @ js ''as Nag'' @ [244] \<mapsto> \<lparr>status = Pending, url = None, error = None\<rparr>,
            js ''Cabelo Longo Ondulado'' \<mapsto> \<lparr>status = Pending, url = None, error = None\<rparr>,
            js ''Corte Buzz (com Degrad'' @ [234] @ js '')'' \<mapsto> \<lparr>status = Pending, url = None, error = None\<rparr>],
          isLoading = True, appState = Generating, selectedGender = Some Masculino\<rparr>,
      hairstyleQueue = [js ''Cabelo M'' @ [233] @ js ''dio Despenteado'', js ''Tran'' @ [231] @ js ''as Nag'' @ [244], js ''Cabelo Longo Ondulado''],
      workers = [Awaiting (js ''Coque Samurai''), Awaiting (js ''Undercut Desconectado'')],
      runImage = js ''data:image/png;base64,AA'', runGender = Masculino, awaitingAll = True,
      retries = [\<lparr>callImage = js ''data:image/png;base64,AA'', callPrompt = stylePrompt Masculino (js ''Corte Buzz (com Degrad'' @ [234] @ js '')''),
                 callHairstyle = js ''Corte Buzz (com Degrad'' @ [234] @ js '')'', callGender = genderStr Masculino\<rparr>], remixes = []\<rparr> =
     [\<lparr>callImage = js ''data:image/png;base64,AA'', callPrompt = stylePrompt Masculino (js ''Corte Buzz (com Degrad'' @ [234] @ js '')''),
                 callHairstyle = js ''Corte Buzz (com Degrad'' @ [234] @ js '')'', callGender = genderStr Masculino\<rparr>] \<and>
   (\<exists>acts' s'. sys_exec
     \<lparr>app = \<lparr>uploadedImage = Some (js ''data:image/png;base64,AA''),
          generatedImages =
           [js ''Corte Buzz (com Degrad'' @ [234] @ js '')'' \<mapsto> \<lparr>status = Pending, url = None, error = None\<rparr>,
            js ''Undercut Desconectado'' \<mapsto> \<lparr>status = Pending, url = None, error = None\<rparr>,
            js ''Coque Samurai'' \<mapsto> \<lparr>status = Pending, url = None, error = None\<rparr>,
            js ''Cabelo M'' @ [233] @ js ''dio Despenteado'' \<mapsto> \<lparr>status = Pending, url = None, error = None\<rparr>,
            js ''Tran'' @ [231] @ js ''as Nag'' @ [244] \<mapsto> \<lparr>status = Pending, url = None, error = None\<rparr>,
            js ''Cabelo Longo Ondulado'' \<mapsto> \<lparr>status = Pending, url = None, error = None\<rparr>],
          isLoading = True, appState = Generating, selectedGender = Some Masculino\<rparr>,
      hairstyleQueue = [js ''Corte Buzz (com Degrad'' @ [234] @ js '')'', js ''Undercut Desconectado'', js ''Coque Samurai'', js ''Cabelo M'' @ [233] @ js ''dio Despenteado'', js ''Tran'' @ [231] @ js ''as Nag'' @ [244], js ''Cabelo Longo Ondulado''],
      workers = [LoopHead, LoopHead],
      runImage = js ''data:image/png;base64,AA'', runGender = Masculino, awaitingAll = True,
      retries = [], remixes = []\<rparr> acts' s' \<and> awaitingAll s' \<and>
      length (dequeued (poolActs acts')) = length (settledLabels (poolActs acts')) + 2 \<and>
      poolInFlight s' = 2 \<and> retries s' \<noteq> [] \<and> remixes s' \<noteq> [])"
proof -
  let ?c0 = "\<lparr>app = \<lparr>uploadedImage = Some (js ''data:image/png;base64,AA''),
          generatedImages =
           [js ''Corte Buzz (com Degrad'' @ [234] @ js '')'' \<mapsto> \<lparr>status = Pending, url = None, error = None\<rparr>,
            js ''Undercut Desconectado'' \<mapsto> \<lparr>status = Pending, url = None, error = None\<rparr>,
            js ''Coque Samurai'' \<mapsto> \<lparr>status = Pending, url = None, error = None\<rparr>,
            js ''Cabelo M'' @ [233] @ js ''dio Despenteado'' \<mapsto> \<lparr>status = Pending, url = None, error = None\<rparr>,
            js ''Tran'' @ [231] @ js ''as Nag'' @ [244] \<mapsto> \<lparr>status = Pending, url = None, error = None\<rparr>,
            js ''Cabelo Longo Ondulado'' \<mapsto> \<lparr>status = Pending, url = None, error = None\<rparr>],
          isLoading = True, appState = Generating, selectedGender = Some Masculino\<rparr>,
      hairstyleQueue = [js ''Corte Buzz (com Degrad'' @ [234] @ js '')'', js ''Undercut Desconectado'', js ''Coque Samurai'', js ''Cabelo M'' @ [233] @ js ''dio Despenteado'', js ''Tran'' @ [231] @ js ''as Nag'' @ [244], js ''Cabelo Longo Ondulado''],
      workers = [LoopHead, LoopHead],
      runImage = js ''data:image/png;base64,AA'', runGender = Masculino, awaitingAll = True,
      retries = [], remixes = []\<rparr>"
  let ?c1 = "\<lparr>app = \<lparr>uploadedImage = Some (js ''data:image/png;base64,AA''),
          generatedImages =
           [js ''Corte Buzz (com Degrad'' @ [234] @ js '')'' \<mapsto> \<lparr>status = Pending, url = None, error = None\<rparr>,
            js ''Undercut Desconectado'' \<mapsto> \<lparr>status = Pending, url = None, error = None\<rparr>,
            js ''Coque Samurai'' \<mapsto> \<lparr>status = Pending, url = None, error = None\<rparr>,
            js ''Cabelo M'' @ [233] @ js ''dio Despenteado'' \<mapsto> \<lparr>status = Pending, url = None, error = None\<rparr>,
            js ''Tran'' @ [231] @ js ''as Nag'' @ [244] \<mapsto> \<lparr>status = Pending, url = None, error = None\<rparr>,
            js ''Cabelo Longo Ondulado'' \<mapsto> \<lparr>status = Pending, url = None, error = None\<rparr>],
          isLoading = True, appState = Generating, selectedGender = Some Masculino\<rparr>,
      hairstyleQueue = [js ''Undercut Desconectado'', js ''Coque Samurai'', js ''Cabelo M'' @ [233] @ js ''dio Despenteado'', js ''Tran'' @ [231] @ js ''as Nag'' @ [244], js ''Cabelo Longo Ondulado''],
      workers = [Awaiting (js ''Corte Buzz (com Degrad'' @ [234] @ js '')''), LoopHead],
      runImage = js ''data:image/png;base64,AA'', runGender = Masculino, awaitingAll = True,
      retries = [], remixes = []\<rparr>"
  let ?c2 = "\<lparr>app = \<lparr>uploadedImage = Some (js ''data:image/png;base64,AA''),
          generatedImages =
           [js ''Corte Buzz (com Degrad'' @ [234] @ js '')'' \<mapsto> \<lparr>status = Pending, url = None, error = None\<rparr>,
            js ''Undercut Desconectado'' \<mapsto> \<lparr>status = Pending, url = None, error = None\<rparr>,
            js ''Coque Samurai'' \<mapsto> \<lparr>status = Pending, url = None, error = None\<rparr>,
            js ''Cabelo M'' @ [233] @ js ''dio Despenteado'' \<mapsto> \<lparr>status = Pending, url = None, error = None\<rparr>,
            js ''Tran'' @ [231] @ js ''as Nag'' @ [244] \<mapsto> \<lparr>status = Pending, url = None, error = None\<rparr>,
            js ''Cabelo Longo Ondulado'' \<mapsto> \<lparr>status = Pending, url = None, error = None\<rparr>],
          isLoading = True, appState = Generating, selectedGender = Some Masculino\<rparr>,
      hairstyleQueue = [js ''Coque Samurai'', js ''Cabelo M'' @ [233] @ js ''dio Despenteado'', js ''Tran'' @ [231] @ js ''as Nag'' @ [244], js ''Cabelo Longo Ondulado''],
      workers = [Awaiting (js ''Corte Buzz (com Degrad'' @ [234] @ js '')''), Awaiting (js ''Undercut Desconectado'')],
      runImage = js ''data:image/png;base64,AA'', runGender = Masculino, awaitingAll = True,
      retries = [], remixes = []\<rparr>"
  let ?c3 = "\<lparr>app = \<lparr>uploadedImage = Some (js ''data:image/png;base64,AA''),
          generatedImages =
           [js ''Corte Buzz (com Degrad'' @ [234] @ js '')'' \<mapsto> \<lparr>status = Pending, url = None, error = None\<rparr>,
            js ''Undercut Desconectado'' \<mapsto> \<lparr>status = Pending, url = None, error = None\<rparr>,
            js ''Coque Samurai'' \<mapsto> \<lparr>status = Pending, url = None, error = None\<rparr>,
            js ''Cabelo M'' @ [233] @ js ''dio Despenteado'' \<mapsto> \<lparr>status = Pending, url = None, error = None\<rparr>,
            js ''Tran'' @ [231] @ js ''as Nag'' @ [244] \<mapsto> \<lparr>status = Pending, url = None, error = None\<rparr>,
            js ''Cabelo Longo Ondulado'' \<mapsto> \<lparr>status = Pending, url = None, error = None\<rparr>,
            js ''Corte Buzz (com Degrad'' @ [234] @ js '')'' \<mapsto> \<lparr>status = Done, url = Some (js ''data:image/png;base64,BB''), error = None\<rparr>],
          isLoading = True, appState = Generating, selectedGender = Some Masculino\<rparr>,
      hairstyleQueue = [js ''Coque Samurai'', js ''Cabelo M'' @ [233] @ js ''dio Despenteado'', js ''Tran'' @ [231] @ js ''as Nag'' @ [244], js ''Cabelo Longo Ondulado''],
      workers = [LoopHead, Awaiting (js ''Undercut Desconectado'')],
      runImage = js ''data:image/png;base64,AA'', runGender = Masculino, awaitingAll = True,
      retries = [], remixes = []\<rparr>"
  let ?c4 = "\<lparr>app = \<lparr>uploadedImage = Some (js ''data:image/png;base64,AA''),
          generatedImages =
           [js ''Corte Buzz (com Degrad'' @ [234] @ js '')'' \<mapsto> \<lparr>status = Pending, url = None, error = None\<rparr>,
            js ''Undercut Desconectado'' \<mapsto> \<lparr>status = Pending, url = None, error = None\<rparr>,
            js ''Coque Samurai'' \<mapsto> \<lparr>status = Pending, url = None, error = None\<rparr>,
            js ''Cabelo M'' @ [233] @ js ''dio Despenteado'' \<mapsto> \<lparr>status = Pending, url = None, error = None\<rparr>,
            js ''Tran'' @ [231] @ js ''as Nag'' @ [244] \<mapsto> \<lparr>status = Pending, url = None, error = None\<rparr>,
            js ''Cabelo Longo Ondulado'' \<mapsto> \<lparr>status = Pending, url = None, error = None\<rparr>,
            js ''Corte Buzz (com Degrad'' @ [234] @ js '')'' \<mapsto> \<lparr>status = Done, url = Some (js ''data:image/png;base64,BB''), error = None\<rparr>],
          isLoading = True, appState = Generating, selectedGender = Some Masculino\<rparr>,
      hairstyleQueue = [js ''Cabelo M'' @ [233] @ js ''dio Despenteado'', js ''Tran'' @ [231] @ js ''as Nag'' @ [244], js ''Cabelo Longo Ondulado''],
      workers = [Awaiting (js ''Coque Samurai''), Awaiting (js ''Undercut Desconectado'')],
      runImage = js ''data:image/png;base64,AA'', runGender = Masculino, awaitingAll = True,
      retries = [], remixes = []\<rparr>"
  let ?c5 = "\<lparr>app = \<lparr>uploadedImage = Some (js ''data:image/png;base64,AA''),
          generatedImages =
           [js ''Corte Buzz (com Degrad'' @ [234] @ js '')'' \<mapsto> \<lparr>status = Pending, url = None, error = None\<rparr>,
            js ''Undercut Desconectado'' \<mapsto> \<lparr>status = Pending, url = None, error = None\<rparr>,
            js ''Coque Samurai'' \<mapsto> \<lparr>status = Pending, url = None, error = None\<rparr>,
            js ''Cabelo M'' @ [233] @ js ''dio Despenteado'' \<mapsto> \<lparr>status = Pending, url = None, error = None\<rparr>,
            js ''Tran'' @ [231] @ js ''as Nag'' @ [244] \<mapsto> \<lparr>status = Pending, url = None, error = None\<rparr>,
            js ''Cabelo Longo Ondulado'' \<mapsto> \<lparr>status = Pending, url = None, error = None\<rparr>,
            js ''Corte Buzz (com Degrad'' @ [234] @ js '')'' \<mapsto> \<lparr>status = Pending, url = None, error = None\<rparr>],
          isLoading = True, appState = Generating, selectedGender = Some Masculino\<rparr>,
      hairstyleQueue = [js ''Cabelo M'' @ [233] @ js ''dio Despenteado'', js ''Tran'' @ [231] @ js ''as Nag'' @ [244], js ''Cabelo Longo Ondulado''],
      workers = [Awaiting (js ''Coque Samurai''), Awaiting (js ''Undercut Desconectado'')],
      runImage = js ''data:image/png;base64,AA'', runGender = Masculino, awaitingAll = True,
      retries = [\<lparr>callImage = js ''data:image/png;base64,AA'', callPrompt = stylePrompt Masculino (js ''Corte Buzz (com Degrad'' @ [234] @ js '')''),
                 callHairstyle = js ''Corte Buzz (com Degrad'' @ [234] @ js '')'', callGender = genderStr Masculino\<rparr>], remixes = []\<rparr>"
  have dec: "decode (js ''data:image/png;base64,AA'') = Inr \<lparr>mimeType = js ''image/png'', data = js ''AA''\<rparr>"
    by (simp add: decode_def dataUrlMatch_def js_def isWordChar_def isLineTerminator_def)
  have ok: "\<And>p h g. fst (generateDecadeImage (\<lambda>tr req. Inr \<lparr>parts = [\<lparr>inlineData = Some \<lparr>mimeType = js ''image/png'', data = js ''BB''\<rparr>\<rparr>], responseText = None\<rparr>) (js ''data:image/png;base64,AA'') p h g []) = Inr (js ''data:image/png;base64,BB'')"
    using generate_ok [OF dec] by (simp add: encode_def js_def)
  have nint: "\<not> isInternalError (JsError (js ''quota exceeded''))" by (simp add: isInternalError_def errorMessageOf_def js_def)
  have nnoimg: "\<not> isNoImageError (JsError (js ''quota exceeded''))" by (simp add: isNoImageError_def errorMessageOf_def noImagePhrase_def js_def)
  have fail: "\<And>p h g. fst (generateDecadeImage (\<lambda>tr req. Inl (JsError (js ''quota exceeded''))) (js ''data:image/png;base64,AA'') p h g []) = Inl (JsError (js ''O modelo de IA n'' @ [227] @ js ''o conseguiu gerar uma imagem. Detalhes: '' @ js ''quota exceeded''))"
    using generate_fail [OF dec nint nnoimg] by (simp add: unrecoverableError_def)
  have start: "startSys Masculino
     \<lparr>uploadedImage = Some (js ''data:image/png;base64,AA''), generatedImages = Map.empty,
      isLoading = False, appState = ImageUploaded, selectedGender = None\<rparr> = Some ?c0"
    by (simp add: startSys_def handleGenerate_start_def Run.extend_def hairstylesOf_def concurrencyLimit_def numeral_2_eq_2 MALE_HAIRSTYLES_def initialImages_def pendingItem_def)
       (simp add: js_def)
  have e0: "sys_exec ?c0 [] ?c0" by (rule sys_exec.sys_nil)
  have s1: "sys_step ?c0 (Pool (Dequeue 0 (js ''Corte Buzz (com Degrad'' @ [234] @ js '')''))) ?c1"
    using sys_step.pool [OF pool_step.dequeue [of 0 ?c0 "js ''Corte Buzz (com Degrad'' @ [234] @ js '')''" "tl (hairstyleQueue ?c0)"]]
    by (simp add: js_def)
  have e1: "sys_exec ?c0
     [Pool (Dequeue 0 (js ''Corte Buzz (com Degrad'' @ [234] @ js '')''))] ?c1"
    using sys_exec.sys_snoc [OF e0 s1] by simp
  have s2: "sys_step ?c1 (Pool (Dequeue 1 (js ''Undercut Desconectado''))) ?c2"
    using sys_step.pool [OF pool_step.dequeue [of 1 ?c1 "js ''Undercut Desconectado''" "tl (hairstyleQueue ?c1)"]]
    by (simp add: js_def)
  have e2: "sys_exec ?c0
     [Pool (Dequeue 0 (js ''Corte Buzz (com Degrad'' @ [234] @ js '')'')),
      Pool (Dequeue 1 (js ''Undercut Desconectado''))] ?c2"
    using sys_exec.sys_snoc [OF e1 s2] by simp
  have s3: "sys_step ?c2 (Pool (Settle 0 (js ''Corte Buzz (com Degrad'' @ [234] @ js '')'') (Inr (js ''data:image/png;base64,BB'')))) ?c3"
    using sys_step.pool [OF pool_step.settle [of 0 ?c2 "js ''Corte Buzz (com Degrad'' @ [234] @ js '')''" "Inr (js ''data:image/png;base64,BB'')" "\<lambda>tr req. Inr \<lparr>parts = [\<lparr>inlineData = Some \<lparr>mimeType = js ''image/png'', data = js ''BB''\<rparr>\<rparr>], responseText = None\<rparr>" "[]"]] ok
    by (simp add: processHairstyle_settle_def doneItem_def errorItem_def caughtMessage_def)
  have e3: "sys_exec ?c0
     [Pool (Dequeue 0 (js ''Corte Buzz (com Degrad'' @ [234] @ js '')'')),
      Pool (Dequeue 1 (js ''Undercut Desconectado'')),
      Pool (Settle 0 (js ''Corte Buzz (com Degrad'' @ [234] @ js '')'') (Inr (js ''data:image/png;base64,BB'')))] ?c3"
    using sys_exec.sys_snoc [OF e2 s3] by simp
  have s4: "sys_step ?c3 (Pool (Dequeue 0 (js ''Coque Samurai''))) ?c4"
    using sys_step.pool [OF pool_step.dequeue [of 0 ?c3 "js ''Coque Samurai''" "tl (hairstyleQueue ?c3)"]]
    by (simp add: js_def)
  have e4: "sys_exec ?c0
     [Pool (Dequeue 0 (js ''Corte Buzz (com Degrad'' @ [234] @ js '')'')),
      Pool (Dequeue 1 (js ''Undercut Desconectado'')),
      Pool (Settle 0 (js ''Corte Buzz (com Degrad'' @ [234] @ js '')'') (Inr (js ''data:image/png;base64,BB''))),
      Pool (Dequeue 0 (js ''Coque Samurai''))] ?c4"
    using sys_exec.sys_snoc [OF e3 s4] by simp
  have s5: "sys_step ?c4 (RetryStart (js ''Corte Buzz (com Degrad'' @ [234] @ js '')'')) ?c5"
    using sys_step.retry_start [of "js ''Corte Buzz (com Degrad'' @ [234] @ js '')''" ?c4 "app ?c5" "Some (\<lparr>callImage = js ''data:image/png;base64,AA'', callPrompt = stylePrompt Masculino (js ''Corte Buzz (com Degrad'' @ [234] @ js '')''),                  callHairstyle = js ''Corte Buzz (com Degrad'' @ [234] @ js '')'', callGender = genderStr Masculino\<rparr>)"]
    by (simp add: handleRegenerateDecade_start_def isPending_def pendingItem_def js_def)
  have e5: "sys_exec ?c0
     [Pool (Dequeue 0 (js ''Corte Buzz (com Degrad'' @ [234] @ js '')'')),
      Pool (Dequeue 1 (js ''Undercut Desconectado'')),
      Pool (Settle 0 (js ''Corte Buzz (com Degrad'' @ [234] @ js '')'') (Inr (js ''data:image/png;base64,BB''))),
      Pool (Dequeue 0 (js ''Coque Samurai'')),
      RetryStart (js ''Corte Buzz (com Degrad'' @ [234] @ js '')'')] ?c5"
    using sys_exec.sys_snoc [OF e4 s5] by simp
  let ?acts = "[Pool (Dequeue 0 (js ''Corte Buzz (com Degrad'' @ [234] @ js '')'')),
      Pool (Dequeue 1 (js ''Undercut Desconectado'')),
      Pool (Settle 0 (js ''Corte Buzz (com Degrad'' @ [234] @ js '')'') (Inr (js ''data:image/png;base64,BB''))),
      Pool (Dequeue 0 (js ''Coque Samurai'')),
      RetryStart (js ''Corte Buzz (com Degrad'' @ [234] @ js '')'')]"
  have d: "decode (runImage ?c0) = Inr \<lparr>mimeType = js ''image/png'', data = js ''AA''\<rparr>" using dec by simp
  from pool_concurrency_limit [of Masculino
     "\<lparr>uploadedImage = Some (js ''data:image/png;base64,AA''), generatedImages = Map.empty,
      isLoading = False, appState = ImageUploaded, selectedGender = None\<rparr>"
     ?c0 ?acts ?c5 "\<lparr>mimeType = js ''image/png'', data = js ''AA''\<rparr>"] start e5 d
  have inv: "length (dequeued (poolActs ?acts)) = length (settledLabels (poolActs ?acts)) + poolInFlight ?c5"
    and lim: "concurrencyLimit = 2"
    and ex: "\<exists>acts' s'. sys_exec
     ?c0 acts' s' \<and> awaitingAll s' \<and>
      length (dequeued (poolActs acts')) = length (settledLabels (poolActs acts')) + 2 \<and>
      poolInFlight s' = 2 \<and> retries s' \<noteq> [] \<and> remixes s' \<noteq> []"
    by blast+
  have n1: "length (settledLabels (poolActs ?acts)) = 1" by (simp add: poolActs_def settledLabels_def)
  have n2: "poolInFlight ?c5 = 2" by (simp add: poolInFlight_def)
  from inv n1 n2 have n3: "length (dequeued (poolActs ?acts)) = 3" by simp
  have r: "retries ?c5 =
     [\<lparr>callImage = js ''data:image/png;base64,AA'', callPrompt = stylePrompt Masculino (js ''Corte Buzz (com Degrad'' @ [234] @ js '')''),
                 callHairstyle = js ''Corte Buzz (com Degrad'' @ [234] @ js '')'', callGender = genderStr Masculino\<rparr>]" by simp
  from start e5 d n3 n1 n2 lim r ex show ?thesis by simp
qed

text \<open>
  C5: \<^verbatim>\<open>handleRegenerateDecade\<close>, called in a state that a started run has reached (the
  states in which cards are shown), on the items of the latest render, whatever steps of
  the pool and of the handlers came before. If the label's item is \<open>Pending\<close> the call changes
  nothing and issues no call. Otherwise it sets that item to \<open>Pending\<close> and issues one
  call of \<^verbatim>\<open>generateDecadeImage\<close> with the uploaded image, the prompt of that label and
  the chosen gender; the items of the other labels are as they were. When the call settles,
  the label's item is \<open>Done\<close> with the result, or \<open>Error\<close> with the failure's message
  (\<^verbatim>\<open>An unknown error occurred.\<close> when what was thrown is not an \<^verbatim>\<open>Error\<close>), and the
  items of the other labels are as they were.
\<close>

theorem handleRegenerateDecade_frame:
  assumes start: "startSys gender a = Some s0"
    and run: "sys_exec s0 acts s"
  shows
   "(isPending (app s) hairstyle \<longleftrightarrow>
       (\<exists>item. generatedImages (app s) hairstyle = Some item \<and> status item = Pending)) \<and>
    (isPending (app s) hairstyle \<longrightarrow>
       handleRegenerateDecade_start hairstyle (app s) = (app s, None) \<and>
       (\<forall>s'. sys_step s (RetryStart hairstyle) s' \<longrightarrow> s' = s)) \<and>
    (\<not> isPending (app s) hairstyle \<longrightarrow>
       handleRegenerateDecade_start hairstyle (app s) =
         ((app s)\<lparr>generatedImages := (generatedImages (app s))
               (hairstyle \<mapsto> \<lparr>status = Pending, url = None, error = None\<rparr>)\<rparr>,
          Some \<lparr>callImage = runImage s0,
                callPrompt =
                  js ''D'' @ [234] @ js '' '' @ [224] @ js '' pessoa nesta foto um penteado '' @
                  (if gender = Masculino then js ''masculino'' else js ''feminino'') @
                  js '' moderno '' @ [39] @ hairstyle @ [39] @
                  js ''. O resultado deve ser uma imagem fotorrealista, perfeita para uma consulta de barbearia, focando na mudan'' @
                  [231] @ js ''a do penteado e preservando ao m'' @ [225] @ js ''ximo as fei'' @
                  [231, 245] @ js ''es da pessoa.'',
                callHairstyle = hairstyle,
                callGender = (if gender = Masculino then js ''masculino'' else js ''feminino'')\<rparr>) \<and>
       uploadedImage (app s) = Some (runImage s0) \<and>
       (\<forall>s'. sys_step s (RetryStart hairstyle) s' \<longrightarrow>
          retries s' = retries s @ [the (snd (handleRegenerateDecade_start hairstyle (app s)))] \<and>
          app s' = fst (handleRegenerateDecade_start hairstyle (app s)))) \<and>
    (\<forall>other. other \<noteq> hairstyle \<longrightarrow>
       generatedImages (fst (handleRegenerateDecade_start hairstyle (app s))) other =
         generatedImages (app s) other) \<and>
    (\<forall>call r s'. sys_step s (RetrySettle call r) s' \<longrightarrow>
       call \<in> set (retries s) \<and>
       (\<exists>t tr. r = fst (generateDecadeImage t (callImage call) (callPrompt call)
                          (callHairstyle call) (callGender call) tr)) \<and>
       (\<forall>resultUrl. r = Inr resultUrl \<longrightarrow>
          generatedImages (app s') = (generatedImages (app s))
            (callHairstyle call \<mapsto> \<lparr>status = Done, url = Some resultUrl, error = None\<rparr>)) \<and>
       (\<forall>m. r = Inl (JsError m) \<longrightarrow>
          generatedImages (app s') = (generatedImages (app s))
            (callHairstyle call \<mapsto> \<lparr>status = Error, url = None, error = Some m\<rparr>)) \<and>
       (\<forall>json str. r = Inl (JsValue json str) \<longrightarrow>
          generatedImages (app s') = (generatedImages (app s))
            (callHairstyle call \<mapsto> \<lparr>status = Error, url = None,
                                       error = Some (js ''An unknown error occurred.'')\<rparr>)) \<and>
       (\<forall>other. other \<noteq> callHairstyle call \<longrightarrow>
          generatedImages (app s') other = generatedImages (app s) other))"
proof -
  obtain img where img: "uploadedImage a = Some img" "img \<noteq> []"
    and s0: "s0 = \<lparr>app = a\<lparr>selectedGender := Some gender, isLoading := True, appState := Generating,
                     generatedImages := initialImages (hairstylesOf gender)\<rparr>,
           hairstyleQueue = hairstylesOf gender,
           workers = [LoopHead, LoopHead],
           runImage = img, runGender = gender, awaitingAll = True,
           retries = [], remixes = []\<rparr>"
    using startSys_Some [OF start] by blast
  from sys_exec_fixed [OF run] s0 img
  have up: "uploadedImage (app s) = Some img" and sel: "selectedGender (app s) = Some gender"
    and ri: "runImage s0 = img" by simp_all
  have A: "isPending (app s) hairstyle \<longleftrightarrow>
       (\<exists>item. generatedImages (app s) hairstyle = Some item \<and> status item = Pending)"
    by (simp add: isPending_def split: option.splits)
  have B1: "isPending (app s) hairstyle \<Longrightarrow>
       handleRegenerateDecade_start hairstyle (app s) = (app s, None)"
    by (simp add: handleRegenerateDecade_start_def up sel)
  have B2: "s' = s" if p: "isPending (app s) hairstyle"
    and st: "sys_step s (RetryStart hairstyle) s'" for s'
    using st B1 [OF p] by (cases rule: sys_step.cases) auto
  have C1: "\<not> isPending (app s) hairstyle \<Longrightarrow>
       handleRegenerateDecade_start hairstyle (app s) =
         ((app s)\<lparr>generatedImages := (generatedImages (app s))
               (hairstyle \<mapsto> \<lparr>status = Pending, url = None, error = None\<rparr>)\<rparr>,
          Some \<lparr>callImage = runImage s0,
                callPrompt =
                  js ''D'' @ [234] @ js '' '' @ [224] @ js '' pessoa nesta foto um penteado '' @
                  (if gender = Masculino then js ''masculino'' else js ''feminino'') @
                  js '' moderno '' @ [39] @ hairstyle @ [39] @
                  js ''. O resultado deve ser uma imagem fotorrealista, perfeita para uma consulta de barbearia, focando na mudan'' @
                  [231] @ js ''a do penteado e preservando ao m'' @ [225] @ js ''ximo as fei'' @
                  [231, 245] @ js ''es da pessoa.'',
                callHairstyle = hairstyle,
                callGender = (if gender = Masculino then js ''masculino'' else js ''feminino'')\<rparr>)"
    using img(2)
    by (cases gender)
       (simp_all add: handleRegenerateDecade_start_def up sel ri pendingItem_def stylePrompt_def
          genderStr_def)
  have C2: "retries s' = retries s @ [the (snd (handleRegenerateDecade_start hairstyle (app s)))] \<and>
          app s' = fst (handleRegenerateDecade_start hairstyle (app s))"
    if p: "\<not> isPending (app s) hairstyle" and st: "sys_step s (RetryStart hairstyle) s'" for s'
    using st C1 [OF p] by (cases rule: sys_step.cases) auto
  have D: "\<forall>other. other \<noteq> hairstyle \<longrightarrow>
       generatedImages (fst (handleRegenerateDecade_start hairstyle (app s))) other =
         generatedImages (app s) other"
    by (auto simp add: handleRegenerateDecade_start_def split: option.splits)
  have E: "call \<in> set (retries s) \<and>
       (\<exists>t tr. r = fst (generateDecadeImage t (callImage call) (callPrompt call)
                          (callHairstyle call) (callGender call) tr)) \<and>
       (\<forall>resultUrl. r = Inr resultUrl \<longrightarrow>
          generatedImages (app s') = (generatedImages (app s))
            (callHairstyle call \<mapsto> \<lparr>status = Done, url = Some resultUrl, error = None\<rparr>)) \<and>
       (\<forall>m. r = Inl (JsError m) \<longrightarrow>
          generatedImages (app s') = (generatedImages (app s))
            (callHairstyle call \<mapsto> \<lparr>status = Error, url = None, error = Some m\<rparr>)) \<and>
       (\<forall>json str. r = Inl (JsValue json str) \<longrightarrow>
          generatedImages (app s') = (generatedImages (app s))
            (callHairstyle call \<mapsto> \<lparr>status = Error, url = None,
                                       error = Some (js ''An unknown error occurred.'')\<rparr>)) \<and>
       (\<forall>other. other \<noteq> callHairstyle call \<longrightarrow>
          generatedImages (app s') other = generatedImages (app s) other)"
    if st: "sys_step s (RetrySettle call r) s'" for call r s'
    using st
  proof (cases rule: sys_step.cases)
    case (retry_settle t tr)
    have ap: "app s' = handleRegenerateDecade_settle (callHairstyle call) r (app s)"
      using retry_settle(1) by simp
    have ex: "\<exists>t tr. r = fst (generateDecadeImage t (callImage call) (callPrompt call)
                          (callHairstyle call) (callGender call) tr)"
      using retry_settle(3) by blast
    have gi: "generatedImages (app s') = (generatedImages (app s))
        (callHairstyle call \<mapsto> (case r of Inr resultUrl \<Rightarrow> doneItem resultUrl
                                         | Inl err \<Rightarrow> errorItem (caughtMessage err)))"
      unfolding ap by (cases r) (simp_all add: handleRegenerateDecade_settle_def)
    have fr: "\<forall>other. other \<noteq> callHairstyle call \<longrightarrow>
          generatedImages (app s') other = generatedImages (app s) other"
      by (simp add: gi)
    have vals: "(\<forall>resultUrl. r = Inr resultUrl \<longrightarrow>
          generatedImages (app s') = (generatedImages (app s))
            (callHairstyle call \<mapsto> \<lparr>status = Done, url = Some resultUrl, error = None\<rparr>)) \<and>
       (\<forall>m. r = Inl (JsError m) \<longrightarrow>
          generatedImages (app s') = (generatedImages (app s))
            (callHairstyle call \<mapsto> \<lparr>status = Error, url = None, error = Some m\<rparr>)) \<and>
       (\<forall>json str. r = Inl (JsValue json str) \<longrightarrow>
          generatedImages (app s') = (generatedImages (app s))
            (callHairstyle call \<mapsto> \<lparr>status = Error, url = None,
                                       error = Some (js ''An unknown error occurred.'')\<rparr>))"
      by (simp add: gi doneItem_def errorItem_def caughtMessage_def)
    from retry_settle(2) ex fr vals show ?thesis by blast
  qed
  from A B1 B2 C1 C2 D E up ri show ?thesis by blast
qed
text \<open>After the first label's call has succeeded and while the second is in flight:
  a request for the first label resets it and issues the call, a request for the second
  changes nothing; the call issued fails and the item is \<open>Error\<close> with the message; asked
  again, it succeeds and the item is \<open>Done\<close> with the image.\<close>

theorem handleRegenerateDecade_frame_witness:
  "startSys Masculino
     \<lparr>uploadedImage = Some (js ''data:image/png;base64,AA''), generatedImages = Map.empty,
      isLoading = False, appState = ImageUploaded, selectedGender = None\<rparr> =
     Some \<lparr>app = \<lparr>uploadedImage = Some (js ''data:image/png;base64,AA''),
          generatedImages =
           [js ''Corte Buzz (com Degrad'' @ [234] @ js '')'' \<mapsto> \<lparr>status = Pending, url = None, error = None\<rparr>,
            js ''Undercut Desconectado'' \<mapsto> \<lparr>status = Pending, url = None, error = None\<rparr>,
            js ''Coque Samurai'' \<mapsto> \<lparr>status = Pending, url = None, error = None\<rparr>,
            js ''Cabelo M'' @ [233] @ js ''dio Despenteado'' \<mapsto> \<lparr>status = Pending, url = None, error = None\<rparr>,
            js ''Tran'' @ [231] @ js ''as Nag'' @ [244] \<mapsto> \<lparr>status = Pending, url = None, error = None\<rparr>,
            js ''Cabelo Longo Ondulado'' \<mapsto> \<lparr>status = Pending, url = None, error = None\<rparr>],
          isLoading = True, appState = Generating, selectedGender = Some Masculino\<rparr>,
      hairstyleQueue = [js ''Corte Buzz (com Degrad'' @ [234] @ js '')'', js ''Undercut Desconectado'', js ''Coque Samurai'', js ''Cabelo M'' @ [233] @ js ''dio Despenteado'', js ''Tran'' @ [231] @ js ''as Nag'' @ [244], js ''Cabelo Longo Ondulado''],
      workers = [LoopHead, LoopHead],
      runImage = js ''data:image/png;base64,AA'', runGender = Masculino, awaitingAll = True,
      retries = [], remixes = []\<rparr> \<and>
   sys_exec
     \<lparr>app = \<lparr>uploadedImage = Some (js ''data:image/png;base64,AA''),
          generatedImages =
           [js ''Corte Buzz (com Degrad'' @ [234] @ js '')'' \<mapsto> \<lparr>status = Pending, url = None, error = None\<rparr>,
            js ''Undercut Desconectado'' \<mapsto> \<lparr>status = Pending, url = None, error = None\<rparr>,
            js ''Coque Samurai'' \<mapsto> \<lparr>status = Pending, url = None, error = None\<rparr>,
            js ''Cabelo M'' @ [233] @ js ''dio Despenteado'' \<mapsto> \<lparr>status = Pending, url = None, error = None\<rparr>,
            js ''Tran'' @ [231] @ js ''as Nag'' @ [244] \<mapsto> \<lparr>status = Pending, url = None, error = None\<rparr>,
            js ''Cabelo Longo Ondulado'' \<mapsto> \<lparr>status = Pending, url = None, error = None\<rparr>],
          isLoading = True, appState = Generating, selectedGender = Some Masculino\<rparr>,
      hairstyleQueue = [js ''Corte Buzz (com Degrad'' @ [234] @ js '')'', js ''Undercut Desconectado'', js ''Coque Samurai'', js ''Cabelo M'' @ [233] @ js ''dio Despenteado'', js ''Tran'' @ [231] @ js ''as Nag'' @ [244], js ''Cabelo Longo Ondulado''],
      workers = [LoopHead, LoopHead],
      runImage = js ''data:image/png;base64,AA'', runGender = Masculino, awaitingAll = True,
      retries = [], remixes = []\<rparr>
     [Pool (Dequeue 0 (js ''Corte Buzz (com Degrad'' @ [234] @ js '')'')),
      Pool (Dequeue 1 (js ''Undercut Desconectado'')),
      Pool (Settle 0 (js ''Corte Buzz (com Degrad'' @ [234] @ js '')'') (Inr (js ''data:image/png;base64,BB'')))]
     \<lparr>app = \<lparr>uploadedImage = Some (js ''data:image/png;base64,AA''),
          generatedImages =
           [js ''Corte Buzz (com Degrad'' @ [234] @ js '')'' \<mapsto> \<lparr>status = Pending, url = None, error = None\<rparr>,
            js ''Undercut Desconectado'' \<mapsto> \<lparr>status = Pending, url = None, error = None\<rparr>,
            js ''Coque Samurai'' \<mapsto> \<lparr>status = Pending, url = None, error = None\<rparr>,
            js ''Cabelo M'' @ [233] @ js ''dio Despenteado'' \<mapsto> \<lparr>status = Pending, url = None, error = None\<rparr>,
            js ''Tran'' @ [231] @ js ''as Nag'' @ [244] \<mapsto> \<lparr>status = Pending, url = None, error = None\<rparr>,
            js ''Cabelo Longo Ondulado'' \<mapsto> \<lparr>status = Pending, url = None, error = None\<rparr>,
            js ''Corte Buzz (com Degrad'' @ [234] @ js '')'' \<mapsto> \<lparr>status = Done, url = Some (js ''data:image/png;base64,BB''), error = None\<rparr>],
          isLoading = True, appState = Generating, selectedGender = Some Masculino\<rparr>,
      hairstyleQueue = [js ''Coque Samurai'', js ''Cabelo M'' @ [233] @ js ''dio Despenteado'', js ''Tran'' @ [231] @ js ''as Nag'' @ [244], js ''Cabelo Longo Ondulado''],
      workers = [LoopHead, Awaiting (js ''Undercut Desconectado'')],
      runImage = js ''data:image/png;base64,AA'', runGender = Masculino, awaitingAll = True,
      retries = [], remixes = []\<rparr> \<and>
   \<not> isPending (app
     \<lparr>app = \<lparr>uploadedImage = Some (js ''data:image/png;base64,AA''),
          generatedImages =
           [js ''Corte Buzz (com Degrad'' @ [234] @ js '')'' \<mapsto> \<lparr>status = Pending, url = None, error = None\<rparr>,
            js ''Undercut Desconectado'' \<mapsto> \<lparr>status = Pending, url = None, error = None\<rparr>,
            js ''Coque Samurai'' \<mapsto> \<lparr>status = Pending, url = None, error = None\<rparr>,
            js ''Cabelo M'' @ [233] @ js ''dio Despenteado'' \<mapsto> \<lparr>status = Pending, url = None, error = None\<rparr>,
            js ''Tran'' @ [231] @ js ''as Nag'' @ [244] \<mapsto> \<lparr>status = Pending, url = None, error = None\<rparr>,
            js ''Cabelo Longo Ondulado'' \<mapsto> \<lparr>status = Pending, url = None, error = None\<rparr>,
            js ''Corte Buzz (com Degrad'' @ [234] @ js '')'' \<mapsto> \<lparr>status = Done, url = Some (js ''data:image/png;base64,BB''), error = None\<rparr>],
          isLoading = True, appState = Generating, selectedGender = Some Masculino\<rparr>,
      hairstyleQueue = [js ''Coque Samurai'', js ''Cabelo M'' @ [233] @ js ''dio Despenteado'', js ''Tran'' @ [231] @ js ''as Nag'' @ [244], js ''Cabelo Longo Ondulado''],
      workers = [LoopHead, Awaiting (js ''Undercut Desconectado'')],
      runImage = js ''data:image/png;base64,AA'', runGender = Masculino, awaitingAll = True,
      retries = [], remixes = []\<rparr>)
     (js ''Corte Buzz (com Degrad'' @ [234] @ js '')'') \<and>
   handleRegenerateDecade_start (js ''Corte Buzz (com Degrad'' @ [234] @ js '')'') (app
     \<lparr>app = \<lparr>uploadedImage = Some (js ''data:image/png;base64,AA''),
          generatedImages =
           [js ''Corte Buzz (com Degrad'' @ [234] @ js '')'' \<mapsto> \<lparr>status = Pending, url = None, error = None\<rparr>,
            js ''Undercut Desconectado'' \<mapsto> \<lparr>status = Pending, url = None, error = None\<rparr>,
            js ''Coque Samurai'' \<mapsto> \<lparr>status = Pending, url = None, error = None\<rparr>,
            js ''Cabelo M'' @ [233] @ js ''dio Despenteado'' \<mapsto> \<lparr>status = Pending, url = None, error = None\<rparr>,
            js ''Tran'' @ [231] @ js ''as Nag'' @ [244] \<mapsto> \<lparr>status = Pending, url = None, error = None\<rparr>,
            js ''Cabelo Longo Ondulado'' \<mapsto> \<lparr>status = Pending, url = None, error = None\<rparr>,
            js ''Corte Buzz (com Degrad'' @ [234] @ js '')'' \<mapsto> \<lparr>status = Done, url = Some (js ''data:image/png;base64,BB''), error = None\<rparr>],
          isLoading = True, appState = Generating, selectedGender = Some Masculino\<rparr>,
      hairstyleQueue = [js ''Coque Samurai'', js ''Cabelo M'' @ [233] @ js ''dio Despenteado'', js ''Tran'' @ [231] @ js ''as Nag'' @ [244], js ''Cabelo Longo Ondulado''],
      workers = [LoopHead, Awaiting (js ''Undercut Desconectado'')],
      runImage = js ''data:image/png;base64,AA'', runGender = Masculino, awaitingAll = True,
      retries = [], remixes = []\<rparr>) =
     (app
     \<lparr>app = \<lparr>uploadedImage = Some (js ''data:image/png;base64,AA''),
          generatedImages =
           [js ''Corte Buzz (com Degrad'' @ [234] @ js '')'' \<mapsto> \<lparr>status = Pending, url = None, error = None\<rparr>,
            js ''Undercut Desconectado'' \<mapsto> \<lparr>status = Pending, url = None, error = None\<rparr>,
            js ''Coque Samurai'' \<mapsto> \<lparr>status = Pending, url = None, error = None\<rparr>,
            js ''Cabelo M'' @ [233] @ js ''dio Despenteado'' \<mapsto> \<lparr>status = Pending, url = None, error = None\<rparr>,
            js ''Tran'' @ [231] @ js ''as Nag'' @ [244] \<mapsto> \<lparr>status = Pending, url = None, error = None\<rparr>,
            js ''Cabelo Longo Ondulado'' \<mapsto> \<lparr>status = Pending, url = None, error = None\<rparr>,
            js ''Corte Buzz (com Degrad'' @ [234] @ js '')'' \<mapsto> \<lparr>status = Pending, url = None, error = None\<rparr>],
          isLoading = True, appState = Generating, selectedGender = Some Masculino\<rparr>,
      hairstyleQueue = [js ''Coque Samurai'', js ''Cabelo M'' @ [233] @ js ''dio Despenteado'', js ''Tran'' @ [231] @ js ''as Nag'' @ [244], js ''Cabelo Longo Ondulado''],
      workers = [LoopHead, Awaiting (js ''Undercut Desconectado'')],
      runImage = js ''data:image/png;base64,AA'', runGender = Masculino, awaitingAll = True,
      retries = [\<lparr>callImage = js ''data:image/png;base64,AA'',
                callPrompt =
                  js ''D'' @ [234] @ js '' '' @ [224] @ js '' pessoa nesta foto um penteado '' @
                  js ''masculino'' @ js '' moderno '' @ [39] @ js ''Corte Buzz (com Degrad'' @ [234] @ js '')'' @ [39] @
                  js ''. O resultado deve ser uma imagem fotorrealista, perfeita para uma consulta de barbearia, focando na mudan'' @
                  [231] @ js ''a do penteado e preservando ao m'' @ [225] @ js ''ximo as fei'' @
                  [231, 245] @ js ''es da pessoa.'',
                callHairstyle = js ''Corte Buzz (com Degrad'' @ [234] @ js '')'', callGender = js ''masculino''\<rparr>], remixes = []\<rparr>,
      Some \<lparr>callImage = js ''data:image/png;base64,AA'',
                callPrompt =
                  js ''D'' @ [234] @ js '' '' @ [224] @ js '' pessoa nesta foto um penteado '' @
                  js ''masculino'' @ js '' moderno '' @ [39] @ js ''Corte Buzz (com Degrad'' @ [234] @ js '')'' @ [39] @
                  js ''. O resultado deve ser uma imagem fotorrealista, perfeita para uma consulta de barbearia, focando na mudan'' @
                  [231] @ js ''a do penteado e preservando ao m'' @ [225] @ js ''ximo as fei'' @
                  [231, 245] @ js ''es da pessoa.'',
                callHairstyle = js ''Corte Buzz (com Degrad'' @ [234] @ js '')'', callGender = js ''masculino''\<rparr>) \<and>
   isPending (app
     \<lparr>app = \<lparr>uploadedImage = Some (js ''data:image/png;base64,AA''),
          generatedImages =
           [js ''Corte Buzz (com Degrad'' @ [234] @ js '')'' \<mapsto> \<lparr>status = Pending, url = None, error = None\<rparr>,
            js ''Undercut Desconectado'' \<mapsto> \<lparr>status = Pending, url = None, error = None\<rparr>,
            js ''Coque Samurai'' \<mapsto> \<lparr>status = Pending, url = None, error = None\<rparr>,
            js ''Cabelo M'' @ [233] @ js ''dio Despenteado'' \<mapsto> \<lparr>status = Pending, url = None, error = None\<rparr>,
            js ''Tran'' @ [231] @ js ''as Nag'' @ [244] \<mapsto> \<lparr>status = Pending, url = None, error = None\<rparr>,
            js ''Cabelo Longo Ondulado'' \<mapsto> \<lparr>status = Pending, url = None, error = None\<rparr>,
            js ''Corte Buzz (com Degrad'' @ [234] @ js '')'' \<mapsto> \<lparr>status = Done, url = Some (js ''data:image/png;base64,BB''), error = None\<rparr>],
          isLoading = True, appState = Generating, selectedGender = Some Masculino\<rparr>,
      hairstyleQueue = [js ''Coque Samurai'', js ''Cabelo M'' @ [233] @ js ''dio Despenteado'', js ''Tran'' @ [231] @ js ''as Nag'' @ [244], js ''Cabelo Longo Ondulado''],
      workers = [LoopHead, Awaiting (js ''Undercut Desconectado'')],
      runImage = js ''data:image/png;base64,AA'', runGender = Masculino, awaitingAll = True,
      retries = [], remixes = []\<rparr>)
     (js ''Undercut Desconectado'') \<and>
   handleRegenerateDecade_start (js ''Undercut Desconectado'') (app
     \<lparr>app = \<lparr>uploadedImage = Some (js ''data:image/png;base64,AA''),
          generatedImages =
           [js ''Corte Buzz (com Degrad'' @ [234] @ js '')'' \<mapsto> \<lparr>status = Pending, url = None, error = None\<rparr>,
            js ''Undercut Desconectado'' \<mapsto> \<lparr>status = Pending, url = None, error = None\<rparr>,
            js ''Coque Samurai'' \<mapsto> \<lparr>status = Pending, url = None, error = None\<rparr>,
            js ''Cabelo M'' @ [233] @ js ''dio Despenteado'' \<mapsto> \<lparr>status = Pending, url = None, error = None\<rparr>,
            js ''Tran'' @ [231] @ js ''as Nag'' @ [244] \<mapsto> \<lparr>status = Pending, url = None, error = None\<rparr>,
            js ''Cabelo Longo Ondulado'' \<mapsto> \<lparr>status = Pending, url = None, error = None\<rparr>,
            js ''Corte Buzz (com Degrad'' @ [234] @ js '')'' \<mapsto> \<lparr>status = Done, url = Some (js ''data:image/png;base64,BB''), error = None\<rparr>],
          isLoading = True, appState = Generating, selectedGender = Some Masculino\<rparr>,
      hairstyleQueue = [js ''Coque Samurai'', js ''Cabelo M'' @ [233] @ js ''dio Despenteado'', js ''Tran'' @ [231] @ js ''as Nag'' @ [244], js ''Cabelo Longo Ondulado''],
      workers = [LoopHead, Awaiting (js ''Undercut Desconectado'')],
      runImage = js ''data:image/png;base64,AA'', runGender = Masculino, awaitingAll = True,
      retries = [], remixes = []\<rparr>) =
     (app
     \<lparr>app = \<lparr>uploadedImage = Some (js ''data:image/png;base64,AA''),
          generatedImages =
           [js ''Corte Buzz (com Degrad'' @ [234] @ js '')'' \<mapsto> \<lparr>status = Pending, url = None, error = None\<rparr>,
            js ''Undercut Desconectado'' \<mapsto> \<lparr>status = Pending, url = None, error = None\<rparr>,
            js ''Coque Samurai'' \<mapsto> \<lparr>status = Pending, url = None, error = None\<rparr>,
            js ''Cabelo M'' @ [233] @ js ''dio Despenteado'' \<mapsto> \<lparr>status = Pending, url = None, error = None\<rparr>,
            js ''Tran'' @ [231] @ js ''as Nag'' @ [244] \<mapsto> \<lparr>status = Pending, url = None, error = None\<rparr>,
            js ''Cabelo Longo Ondulado'' \<mapsto> \<lparr>status = Pending, url = None, error = None\<rparr>,
            js ''Corte Buzz (com Degrad'' @ [234] @ js '')'' \<mapsto> \<lparr>status = Done, url = Some (js ''data:image/png;base64,BB''), error = None\<rparr>],
          isLoading = True, appState = Generating, selectedGender = Some Masculino\<rparr>,
      hairstyleQueue = [js ''Coque Samurai'', js ''Cabelo M'' @ [233] @ js ''dio Despenteado'', js ''Tran'' @ [231] @ js ''as Nag'' @ [244], js ''Cabelo Longo Ondulado''],
      workers = [LoopHead, Awaiting (js ''Undercut Desconectado'')],
      runImage = js ''data:image/png;base64,AA'', runGender = Masculino, awaitingAll = True,
      retries = [], remixes = []\<rparr>, None) \<and>
   sys_step
     \<lparr>app = \<lparr>uploadedImage = Some (js ''data:image/png;base64,AA''),
          generatedImages =
           [js ''Corte Buzz (com Degrad'' @ [234] @ js '')'' \<mapsto> \<lparr>status = Pending, url = None, error = None\<rparr>,
            js ''Undercut Desconectado'' \<mapsto> \<lparr>status = Pending, url = None, error = None\<rparr>,
            js ''Coque Samurai'' \<mapsto> \<lparr>status = Pending, url = None, error = None\<rparr>,
            js ''Cabelo M'' @ [233] @ js ''dio Despenteado'' \<mapsto> \<lparr>status = Pending, url = None, error = None\<rparr>,
            js ''Tran'' @ [231] @ js ''as Nag'' @ [244] \<mapsto> \<lparr>status = Pending, url = None, error = None\<rparr>,
            js ''Cabelo Longo Ondulado'' \<mapsto> \<lparr>status = Pending, url = None, error = None\<rparr>,
            js ''Corte Buzz (com Degrad'' @ [234] @ js '')'' \<mapsto> \<lparr>status = Pending, url = None, error = None\<rparr>],
          isLoading = True, appState = Generating, selectedGender = Some Masculino\<rparr>,
      hairstyleQueue = [js ''Coque Samurai'', js ''Cabelo M'' @ [233] @ js ''dio Despenteado'', js ''Tran'' @ [231] @ js ''as Nag'' @ [244], js ''Cabelo Longo Ondulado''],
      workers = [LoopHead, Awaiting (js ''Undercut Desconectado'')],
      runImage = js ''data:image/png;base64,AA'', runGender = Masculino, awaitingAll = True,
      retries = [\<lparr>callImage = js ''data:image/png;base64,AA'',
                callPrompt =
                  js ''D'' @ [234] @ js '' '' @ [224] @ js '' pessoa nesta foto um penteado '' @
                  js ''masculino'' @ js '' moderno '' @ [39] @ js ''Corte Buzz (com Degrad'' @ [234] @ js '')'' @ [39] @
                  js ''. O resultado deve ser uma imagem fotorrealista, perfeita para uma consulta de barbearia, focando na mudan'' @
                  [231] @ js ''a do penteado e preservando ao m'' @ [225] @ js ''ximo as fei'' @
                  [231, 245] @ js ''es da pessoa.'',
                callHairstyle = js ''Corte Buzz (com Degrad'' @ [234] @ js '')'', callGender = js ''masculino''\<rparr>], remixes = []\<rparr>
     (RetrySettle
       \<lparr>callImage = js ''data:image/png;base64,AA'',
                callPrompt =
                  js ''D'' @ [234] @ js '' '' @ [224] @ js '' pessoa nesta foto um penteado '' @
                  js ''masculino'' @ js '' moderno '' @ [39] @ js ''Corte Buzz (com Degrad'' @ [234] @ js '')'' @ [39] @
                  js ''. O resultado deve ser uma imagem fotorrealista, perfeita para uma consulta de barbearia, focando na mudan'' @
                  [231] @ js ''a do penteado e preservando ao m'' @ [225] @ js ''ximo as fei'' @
                  [231, 245] @ js ''es da pessoa.'',
                callHairstyle = js ''Corte Buzz (com Degrad'' @ [234] @ js '')'', callGender = js ''masculino''\<rparr>
       (Inl (JsError (js ''O modelo de IA n'' @ [227] @ js ''o conseguiu gerar uma imagem. Detalhes: '' @ js ''quota exceeded''))))
     \<lparr>app = \<lparr>uploadedImage = Some (js ''data:image/png;base64,AA''),
          generatedImages =
           [js ''Corte Buzz (com Degrad'' @ [234] @ js '')'' \<mapsto> \<lparr>status = Pending, url = None, error = None\<rparr>,
            js ''Undercut Desconectado'' \<mapsto> \<lparr>status = Pending, url = None, error = None\<rparr>,
            js ''Coque Samurai'' \<mapsto> \<lparr>status = Pending, url = None, error = None\<rparr>,
            js ''Cabelo M'' @ [233] @ js ''dio Despenteado'' \<mapsto> \<lparr>status = Pending, url = None, error = None\<rparr>,
            js ''Tran'' @ [231] @ js ''as Nag'' @ [244] \<mapsto> \<lparr>status = Pending, url = None, error = None\<rparr>,
            js ''Cabelo Longo Ondulado'' \<mapsto> \<lparr>status = Pending, url = None, error = None\<rparr>,
            js ''Corte Buzz (com Degrad'' @ [234] @ js '')'' \<mapsto> \<lparr>status = Error, url = None, error = Some (js ''O modelo de IA n'' @ [227] @ js ''o conseguiu gerar uma imagem. Detalhes: '' @ js ''quota exceeded'')\<rparr>],
          isLoading = True, appState = Generating, selectedGender = Some Masculino\<rparr>,
      hairstyleQueue = [js ''Coque Samurai'', js ''Cabelo M'' @ [233] @ js ''dio Despenteado'', js ''Tran'' @ [231] @ js ''as Nag'' @ [244], js ''Cabelo Longo Ondulado''],
      workers = [LoopHead, Awaiting (js ''Undercut Desconectado'')],
      runImage = js ''data:image/png;base64,AA'', runGender = Masculino, awaitingAll = True,
      retries = [], remixes = []\<rparr> \<and>
   generatedImages (app
     \<lparr>app = \<lparr>uploadedImage = Some (js ''data:image/png;base64,AA''),
          generatedImages =
           [js ''Corte Buzz (com Degrad'' @ [234] @ js '')'' \<mapsto> \<lparr>status = Pending, url = None, error = None\<rparr>,
            js ''Undercut Desconectado'' \<mapsto> \<lparr>status = Pending, url = None, error = None\<rparr>,
            js ''Coque Samurai'' \<mapsto> \<lparr>status = Pending, url = None, error = None\<rparr>,
            js ''Cabelo M'' @ [233] @ js ''dio Despenteado'' \<mapsto> \<lparr>status = Pending, url = None, error = None\<rparr>,
            js ''Tran'' @ [231] @ js ''as Nag'' @ [244] \<mapsto> \<lparr>status = Pending, url = None, error = None\<rparr>,
            js ''Cabelo Longo Ondulado'' \<mapsto> \<lparr>status = Pending, url = None, error = None\<rparr>,
            js ''Corte Buzz (com Degrad'' @ [234] @ js '')'' \<mapsto> \<lparr>status = Error, url = None, error = Some (js ''O modelo de IA n'' @ [227] @ js ''o conseguiu gerar uma imagem. Detalhes: '' @ js ''quota exceeded'')\<rparr>],
          isLoading = True, appState = Generating, selectedGender = Some Masculino\<rparr>,
      hairstyleQueue = [js ''Coque Samurai'', js ''Cabelo M'' @ [233] @ js ''dio Despenteado'', js ''Tran'' @ [231] @ js ''as Nag'' @ [244], js ''Cabelo Longo Ondulado''],
      workers = [LoopHead, Awaiting (js ''Undercut Desconectado'')],
      runImage = js ''data:image/png;base64,AA'', runGender = Masculino, awaitingAll = True,
      retries = [], remixes = []\<rparr>)
     (js ''Corte Buzz (com Degrad'' @ [234] @ js '')'') = Some \<lparr>status = Error, url = None, error = Some (js ''O modelo de IA n'' @ [227] @ js ''o conseguiu gerar uma imagem. Detalhes: '' @ js ''quota exceeded'')\<rparr> \<and>
   generatedImages (app
     \<lparr>app = \<lparr>uploadedImage = Some (js ''data:image/png;base64,AA''),
          generatedImages =
           [js ''Corte Buzz (com Degrad'' @ [234] @ js '')'' \<mapsto> \<lparr>status = Pending, url = None, error = None\<rparr>,
            js ''Undercut Desconectado'' \<mapsto> \<lparr>status = Pending, url = None, error = None\<rparr>,
            js ''Coque Samurai'' \<mapsto> \<lparr>status = Pending, url = None, error = None\<rparr>,
            js ''Cabelo M'' @ [233] @ js ''dio Despenteado'' \<mapsto> \<lparr>status = Pending, url = None, error = None\<rparr>,
            js ''Tran'' @ [231] @ js ''as Nag'' @ [244] \<mapsto> \<lparr>status = Pending, url = None, error = None\<rparr>,
            js ''Cabelo Longo Ondulado'' \<mapsto> \<lparr>status = Pending, url = None, error = None\<rparr>,
            js ''Corte Buzz (com Degrad'' @ [234] @ js '')'' \<mapsto> \<lparr>status = Error, url = None, error = Some (js ''O modelo de IA n'' @ [227] @ js ''o conseguiu gerar uma imagem. Detalhes: '' @ js ''quota exceeded'')\<rparr>],
          isLoading = True, appState = Generating, selectedGender = Some Masculino\<rparr>,
      hairstyleQueue = [js ''Coque Samurai'', js ''Cabelo M'' @ [233] @ js ''dio Despenteado'', js ''Tran'' @ [231] @ js ''as Nag'' @ [244], js ''Cabelo Longo Ondulado''],
      workers = [LoopHead, Awaiting (js ''Undercut Desconectado'')],
      runImage = js ''data:image/png;base64,AA'', runGender = Masculino, awaitingAll = True,
      retries = [], remixes = []\<rparr>)
     (js ''Undercut Desconectado'') = Some \<lparr>status = Pending, url = None, error = None\<rparr> \<and>
   generatedImages (app
     \<lparr>app = \<lparr>uploadedImage = Some (js ''data:image/png;base64,AA''),
          generatedImages =
           [js ''Corte Buzz (com Degrad'' @ [234] @ js '')'' \<mapsto> \<lparr>status = Pending, url = None, error = None\<rparr>,
            js ''Undercut Desconectado'' \<mapsto> \<lparr>status = Pending, url = None, error = None\<rparr>,
            js ''Coque Samurai'' \<mapsto> \<lparr>status = Pending, url = None, error = None\<rparr>,
            js ''Cabelo M'' @ [233] @ js ''dio Despenteado'' \<mapsto> \<lparr>status = Pending, url = None, error = None\<rparr>,
            js ''Tran'' @ [231] @ js ''as Nag'' @ [244] \<mapsto> \<lparr>status = Pending, url = None, error = None\<rparr>,
            js ''Cabelo Longo Ondulado'' \<mapsto> \<lparr>status = Pending, url = None, error = None\<rparr>,
            js ''Corte Buzz (com Degrad'' @ [234] @ js '')'' \<mapsto> \<lparr>status = Error, url = None, error = Some (js ''O modelo de IA n'' @ [227] @ js ''o conseguiu gerar uma imagem. Detalhes: '' @ js ''quota exceeded'')\<rparr>],
          isLoading = True, appState = Generating, selectedGender = Some Masculino\<rparr>,
      hairstyleQueue = [js ''Coque Samurai'', js ''Cabelo M'' @ [233] @ js ''dio Despenteado'', js ''Tran'' @ [231] @ js ''as Nag'' @ [244], js ''Cabelo Longo Ondulado''],
      workers = [LoopHead, Awaiting (js ''Undercut Desconectado'')],
      runImage = js ''data:image/png;base64,AA'', runGender = Masculino, awaitingAll = True,
      retries = [], remixes = []\<rparr>)
     (js ''Coque Samurai'') = generatedImages (app
     \<lparr>app = \<lparr>uploadedImage = Some (js ''data:image/png;base64,AA''),
          generatedImages =
           [js ''Corte Buzz (com Degrad'' @ [234] @ js '')'' \<mapsto> \<lparr>status = Pending, url = None, error = None\<rparr>,
            js ''Undercut Desconectado'' \<mapsto> \<lparr>status = Pending, url = None, error = None\<rparr>,
            js ''Coque Samurai'' \<mapsto> \<lparr>status = Pending, url = None, error = None\<rparr>,
            js ''Cabelo M'' @ [233] @ js ''dio Despenteado'' \<mapsto> \<lparr>status = Pending, url = None, error = None\<rparr>,
            js ''Tran'' @ [231] @ js ''as Nag'' @ [244] \<mapsto> \<lparr>status = Pending, url = None, error = None\<rparr>,
            js ''Cabelo Longo Ondulado'' \<mapsto> \<lparr>status = Pending, url = None, error = None\<rparr>,
            js ''Corte Buzz (com Degrad'' @ [234] @ js '')'' \<mapsto> \<lparr>status = Pending, url = None, error = None\<rparr>],
          isLoading = True, appState = Generating, selectedGender = Some Masculino\<rparr>,
      hairstyleQueue = [js ''Coque Samurai'', js ''Cabelo M'' @ [233] @ js ''dio Despenteado'', js ''Tran'' @ [231] @ js ''as Nag'' @ [244], js ''Cabelo Longo Ondulado''],
      workers = [LoopHead, Awaiting (js ''Undercut Desconectado'')],
      runImage = js ''data:image/png;base64,AA'', runGender = Masculino, awaitingAll = True,
      retries = [\<lparr>callImage = js ''data:image/png;base64,AA'',
                callPrompt =
                  js ''D'' @ [234] @ js '' '' @ [224] @ js '' pessoa nesta foto um penteado '' @
                  js ''masculino'' @ js '' moderno '' @ [39] @ js ''Corte Buzz (com Degrad'' @ [234] @ js '')'' @ [39] @
                  js ''. O resultado deve ser uma imagem fotorrealista, perfeita para uma consulta de barbearia, focando na mudan'' @
                  [231] @ js ''a do penteado e preservando ao m'' @ [225] @ js ''ximo as fei'' @
                  [231, 245] @ js ''es da pessoa.'',
                callHairstyle = js ''Corte Buzz (com Degrad'' @ [234] @ js '')'', callGender = js ''masculino''\<rparr>], remixes = []\<rparr>)
     (js ''Coque Samurai'') \<and>
   sys_step
     \<lparr>app = \<lparr>uploadedImage = Some (js ''data:image/png;base64,AA''),
          generatedImages =
           [js ''Corte Buzz (com Degrad'' @ [234] @ js '')'' \<mapsto> \<lparr>status = Pending, url = None, error = None\<rparr>,
            js ''Undercut Desconectado'' \<mapsto> \<lparr>status = Pending, url = None, error = None\<rparr>,
            js ''Coque Samurai'' \<mapsto> \<lparr>status = Pending, url = None, error = None\<rparr>,
            js ''Cabelo M'' @ [233] @ js ''dio Despenteado'' \<mapsto> \<lparr>status = Pending, url = None, error = None\<rparr>,
            js ''Tran'' @ [231] @ js ''as Nag'' @ [244] \<mapsto> \<lparr>status = Pending, url = None, error = None\<rparr>,
            js ''Cabelo Longo Ondulado'' \<mapsto> \<lparr>status = Pending, url = None, error = None\<rparr>,
            js ''Corte Buzz (com Degrad'' @ [234] @ js '')'' \<mapsto> \<lparr>status = Pending, url = None, error = None\<rparr>],
          isLoading = True, appState = Generating, selectedGender = Some Masculino\<rparr>,
      hairstyleQueue = [js ''Coque Samurai'', js ''Cabelo M'' @ [233] @ js ''dio Despenteado'', js ''Tran'' @ [231] @ js ''as Nag'' @ [244], js ''Cabelo Longo Ondulado''],
      workers = [LoopHead, Awaiting (js ''Undercut Desconectado'')],
      runImage = js ''data:image/png;base64,AA'', runGender = Masculino, awaitingAll = True,
      retries = [\<lparr>callImage = js ''data:image/png;base64,AA'',
                callPrompt =
                  js ''D'' @ [234] @ js '' '' @ [224] @ js '' pessoa nesta foto um penteado '' @
                  js ''masculino'' @ js '' moderno '' @ [39] @ js ''Corte Buzz (com Degrad'' @ [234] @ js '')'' @ [39] @
                  js ''. O resultado deve ser uma imagem fotorrealista, perfeita para uma consulta de barbearia, focando na mudan'' @
                  [231] @ js ''a do penteado e preservando ao m'' @ [225] @ js ''ximo as fei'' @
                  [231, 245] @ js ''es da pessoa.'',
                callHairstyle = js ''Corte Buzz (com Degrad'' @ [234] @ js '')'', callGender = js ''masculino''\<rparr>], remixes = []\<rparr>
     (RetrySettle
       \<lparr>callImage = js ''data:image/png;base64,AA'',
                callPrompt =
                  js ''D'' @ [234] @ js '' '' @ [224] @ js '' pessoa nesta foto um penteado '' @
                  js ''masculino'' @ js '' moderno '' @ [39] @ js ''Corte Buzz (com Degrad'' @ [234] @ js '')'' @ [39] @
                  js ''. O resultado deve ser uma imagem fotorrealista, perfeita para uma consulta de barbearia, focando na mudan'' @
                  [231] @ js ''a do penteado e preservando ao m'' @ [225] @ js ''ximo as fei'' @
                  [231, 245] @ js ''es da pessoa.'',
                callHairstyle = js ''Corte Buzz (com Degrad'' @ [234] @ js '')'', callGender = js ''masculino''\<rparr>
       (Inr (js ''data:image/png;base64,BB'')))
     \<lparr>app = \<lparr>uploadedImage = Some (js ''data:image/png;base64,AA''),
          generatedImages =
           [js ''Corte Buzz (com Degrad'' @ [234] @ js '')'' \<mapsto> \<lparr>status = Pending, url = None, error = None\<rparr>,
            js ''Undercut Desconectado'' \<mapsto> \<lparr>status = Pending, url = None, error = None\<rparr>,
            js ''Coque Samurai'' \<mapsto> \<lparr>status = Pending, url = None, error = None\<rparr>,
            js ''Cabelo M'' @ [233] @ js ''dio Despenteado'' \<mapsto> \<lparr>status = Pending, url = None, error = None\<rparr>,
            js ''Tran'' @ [231] @ js ''as Nag'' @ [244] \<mapsto> \<lparr>status = Pending, url = None, error = None\<rparr>,
            js ''Cabelo Longo Ondulado'' \<mapsto> \<lparr>status = Pending, url = None, error = None\<rparr>,
            js ''Corte Buzz (com Degrad'' @ [234] @ js '')'' \<mapsto> \<lparr>status = Done, url = Some (js ''data:image/png;base64,BB''), error = None\<rparr>],
          isLoading = True, appState = Generating, selectedGender = Some Masculino\<rparr>,
      hairstyleQueue = [js ''Coque Samurai'', js ''Cabelo M'' @ [233] @ js ''dio Despenteado'', js ''Tran'' @ [231] @ js ''as Nag'' @ [244], js ''Cabelo Longo Ondulado''],
      workers = [LoopHead, Awaiting (js ''Undercut Desconectado'')],
      runImage = js ''data:image/png;base64,AA'', runGender = Masculino, awaitingAll = True,
      retries = [], remixes = []\<rparr> \<and>
   generatedImages (app
     \<lparr>app = \<lparr>uploadedImage = Some (js ''data:image/png;base64,AA''),
          generatedImages =
           [js ''Corte Buzz (com Degrad'' @ [234] @ js '')'' \<mapsto> \<lparr>status = Pending, url = None, error = None\<rparr>,
            js ''Undercut Desconectado'' \<mapsto> \<lparr>status = Pending, url = None, error = None\<rparr>,
            js ''Coque Samurai'' \<mapsto> \<lparr>status = Pending, url = None, error = None\<rparr>,
            js ''Cabelo M'' @ [233] @ js ''dio Despenteado'' \<mapsto> \<lparr>status = Pending, url = None, error = None\<rparr>,
            js ''Tran'' @ [231] @ js ''as Nag'' @ [244] \<mapsto> \<lparr>status = Pending, url = None, error = None\<rparr>,
            js ''Cabelo Longo Ondulado'' \<mapsto> \<lparr>status = Pending, url = None, error = None\<rparr>,
            js ''Corte Buzz (com Degrad'' @ [234] @ js '')'' \<mapsto> \<lparr>status = Done, url = Some (js ''data:image/png;base64,BB''), error = None\<rparr>],
          isLoading = True, appState = Generating, selectedGender = Some Masculino\<rparr>,
      hairstyleQueue = [js ''Coque Samurai'', js ''Cabelo M'' @ [233] @ js ''dio Despenteado'', js ''Tran'' @ [231] @ js ''as Nag'' @ [244], js ''Cabelo Longo Ondulado''],
      workers = [LoopHead, Awaiting (js ''Undercut Desconectado'')],
      runImage = js ''data:image/png;base64,AA'', runGender = Masculino, awaitingAll = True,
      retries = [], remixes = []\<rparr>)
     (js ''Corte Buzz (com Degrad'' @ [234] @ js '')'') = Some \<lparr>status = Done, url = Some (js ''data:image/png;base64,BB''), error = None\<rparr> \<and>
   generatedImages (app
     \<lparr>app = \<lparr>uploadedImage = Some (js ''data:image/png;base64,AA''),
          generatedImages =
           [js ''Corte Buzz (com Degrad'' @ [234] @ js '')'' \<mapsto> \<lparr>status = Pending, url = None, error = None\<rparr>,
            js ''Undercut Desconectado'' \<mapsto> \<lparr>status = Pending, url = None, error = None\<rparr>,
            js ''Coque Samurai'' \<mapsto> \<lparr>status = Pending, url = None, error = None\<rparr>,
            js ''Cabelo M'' @ [233] @ js ''dio Despenteado'' \<mapsto> \<lparr>status = Pending, url = None, error = None\<rparr>,
            js ''Tran'' @ [231] @ js ''as Nag'' @ [244] \<mapsto> \<lparr>status = Pending, url = None, error = None\<rparr>,
            js ''Cabelo Longo Ondulado'' \<mapsto> \<lparr>status = Pending, url = None, error = None\<rparr>,
            js ''Corte Buzz (com Degrad'' @ [234] @ js '')'' \<mapsto> \<lparr>status = Done, url = Some (js ''data:image/png;base64,BB''), error = None\<rparr>],
          isLoading = True, appState = Generating, selectedGender = Some Masculino\<rparr>,
      hairstyleQueue = [js ''Coque Samurai'', js ''Cabelo M'' @ [233] @ js ''dio Despenteado'', js ''Tran'' @ [231] @ js ''as Nag'' @ [244], js ''Cabelo Longo Ondulado''],
      workers = [LoopHead, Awaiting (js ''Undercut Desconectado'')],
      runImage = js ''data:image/png;base64,AA'', runGender = Masculino, awaitingAll = True,
      retries = [], remixes = []\<rparr>)
     (js ''Undercut Desconectado'') = Some \<lparr>status = Pending, url = None, error = None\<rparr>"
proof -
  let ?c0 = "\<lparr>app = \<lparr>uploadedImage = Some (js ''data:image/png;base64,AA''),
          generatedImages =
           [js ''Corte Buzz (com Degrad'' @ [234] @ js '')'' \<mapsto> \<lparr>status = Pending, url = None, error = None\<rparr>,
            js ''Undercut Desconectado'' \<mapsto> \<lparr>status = Pending, url = None, error = None\<rparr>,
            js ''Coque Samurai'' \<mapsto> \<lparr>status = Pending, url = None, error = None\<rparr>,
            js ''Cabelo M'' @ [233] @ js ''dio Despenteado'' \<mapsto> \<lparr>status = Pending, url = None, error = None\<rparr>,
            js ''Tran'' @ [231] @ js ''as Nag'' @ [244] \<mapsto> \<lparr>status = Pending, url = None, error = None\<rparr>,
            js ''Cabelo Longo Ondulado'' \<mapsto> \<lparr>status = Pending, url = None, error = None\<rparr>],
          isLoading = True, appState = Generating, selectedGender = Some Masculino\<rparr>,
      hairstyleQueue = [js ''Corte Buzz (com Degrad'' @ [234] @ js '')'', js ''Undercut Desconectado'', js ''Coque Samurai'', js ''Cabelo M'' @ [233] @ js ''dio Despenteado'', js ''Tran'' @ [231] @ js ''as Nag'' @ [244], js ''Cabelo Longo Ondulado''],
      workers = [LoopHead, LoopHead],
      runImage = js ''data:image/png;base64,AA'', runGender = Masculino, awaitingAll = True,
      retries = [], remixes = []\<rparr>"
  let ?c1 = "\<lparr>app = \<lparr>uploadedImage = Some (js ''data:image/png;base64,AA''),
          generatedImages =
           [js ''Corte Buzz (com Degrad'' @ [234] @ js '')'' \<mapsto> \<lparr>status = Pending, url = None, error = None\<rparr>,
            js ''Undercut Desconectado'' \<mapsto> \<lparr>status = Pending, url = None, error = None\<rparr>,
            js ''Coque Samurai'' \<mapsto> \<lparr>status = Pending, url = None, error = None\<rparr>,
            js ''Cabelo M'' @ [233] @ js ''dio Despenteado'' \<mapsto> \<lparr>status = Pending, url = None, error = None\<rparr>,
            js ''Tran'' @ [231] @ js ''as Nag'' @ [244] \<mapsto> \<lparr>status = Pending, url = None, error = None\<rparr>,
            js ''Cabelo Longo Ondulado'' \<mapsto> \<lparr>status = Pending, url = None, error = None\<rparr>],
          isLoading = True, appState = Generating, selectedGender = Some Masculino\<rparr>,
      hairstyleQueue = [js ''Undercut Desconectado'', js ''Coque Samurai'', js ''Cabelo M'' @ [233] @ js ''dio Despenteado'', js ''Tran'' @ [231] @ js ''as Nag'' @ [244], js ''Cabelo Longo Ondulado''],
      workers = [Awaiting (js ''Corte Buzz (com Degrad'' @ [234] @ js '')''), LoopHead],
      runImage = js ''data:image/png;base64,AA'', runGender = Masculino, awaitingAll = True,
      retries = [], remixes = []\<rparr>"
  let ?c2 = "\<lparr>app = \<lparr>uploadedImage = Some (js ''data:image/png;base64,AA''),
          generatedImages =
           [js ''Corte Buzz (com Degrad'' @ [234] @ js '')'' \<mapsto> \<lparr>status = Pending, url = None, error = None\<rparr>,
            js ''Undercut Desconectado'' \<mapsto> \<lparr>status = Pending, url = None, error = None\<rparr>,
            js ''Coque Samurai'' \<mapsto> \<lparr>status = Pending, url = None, error = None\<rparr>,
            js ''Cabelo M'' @ [233] @ js ''dio Despenteado'' \<mapsto> \<lparr>status = Pending, url = None, error = None\<rparr>,
            js ''Tran'' @ [231] @ js ''as Nag'' @ [244] \<mapsto> \<lparr>status = Pending, url = None, error = None\<rparr>,
            js ''Cabelo Longo Ondulado'' \<mapsto> \<lparr>status = Pending, url = None, error = None\<rparr>],
          isLoading = True, appState = Generating, selectedGender = Some Masculino\<rparr>,
      hairstyleQueue = [js ''Coque Samurai'', js ''Cabelo M'' @ [233] @ js ''dio Despenteado'', js ''Tran'' @ [231] @ js ''as Nag'' @ [244], js ''Cabelo Longo Ondulado''],
      workers = [Awaiting (js ''Corte Buzz (com Degrad'' @ [234] @ js '')''), Awaiting (js ''Undercut Desconectado'')],
      runImage = js ''data:image/png;base64,AA'', runGender = Masculino, awaitingAll = True,
      retries = [], remixes = []\<rparr>"
  let ?c3 = "\<lparr>app = \<lparr>uploadedImage = Some (js ''data:image/png;base64,AA''),
          generatedImages =
           [js ''Corte Buzz (com Degrad'' @ [234] @ js '')'' \<mapsto> \<lparr>status = Pending, url = None, error = None\<rparr>,
            js ''Undercut Desconectado'' \<mapsto> \<lparr>status = Pending, url = None, error = None\<rparr>,
            js ''Coque Samurai'' \<mapsto> \<lparr>status = Pending, url = None, error = None\<rparr>,
            js ''Cabelo M'' @ [233] @ js ''dio Despenteado'' \<mapsto> \<lparr>status = Pending, url = None, error = None\<rparr>,
            js ''Tran'' @ [231] @ js ''as Nag'' @ [244] \<mapsto> \<lparr>status = Pending, url = None, error = None\<rparr>,
            js ''Cabelo Longo Ondulado'' \<mapsto> \<lparr>status = Pending, url = None, error = None\<rparr>,
            js ''Corte Buzz (com Degrad'' @ [234] @ js '')'' \<mapsto> \<lparr>status = Done, url = Some (js ''data:image/png;base64,BB''), error = None\<rparr>],
          isLoading = True, appState = Generating, selectedGender = Some Masculino\<rparr>,
      hairstyleQueue = [js ''Coque Samurai'', js ''Cabelo M'' @ [233] @ js ''dio Despenteado'', js ''Tran'' @ [231] @ js ''as Nag'' @ [244], js ''Cabelo Longo Ondulado''],
      workers = [LoopHead, Awaiting (js ''Undercut Desconectado'')],
      runImage = js ''data:image/png;base64,AA'', runGender = Masculino, awaitingAll = True,
      retries = [], remixes = []\<rparr>"
  let ?c4 = "\<lparr>app = \<lparr>uploadedImage = Some (js ''data:image/png;base64,AA''),
          generatedImages =
           [js ''Corte Buzz (com Degrad'' @ [234] @ js '')'' \<mapsto> \<lparr>status = Pending, url = None, error = None\<rparr>,
            js ''Undercut Desconectado'' \<mapsto> \<lparr>status = Pending, url = None, error = None\<rparr>,
            js ''Coque Samurai'' \<mapsto> \<lparr>status = Pending, url = None, error = None\<rparr>,
            js ''Cabelo M'' @ [233] @ js ''dio Despenteado'' \<mapsto> \<lparr>status = Pending, url = None, error = None\<rparr>,
            js ''Tran'' @ [231] @ js ''as Nag'' @ [244] \<mapsto> \<lparr>status = Pending, url = None, error = None\<rparr>,
            js ''Cabelo Longo Ondulado'' \<mapsto> \<lparr>status = Pending, url = None, error = None\<rparr>,
            js ''Corte Buzz (com Degrad'' @ [234] @ js '')'' \<mapsto> \<lparr>status = Pending, url = None, error = None\<rparr>],
          isLoading = True, appState = Generating, selectedGender = Some Masculino\<rparr>,
      hairstyleQueue = [js ''Coque Samurai'', js ''Cabelo M'' @ [233] @ js ''dio Despenteado'', js ''Tran'' @ [231] @ js ''as Nag'' @ [244], js ''Cabelo Longo Ondulado''],
      workers = [LoopHead, Awaiting (js ''Undercut Desconectado'')],
      runImage = js ''data:image/png;base64,AA'', runGender = Masculino, awaitingAll = True,
      retries = [\<lparr>callImage = js ''data:image/png;base64,AA'',
                callPrompt =
                  js ''D'' @ [234] @ js '' '' @ [224] @ js '' pessoa nesta foto um penteado '' @
                  js ''masculino'' @ js '' moderno '' @ [39] @ js ''Corte Buzz (com Degrad'' @ [234] @ js '')'' @ [39] @
                  js ''. O resultado deve ser uma imagem fotorrealista, perfeita para uma consulta de barbearia, focando na mudan'' @
                  [231] @ js ''a do penteado e preservando ao m'' @ [225] @ js ''ximo as fei'' @
                  [231, 245] @ js ''es da pessoa.'',
                callHairstyle = js ''Corte Buzz (com Degrad'' @ [234] @ js '')'', callGender = js ''masculino''\<rparr>], remixes = []\<rparr>"
  let ?c5 = "\<lparr>app = \<lparr>uploadedImage = Some (js ''data:image/png;base64,AA''),
          generatedImages =
           [js ''Corte Buzz (com Degrad'' @ [234] @ js '')'' \<mapsto> \<lparr>status = Pending, url = None, error = None\<rparr>,
            js ''Undercut Desconectado'' \<mapsto> \<lparr>status = Pending, url = None, error = None\<rparr>,
            js ''Coque Samurai'' \<mapsto> \<lparr>status = Pending, url = None, error = None\<rparr>,
            js ''Cabelo M'' @ [233] @ js ''dio Despenteado'' \<mapsto> \<lparr>status = Pending, url = None, error = None\<rparr>,
            js ''Tran'' @ [231] @ js ''as Nag'' @ [244] \<mapsto> \<lparr>status = Pending, url = None, error = None\<rparr>,
            js ''Cabelo Longo Ondulado'' \<mapsto> \<lparr>status = Pending, url = None, error = None\<rparr>,
            js ''Corte Buzz (com Degrad'' @ [234] @ js '')'' \<mapsto> \<lparr>status = Error, url = None, error = Some (js ''O modelo de IA n'' @ [227] @ js ''o conseguiu gerar uma imagem. Detalhes: '' @ js ''quota exceeded'')\<rparr>],
          isLoading = True, appState = Generating, selectedGender = Some Masculino\<rparr>,
      hairstyleQueue = [js ''Coque Samurai'', js ''Cabelo M'' @ [233] @ js ''dio Despenteado'', js ''Tran'' @ [231] @ js ''as Nag'' @ [244], js ''Cabelo Longo Ondulado''],
      workers = [LoopHead, Awaiting (js ''Undercut Desconectado'')],
      runImage = js ''data:image/png;base64,AA'', runGender = Masculino, awaitingAll = True,
      retries = [], remixes = []\<rparr>"
  let ?c6 = "\<lparr>app = \<lparr>uploadedImage = Some (js ''data:image/png;base64,AA''),
          generatedImages =
           [js ''Corte Buzz (com Degrad'' @ [234] @ js '')'' \<mapsto> \<lparr>status = Pending, url = None, error = None\<rparr>,
            js ''Undercut Desconectado'' \<mapsto> \<lparr>status = Pending, url = None, error = None\<rparr>,
            js ''Coque Samurai'' \<mapsto> \<lparr>status = Pending, url = None, error = None\<rparr>,
            js ''Cabelo M'' @ [233] @ js ''dio Despenteado'' \<mapsto> \<lparr>status = Pending, url = None, error = None\<rparr>,
            js ''Tran'' @ [231] @ js ''as Nag'' @ [244] \<mapsto> \<lparr>status = Pending, url = None, error = None\<rparr>,
            js ''Cabelo Longo Ondulado'' \<mapsto> \<lparr>status = Pending, url = None, error = None\<rparr>,
            js ''Corte Buzz (com Degrad'' @ [234] @ js '')'' \<mapsto> \<lparr>status = Pending, url = None, error = None\<rparr>],
          isLoading = True, appState = Generating, selectedGender = Some Masculino\<rparr>,
      hairstyleQueue = [js ''Coque Samurai'', js ''Cabelo M'' @ [233] @ js ''dio Despenteado'', js ''Tran'' @ [231] @ js ''as Nag'' @ [244], js ''Cabelo Longo Ondulado''],
      workers = [LoopHead, Awaiting (js ''Undercut Desconectado'')],
      runImage = js ''data:image/png;base64,AA'', runGender = Masculino, awaitingAll = True,
      retries = [\<lparr>callImage = js ''data:image/png;base64,AA'',
                callPrompt =
                  js ''D'' @ [234] @ js '' '' @ [224] @ js '' pessoa nesta foto um penteado '' @
                  js ''masculino'' @ js '' moderno '' @ [39] @ js ''Corte Buzz (com Degrad'' @ [234] @ js '')'' @ [39] @
                  js ''. O resultado deve ser uma imagem fotorrealista, perfeita para uma consulta de barbearia, focando na mudan'' @
                  [231] @ js ''a do penteado e preservando ao m'' @ [225] @ js ''ximo as fei'' @
                  [231, 245] @ js ''es da pessoa.'',
                callHairstyle = js ''Corte Buzz (com Degrad'' @ [234] @ js '')'', callGender = js ''masculino''\<rparr>], remixes = []\<rparr>"
  let ?c7 = "\<lparr>app = \<lparr>uploadedImage = Some (js ''data:image/png;base64,AA''),
          generatedImages =
           [js ''Corte Buzz (com Degrad'' @ [234] @ js '')'' \<mapsto> \<lparr>status = Pending, url = None, error = None\<rparr>,
            js ''Undercut Desconectado'' \<mapsto> \<lparr>status = Pending, url = None, error = None\<rparr>,
            js ''Coque Samurai'' \<mapsto> \<lparr>status = Pending, url = None, error = None\<rparr>,
            js ''Cabelo M'' @ [233] @ js ''dio Despenteado'' \<mapsto> \<lparr>status = Pending, url = None, error = None\<rparr>,
            js ''Tran'' @ [231] @ js ''as Nag'' @ [244] \<mapsto> \<lparr>status = Pending, url = None, error = None\<rparr>,
            js ''Cabelo Longo Ondulado'' \<mapsto> \<lparr>status = Pending, url = None, error = None\<rparr>,
            js ''Corte Buzz (com Degrad'' @ [234] @ js '')'' \<mapsto> \<lparr>status = Done, url = Some (js ''data:image/png;base64,BB''), error = None\<rparr>],
          isLoading = True, appState = Generating, selectedGender = Some Masculino\<rparr>,
      hairstyleQueue = [js ''Coque Samurai'', js ''Cabelo M'' @ [233] @ js ''dio Despenteado'', js ''Tran'' @ [231] @ js ''as Nag'' @ [244], js ''Cabelo Longo Ondulado''],
      workers = [LoopHead, Awaiting (js ''Undercut Desconectado'')],
      runImage = js ''data:image/png;base64,AA'', runGender = Masculino, awaitingAll = True,
      retries = [], remixes = []\<rparr>"
  have dec: "decode (js ''data:image/png;base64,AA'') = Inr \<lparr>mimeType = js ''image/png'', data = js ''AA''\<rparr>"
    by (simp add: decode_def dataUrlMatch_def js_def isWordChar_def isLineTerminator_def)
  have ok: "\<And>p h g. fst (generateDecadeImage (\<lambda>tr req. Inr \<lparr>parts = [\<lparr>inlineData = Some \<lparr>mimeType = js ''image/png'', data = js ''BB''\<rparr>\<rparr>], responseText = None\<rparr>) (js ''data:image/png;base64,AA'') p h g []) = Inr (js ''data:image/png;base64,BB'')"
    using generate_ok [OF dec] by (simp add: encode_def js_def)
  have nint: "\<not> isInternalError (JsError (js ''quota exceeded''))" by (simp add: isInternalError_def errorMessageOf_def js_def)
  have nnoimg: "\<not> isNoImageError (JsError (js ''quota exceeded''))" by (simp add: isNoImageError_def errorMessageOf_def noImagePhrase_def js_def)
  have fail: "\<And>p h g. fst (generateDecadeImage (\<lambda>tr req. Inl (JsError (js ''quota exceeded''))) (js ''data:image/png;base64,AA'') p h g []) = Inl (JsError (js ''O modelo de IA n'' @ [227] @ js ''o conseguiu gerar uma imagem. Detalhes: '' @ js ''quota exceeded''))"
    using generate_fail [OF dec nint nnoimg] by (simp add: unrecoverableError_def)
  have start: "startSys Masculino
     \<lparr>uploadedImage = Some (js ''data:image/png;base64,AA''), generatedImages = Map.empty,
      isLoading = False, appState = ImageUploaded, selectedGender = None\<rparr> = Some ?c0"
    by (simp add: startSys_def handleGenerate_start_def Run.extend_def hairstylesOf_def concurrencyLimit_def numeral_2_eq_2 MALE_HAIRSTYLES_def initialImages_def pendingItem_def)
       (simp add: js_def)
  have e0: "sys_exec ?c0 [] ?c0" by (rule sys_exec.sys_nil)
  have s1: "sys_step ?c0 (Pool (Dequeue 0 (js ''Corte Buzz (com Degrad'' @ [234] @ js '')''))) ?c1"
    using sys_step.pool [OF pool_step.dequeue [of 0 ?c0 "js ''Corte Buzz (com Degrad'' @ [234] @ js '')''" "tl (hairstyleQueue ?c0)"]]
    by (simp add: js_def)
  have e1: "sys_exec ?c0
     [Pool (Dequeue 0 (js ''Corte Buzz (com Degrad'' @ [234] @ js '')''))] ?c1"
    using sys_exec.sys_snoc [OF e0 s1] by simp
  have s2: "sys_step ?c1 (Pool (Dequeue 1 (js ''Undercut Desconectado''))) ?c2"
    using sys_step.pool [OF pool_step.dequeue [of 1 ?c1 "js ''Undercut Desconectado''" "tl (hairstyleQueue ?c1)"]]
    by (simp add: js_def)
  have e2: "sys_exec ?c0
     [Pool (Dequeue 0 (js ''Corte Buzz (com Degrad'' @ [234] @ js '')'')),
      Pool (Dequeue 1 (js ''Undercut Desconectado''))] ?c2"
    using sys_exec.sys_snoc [OF e1 s2] by simp
  have s3: "sys_step ?c2 (Pool (Settle 0 (js ''Corte Buzz (com Degrad'' @ [234] @ js '')'') (Inr (js ''data:image/png;base64,BB'')))) ?c3"
    using sys_step.pool [OF pool_step.settle [of 0 ?c2 "js ''Corte Buzz (com Degrad'' @ [234] @ js '')''" "Inr (js ''data:image/png;base64,BB'')" "\<lambda>tr req. Inr \<lparr>parts = [\<lparr>inlineData = Some \<lparr>mimeType = js ''image/png'', data = js ''BB''\<rparr>\<rparr>], responseText = None\<rparr>" "[]"]] ok
    by (simp add: processHairstyle_settle_def doneItem_def errorItem_def caughtMessage_def)
  have e3: "sys_exec ?c0
     [Pool (Dequeue 0 (js ''Corte Buzz (com Degrad'' @ [234] @ js '')'')),
      Pool (Dequeue 1 (js ''Undercut Desconectado'')),
      Pool (Settle 0 (js ''Corte Buzz (com Degrad'' @ [234] @ js '')'') (Inr (js ''data:image/png;base64,BB'')))] ?c3"
    using sys_exec.sys_snoc [OF e2 s3] by simp
  have s4: "sys_step ?c3 (RetryStart (js ''Corte Buzz (com Degrad'' @ [234] @ js '')'')) ?c4"
    using sys_step.retry_start [of "js ''Corte Buzz (com Degrad'' @ [234] @ js '')''" ?c3 "app ?c4" "Some (\<lparr>callImage = js ''data:image/png;base64,AA'',                 callPrompt =                   js ''D'' @ [234] @ js '' '' @ [224] @ js '' pessoa nesta foto um penteado '' @                   js ''masculino'' @ js '' moderno '' @ [39] @ js ''Corte Buzz (com Degrad'' @ [234] @ js '')'' @ [39] @                   js ''. O resultado deve ser uma imagem fotorrealista, perfeita para uma consulta de barbearia, focando na mudan'' @                   [231] @ js ''a do penteado e preservando ao m'' @ [225] @ js ''ximo as fei'' @                   [231, 245] @ js ''es da pessoa.'',                 callHairstyle = js ''Corte Buzz (com Degrad'' @ [234] @ js '')'', callGender = js ''masculino''\<rparr>)"]
    by (simp add: handleRegenerateDecade_start_def isPending_def pendingItem_def js_def stylePrompt_def genderStr_def)
  have e4: "sys_exec ?c0
     [Pool (Dequeue 0 (js ''Corte Buzz (com Degrad'' @ [234] @ js '')'')),
      Pool (Dequeue 1 (js ''Undercut Desconectado'')),
      Pool (Settle 0 (js ''Corte Buzz (com Degrad'' @ [234] @ js '')'') (Inr (js ''data:image/png;base64,BB''))),
      RetryStart (js ''Corte Buzz (com Degrad'' @ [234] @ js '')'')] ?c4"
    using sys_exec.sys_snoc [OF e3 s4] by simp
  have s5: "sys_step ?c4 (RetrySettle
       \<lparr>callImage = js ''data:image/png;base64,AA'',
                callPrompt =
                  js ''D'' @ [234] @ js '' '' @ [224] @ js '' pessoa nesta foto um penteado '' @
                  js ''masculino'' @ js '' moderno '' @ [39] @ js ''Corte Buzz (com Degrad'' @ [234] @ js '')'' @ [39] @
                  js ''. O resultado deve ser uma imagem fotorrealista, perfeita para uma consulta de barbearia, focando na mudan'' @
                  [231] @ js ''a do penteado e preservando ao m'' @ [225] @ js ''ximo as fei'' @
                  [231, 245] @ js ''es da pessoa.'',
                callHairstyle = js ''Corte Buzz (com Degrad'' @ [234] @ js '')'', callGender = js ''masculino''\<rparr>
       (Inl (JsError (js ''O modelo de IA n'' @ [227] @ js ''o conseguiu gerar uma imagem. Detalhes: '' @ js ''quota exceeded'')))) ?c5"
    using sys_step.retry_settle [of "\<lparr>callImage = js ''data:image/png;base64,AA'',                 callPrompt =                   js ''D'' @ [234] @ js '' '' @ [224] @ js '' pessoa nesta foto um penteado '' @                   js ''masculino'' @ js '' moderno '' @ [39] @ js ''Corte Buzz (com Degrad'' @ [234] @ js '')'' @ [39] @                   js ''. O resultado deve ser uma imagem fotorrealista, perfeita para uma consulta de barbearia, focando na mudan'' @                   [231] @ js ''a do penteado e preservando ao m'' @ [225] @ js ''ximo as fei'' @                   [231, 245] @ js ''es da pessoa.'',                 callHairstyle = js ''Corte Buzz (com Degrad'' @ [234] @ js '')'', callGender = js ''masculino''\<rparr>" ?c4 "Inl (JsError (js ''O modelo de IA n'' @ [227] @ js ''o conseguiu gerar uma imagem. Detalhes: '' @ js ''quota exceeded''))" "\<lambda>tr req. Inl (JsError (js ''quota exceeded''))" "[]"] fail
    by (simp add: handleRegenerateDecade_settle_def doneItem_def errorItem_def caughtMessage_def)
  have e5: "sys_exec ?c0
     [Pool (Dequeue 0 (js ''Corte Buzz (com Degrad'' @ [234] @ js '')'')),
      Pool (Dequeue 1 (js ''Undercut Desconectado'')),
      Pool (Settle 0 (js ''Corte Buzz (com Degrad'' @ [234] @ js '')'') (Inr (js ''data:image/png;base64,BB''))),
      RetryStart (js ''Corte Buzz (com Degrad'' @ [234] @ js '')''),
      RetrySettle
       \<lparr>callImage = js ''data:image/png;base64,AA'',
                callPrompt =
                  js ''D'' @ [234] @ js '' '' @ [224] @ js '' pessoa nesta foto um penteado '' @
                  js ''masculino'' @ js '' moderno '' @ [39] @ js ''Corte Buzz (com Degrad'' @ [234] @ js '')'' @ [39] @
                  js ''. O resultado deve ser uma imagem fotorrealista, perfeita para uma consulta de barbearia, focando na mudan'' @
                  [231] @ js ''a do penteado e preservando ao m'' @ [225] @ js ''ximo as fei'' @
                  [231, 245] @ js ''es da pessoa.'',
                callHairstyle = js ''Corte Buzz (com Degrad'' @ [234] @ js '')'', callGender = js ''masculino''\<rparr>
       (Inl (JsError (js ''O modelo de IA n'' @ [227] @ js ''o conseguiu gerar uma imagem. Detalhes: '' @ js ''quota exceeded'')))] ?c5"
    using sys_exec.sys_snoc [OF e4 s5] by simp
  have s6: "sys_step ?c5 (RetryStart (js ''Corte Buzz (com Degrad'' @ [234] @ js '')'')) ?c6"
    using sys_step.retry_start [of "js ''Corte Buzz (com Degrad'' @ [234] @ js '')''" ?c5 "app ?c6" "Some (\<lparr>callImage = js ''data:image/png;base64,AA'',                 callPrompt =                   js ''D'' @ [234] @ js '' '' @ [224] @ js '' pessoa nesta foto um penteado '' @                   js ''masculino'' @ js '' moderno '' @ [39] @ js ''Corte Buzz (com Degrad'' @ [234] @ js '')'' @ [39] @                   js ''. O resultado deve ser uma imagem fotorrealista, perfeita para uma consulta de barbearia, focando na mudan'' @                   [231] @ js ''a do penteado e preservando ao m'' @ [225] @ js ''ximo as fei'' @                   [231, 245] @ js ''es da pessoa.'',                 callHairstyle = js ''Corte Buzz (com Degrad'' @ [234] @ js '')'', callGender = js ''masculino''\<rparr>)"]
    by (simp add: handleRegenerateDecade_start_def isPending_def pendingItem_def js_def stylePrompt_def genderStr_def)
  have e6: "sys_exec ?c0
     [Pool (Dequeue 0 (js ''Corte Buzz (com Degrad'' @ [234] @ js '')'')),
      Pool (Dequeue 1 (js ''Undercut Desconectado'')),
      Pool (Settle 0 (js ''Corte Buzz (com Degrad'' @ [234] @ js '')'') (Inr (js ''data:image/png;base64,BB''))),
      RetryStart (js ''Corte Buzz (com Degrad'' @ [234] @ js '')''),
      RetrySettle
       \<lparr>callImage = js ''data:image/png;base64,AA'',
                callPrompt =
                  js ''D'' @ [234] @ js '' '' @ [224] @ js '' pessoa nesta foto um penteado '' @
                  js ''masculino'' @ js '' moderno '' @ [39] @ js ''Corte Buzz (com Degrad'' @ [234] @ js '')'' @ [39] @
                  js ''. O resultado deve ser uma imagem fotorrealista, perfeita para uma consulta de barbearia, focando na mudan'' @
                  [231] @ js ''a do penteado e preservando ao m'' @ [225] @ js ''ximo as fei'' @
                  [231, 245] @ js ''es da pessoa.'',
                callHairstyle = js ''Corte Buzz (com Degrad'' @ [234] @ js '')'', callGender = js ''masculino''\<rparr>
       (Inl (JsError (js ''O modelo de IA n'' @ [227] @ js ''o conseguiu gerar uma imagem. Detalhes: '' @ js ''quota exceeded''))),
      RetryStart (js ''Corte Buzz (com Degrad'' @ [234] @ js '')'')] ?c6"
    using sys_exec.sys_snoc [OF e5 s6] by simp
  have s7: "sys_step ?c6 (RetrySettle
       \<lparr>callImage = js ''data:image/png;base64,AA'',
                callPrompt =
                  js ''D'' @ [234] @ js '' '' @ [224] @ js '' pessoa nesta foto um penteado '' @
                  js ''masculino'' @ js '' moderno '' @ [39] @ js ''Corte Buzz (com Degrad'' @ [234] @ js '')'' @ [39] @
                  js ''. O resultado deve ser uma imagem fotorrealista, perfeita para uma consulta de barbearia, focando na mudan'' @
                  [231] @ js ''a do penteado e preservando ao m'' @ [225] @ js ''ximo as fei'' @
                  [231, 245] @ js ''es da pessoa.'',
                callHairstyle = js ''Corte Buzz (com Degrad'' @ [234] @ js '')'', callGender = js ''masculino''\<rparr>
       (Inr (js ''data:image/png;base64,BB''))) ?c7"
    using sys_step.retry_settle [of "\<lparr>callImage = js ''data:image/png;base64,AA'',                 callPrompt =                   js ''D'' @ [234] @ js '' '' @ [224] @ js '' pessoa nesta foto um penteado '' @                   js ''masculino'' @ js '' moderno '' @ [39] @ js ''Corte Buzz (com Degrad'' @ [234] @ js '')'' @ [39] @                   js ''. O resultado deve ser uma imagem fotorrealista, perfeita para uma consulta de barbearia, focando na mudan'' @                   [231] @ js ''a do penteado e preservando ao m'' @ [225] @ js ''ximo as fei'' @                   [231, 245] @ js ''es da pessoa.'',                 callHairstyle = js ''Corte Buzz (com Degrad'' @ [234] @ js '')'', callGender = js ''masculino''\<rparr>" ?c6 "Inr (js ''data:image/png;base64,BB'')" "\<lambda>tr req. Inr \<lparr>parts = [\<lparr>inlineData = Some \<lparr>mimeType = js ''image/png'', data = js ''BB''\<rparr>\<rparr>], responseText = None\<rparr>" "[]"] ok
    by (simp add: handleRegenerateDecade_settle_def doneItem_def errorItem_def caughtMessage_def)
  have e7: "sys_exec ?c0
     [Pool (Dequeue 0 (js ''Corte Buzz (com Degrad'' @ [234] @ js '')'')),
      Pool (Dequeue 1 (js ''Undercut Desconectado'')),
      Pool (Settle 0 (js ''Corte Buzz (com Degrad'' @ [234] @ js '')'') (Inr (js ''data:image/png;base64,BB''))),
      RetryStart (js ''Corte Buzz (com Degrad'' @ [234] @ js '')''),
      RetrySettle
       \<lparr>callImage = js ''data:image/png;base64,AA'',
                callPrompt =
                  js ''D'' @ [234] @ js '' '' @ [224] @ js '' pessoa nesta foto um penteado '' @
                  js ''masculino'' @ js '' moderno '' @ [39] @ js ''Corte Buzz (com Degrad'' @ [234] @ js '')'' @ [39] @
                  js ''. O resultado deve ser uma imagem fotorrealista, perfeita para uma consulta de barbearia, focando na mudan'' @
                  [231] @ js ''a do penteado e preservando ao m'' @ [225] @ js ''ximo as fei'' @
                  [231, 245] @ js ''es da pessoa.'',
                callHairstyle = js ''Corte Buzz (com Degrad'' @ [234] @ js '')'', callGender = js ''masculino''\<rparr>
       (Inl (JsError (js ''O modelo de IA n'' @ [227] @ js ''o conseguiu gerar uma imagem. Detalhes: '' @ js ''quota exceeded''))),
      RetryStart (js ''Corte Buzz (com Degrad'' @ [234] @ js '')''),
      RetrySettle
       \<lparr>callImage = js ''data:image/png;base64,AA'',
                callPrompt =
                  js ''D'' @ [234] @ js '' '' @ [224] @ js '' pessoa nesta foto um penteado '' @
                  js ''masculino'' @ js '' moderno '' @ [39] @ js ''Corte Buzz (com Degrad'' @ [234] @ js '')'' @ [39] @
                  js ''. O resultado deve ser uma imagem fotorrealista, perfeita para uma consulta de barbearia, focando na mudan'' @
                  [231] @ js ''a do penteado e preservando ao m'' @ [225] @ js ''ximo as fei'' @
                  [231, 245] @ js ''es da pessoa.'',
                callHairstyle = js ''Corte Buzz (com Degrad'' @ [234] @ js '')'', callGender = js ''masculino''\<rparr>
       (Inr (js ''data:image/png;base64,BB''))] ?c7"
    using sys_exec.sys_snoc [OF e6 s7] by simp
  let ?h1 = "js ''Corte Buzz (com Degrad'' @ [234] @ js '')''"
  let ?h2 = "js ''Undercut Desconectado''"
  let ?call = "\<lparr>callImage = js ''data:image/png;base64,AA'',
                callPrompt =
                  js ''D'' @ [234] @ js '' '' @ [224] @ js '' pessoa nesta foto um penteado '' @
                  js ''masculino'' @ js '' moderno '' @ [39] @ js ''Corte Buzz (com Degrad'' @ [234] @ js '')'' @ [39] @
                  js ''. O resultado deve ser uma imagem fotorrealista, perfeita para uma consulta de barbearia, focando na mudan'' @
                  [231] @ js ''a do penteado e preservando ao m'' @ [225] @ js ''ximo as fei'' @
                  [231, 245] @ js ''es da pessoa.'',
                callHairstyle = js ''Corte Buzz (com Degrad'' @ [234] @ js '')'', callGender = js ''masculino''\<rparr>"
  have np: "\<not> isPending (app ?c3) ?h1" by (simp add: isPending_def)
  have p: "isPending (app ?c3) ?h2" by (simp add: isPending_def js_def)
  from handleRegenerateDecade_frame [OF start e3, of ?h1] np
  have a: "handleRegenerateDecade_start ?h1 (app ?c3) = (app ?c4, Some ?call)" by simp
  from handleRegenerateDecade_frame [OF start e3, of ?h2] p
  have b: "handleRegenerateDecade_start ?h2 (app ?c3) = (app ?c3, None)" by blast
  from handleRegenerateDecade_frame [OF start e4, of ?h1] s5
  have c: "generatedImages (app ?c5) = (generatedImages (app ?c4))
             (callHairstyle ?call \<mapsto> \<lparr>status = Error, url = None, error = Some (js ''O modelo de IA n'' @ [227] @ js ''o conseguiu gerar uma imagem. Detalhes: '' @ js ''quota exceeded'')\<rparr>)"
    by blast
  from handleRegenerateDecade_frame [OF start e6, of ?h1] s7
  have d: "generatedImages (app ?c7) = (generatedImages (app ?c6))
             (callHairstyle ?call \<mapsto> \<lparr>status = Done, url = Some (js ''data:image/png;base64,BB''), error = None\<rparr>)"
    by blast
  have c1: "generatedImages (app ?c5) ?h1 = Some \<lparr>status = Error, url = None, error = Some (js ''O modelo de IA n'' @ [227] @ js ''o conseguiu gerar uma imagem. Detalhes: '' @ js ''quota exceeded'')\<rparr>" using c by simp
  have c2: "generatedImages (app ?c5) ?h2 = Some \<lparr>status = Pending, url = None, error = None\<rparr>" using c by (simp add: js_def)
  have c3: "generatedImages (app ?c5) (js ''Coque Samurai'') = generatedImages (app ?c4) (js ''Coque Samurai'')" using c by (simp add: js_def)
  have d1: "generatedImages (app ?c7) ?h1 = Some \<lparr>status = Done, url = Some (js ''data:image/png;base64,BB''), error = None\<rparr>" using d by simp
  have d2: "generatedImages (app ?c7) ?h2 = Some \<lparr>status = Pending, url = None, error = None\<rparr>" using d by (simp add: js_def)
  from start e3 np a p b s5 c1 c2 c3 s7 d1 d2 show ?thesis by simp
qed

end
